theory Spec2Isabelle
  imports Main "HOL-Library.AList"
begin

section \<open>The synchronous GraphQL executor\<close>

text \<open>
  The development embeds the executor that the package entry point loads (the module that
  exports \<open>execute\<close>, \<open>defaultFieldResolver\<close> and \<open>responsePathAsArray\<close>): selection
  collection, field resolution, value completion and the construction of the execution
  context. JavaScript exceptions are values (\<open>Inl\<close> of a sum, or the \<open>Throw\<close> outcome), the
  mutable error list of the execution context lives in an explicit state, and the host call
  stack is a fuel counter.
\<close>

subsection \<open>Type system references\<close>

text \<open>
  A GraphQL type object is identified by its kind and name; the two wrappers carry the
  wrapped type (\<open>ofType\<close>). Reference equality of type objects (\<open>===\<close>) is equality here.
\<close>

datatype gtype =
    ScalarT string
  | EnumT string
  | ObjectT string
  | InterfaceT string
  | UnionT string
  | InputObjectT string
  | ListT gtype
  | NonNullT gtype

fun isLeafType :: "gtype \<Rightarrow> bool" where
  "isLeafType (ScalarT n) = True"
| "isLeafType (EnumT n) = True"
| "isLeafType t = False"

fun isAbstractType :: "gtype \<Rightarrow> bool" where
  "isAbstractType (InterfaceT n) = True"
| "isAbstractType (UnionT n) = True"
| "isAbstractType t = False"

fun isNonNull :: "gtype \<Rightarrow> bool" where
  "isNonNull (NonNullT t) = True"
| "isNonNull t = False"

subsection \<open>The document\<close>

datatype astValue =
    Variable string
  | IntValue int
  | StringValue string
  | BooleanValue bool
  | NullValue
  | EnumValue string
  | ListValue "astValue list"

datatype argument = Argument (arg_name: string) (arg_value: astValue)

datatype directive = Directive (d_name: string) (d_arguments: "argument list")

datatype fieldNode =
    FieldNode (f_alias: "string option") (f_name: string) (f_arguments: "argument list")
      (f_directives: "directive list") (f_selectionSet: "selection list option")
and selection =
    Field fieldNode
  | InlineFragment "string option" "directive list" "selection list"
  | FragmentSpread string "directive list"

datatype variableDefinition =
  VariableDefinition (vd_name: string) (vd_type: gtype) (vd_default: "astValue option")

record operationDefinition =
  op_operation :: string
  op_name :: "string option"
  op_variableDefinitions :: "variableDefinition list option"
  op_selectionSet :: "selection list"

record fragmentDefinition =
  fr_name :: string
  fr_typeCondition :: "string option"
  fr_directives :: "directive list"
  fr_selectionSet :: "selection list"

datatype docDefinition =
    OperationDefinition operationDefinition
  | FragmentDefinition fragmentDefinition
  | OtherDefinition string

datatype astNode = FieldN fieldNode | DefinitionN docDefinition

subsection \<open>Response paths\<close>

datatype pathKey = Key string | Index nat

datatype responsePath = ResponsePath (prev: "responsePath option") (key: pathKey)

definition addPath :: "responsePath option \<Rightarrow> pathKey \<Rightarrow> responsePath" where
  "addPath prv k = ResponsePath prv k"

text \<open>
  \<open>responsePathAsArray\<close> walks the \<open>prev\<close> links pushing every key and reverses the array
  at the end; \<open>flattenPath\<close> is the loop, with the array built so far as accumulator.
\<close>

fun flattenPath :: "responsePath option \<Rightarrow> pathKey list \<Rightarrow> pathKey list" where
  "flattenPath None flattened = flattened"
| "flattenPath (Some (ResponsePath prv k)) flattened = flattenPath prv (flattened @ [k])"

definition responsePathAsArray :: "responsePath option \<Rightarrow> pathKey list" where
  "responsePathAsArray p = rev (flattenPath p [])"

subsection \<open>JavaScript values\<close>

text \<open>
  Numbers carry an integer payload, with not-a-number as a value of its own. An object has
  a prototype and its own properties in insertion order: \<open>{}\<close> is
  \<open>VObject ObjectPrototype []\<close> and \<open>Object.create(null)\<close> is \<open>VObject NullPrototype []\<close>.
  \<open>VError\<close> are the instances of \<open>Error\<close>; \<open>isGraphQLError\<close> tells a \<open>GraphQLError\<close>
  from a plain \<open>Error\<close>. Messages keep the interpolated parts instead of a rendered string.
\<close>

datatype val =
    VUndefined
  | VNull
  | VNaN
  | VBool bool
  | VNum int
  | VStr string
  | VArray "val list"
  | VObject objproto "(string \<times> val) list"
  | VError err
and objproto =
    ObjectPrototype
  | NullPrototype
  | Prototype val
and err =
    JSError (isGraphQLError: bool) (message: message) (nodes: "astNode list")
      (errPath: "pathKey list option") (originalError: "val option")
and message =
    MustProvideOperationName
  | CannotExecuteRequestContaining string
  | UnknownOperationNamed string
  | MustProvideAnOperation
  | SchemaNotConfiguredForMutations
  | SchemaNotConfiguredForSubscriptions
  | CanOnlyExecuteQueriesMutationsSubscriptions
  | VariablesMustBeObject
  | CannotReturnNullForNonNullable gtype string
  | ExpectedIterable gtype string
  | MissingSerializeMethod
  | ExpectedAValueOfType gtype val
  | AbstractTypeMustResolveToObjectType gtype gtype string val "gtype option"
  | RuntimeObjectTypeNotPossible gtype gtype
  | ExpectedValueOfTypeButGot gtype val
  | CannotCompleteValueOfUnexpectedType gtype
  | CannotReadPropertyOfUndefined string
  | CannotReadPropertyOfNull string
  | StringOf val
  | Text string

definition newError :: "message \<Rightarrow> val" where
  "newError m = VError (JSError False m [] None None)"

definition newGraphQLError :: "message \<Rightarrow> astNode list \<Rightarrow> val" where
  "newGraphQLError m ns = VError (JSError True m ns None None)"

fun isError :: "val \<Rightarrow> bool" where
  "isError (VError e) = True"
| "isError v = False"

text \<open>\<open>isNullish\<close>: null, undefined, or NaN.\<close>

fun isNullish :: "val \<Rightarrow> bool" where
  "isNullish VUndefined = True"
| "isNullish VNull = True"
| "isNullish VNaN = True"
| "isNullish v = False"

fun falsy :: "val \<Rightarrow> bool" where
  "falsy VUndefined = True"
| "falsy VNull = True"
| "falsy VNaN = True"
| "falsy (VBool b) = (\<not> b)"
| "falsy (VNum n) = (n = 0)"
| "falsy (VStr s) = (s = [])"
| "falsy v = False"

fun typeofObject :: "val \<Rightarrow> bool" where
  "typeofObject VNull = True"
| "typeofObject (VArray xs) = True"
| "typeofObject (VObject p ps) = True"
| "typeofObject (VError e) = True"
| "typeofObject v = False"

subsection \<open>Schema, execution context and collaborators\<close>

type_synonym args = "(string \<times> val) list"

record info =
  i_fieldName :: string
  i_fieldNodes :: "fieldNode list"
  i_returnType :: gtype
  i_parentType :: gtype
  i_path :: responsePath
  i_fragments :: "(string \<times> fragmentDefinition) list"
  i_rootValue :: val
  i_operation :: operationDefinition
  i_variableValues :: args

text \<open>
  A resolver receives the source value, the coerced arguments, the context value and the
  resolution info. It may throw (\<open>Inl\<close>) and it may have side effects, which act on a
  world \<open>'w\<close> of the host application. The info record is the one of \<open>buildResolveInfo\<close>
  without its \<open>schema\<close> entry, which is the schema of the execution context.
\<close>

type_synonym 'w resolver = "val \<Rightarrow> args \<Rightarrow> val \<Rightarrow> info \<Rightarrow> 'w \<Rightarrow> (val + val) \<times> 'w"

record 'w fieldDef =
  fd_name :: string
  fd_type :: gtype
  fd_resolve :: "'w resolver option"

text \<open>What a \<open>resolveType\<close> function of an abstract type returns.\<close>

datatype typeOrName = TypeRef gtype | TypeName string | NoType

text \<open>
  The schema is the external schema object. The members of a type object that the executor
  reads (\<open>getFields\<close>, \<open>serialize\<close>, \<open>isTypeOf\<close>, \<open>resolveType\<close>) are tabulated by type;
  \<open>None\<close> is a member that is not defined. \<open>isTypeOf\<close> yields the truthiness of what the
  predicate returns.
\<close>

record 'w schema =
  getQueryType :: gtype
  getMutationType :: "gtype option"
  getSubscriptionType :: "gtype option"
  getType :: "string \<Rightarrow> gtype option"
  getPossibleTypes :: "gtype \<Rightarrow> gtype list"
  isPossibleType :: "gtype \<Rightarrow> gtype \<Rightarrow> bool"
  getFields :: "gtype \<Rightarrow> string \<Rightarrow> 'w fieldDef option"
  serialize :: "gtype \<Rightarrow> (val \<Rightarrow> val + val) option"
  isTypeOf :: "gtype \<Rightarrow> (val \<Rightarrow> val \<Rightarrow> info \<Rightarrow> val + bool) option"
  resolveType :: "gtype \<Rightarrow> (val \<Rightarrow> val \<Rightarrow> info \<Rightarrow> val + typeOrName) option"

text \<open>
  The execution context, without its \<open>errors\<close> array: the array is the only part that a
  run mutates, and it is the \<open>errors\<close> field of the state below.
\<close>

record 'w exeContext =
  schema :: "'w schema"
  fragments :: "(string \<times> fragmentDefinition) list"
  rootValue :: val
  contextValue :: val
  operation :: operationDefinition
  variableValues :: args
  fieldResolver :: "'w resolver"

text \<open>
  The functions and constants that the module imports and that are not part of it are
  parameters: argument and variable coercion (for a field, whose node is \<open>fieldNodes[0]\<close>
  and is \<open>None\<close> when the array is empty, and for a directive), the lookup
  of a named type, the annotation of an error with nodes and path, the collection test and
  the enumeration of \<open>iterall\<close>, and the three introspection meta fields.

  \<open>defaultFieldResolver\<close> is a function of the module itself: it reads the property of the
  source that has the name of the field and, when the property is a function, calls it.
  The values of this model contain no functions, so the resolver is a parameter as well,
  and what is proved holds for every resolver in its place.
\<close>

record 'w lib =
  getArgumentValues :: "'w fieldDef \<Rightarrow> fieldNode option \<Rightarrow> args \<Rightarrow> val + args"
  getDirectiveArgumentValues :: "string \<Rightarrow> directive \<Rightarrow> args \<Rightarrow> val + args"
  getVariableValues :: "'w schema \<Rightarrow> variableDefinition list \<Rightarrow> val \<Rightarrow> val + args"
  typeFromAST :: "'w schema \<Rightarrow> string \<Rightarrow> gtype option"
  locatedError :: "val \<Rightarrow> fieldNode list \<Rightarrow> pathKey list \<Rightarrow> err"
  isCollection :: "val \<Rightarrow> bool"
  collectionItems :: "val \<Rightarrow> val list"
  SchemaMetaFieldDef :: "'w fieldDef"
  TypeMetaFieldDef :: "'w fieldDef"
  TypeNameMetaFieldDef :: "'w fieldDef"
  defaultFieldResolver :: "'w resolver"

definition GraphQLSkipDirective_name :: string where
  "GraphQLSkipDirective_name = ''skip''"

definition GraphQLIncludeDirective_name :: string where
  "GraphQLIncludeDirective_name = ''include''"

text \<open>
  The state of a run: the error list of the execution context, the world of the host
  application, and the log of the resolver invocations made so far (source, arguments and
  info of each call), which the program does not have and which serves to state what was
  invoked and in which order.
\<close>

record 'w state =
  errors :: "val list"
  world :: "'w"
  calls :: "(val \<times> args \<times> info) list"

text \<open>
  A call returns a value, throws a value, or exhausts the call stack (\<open>Timeout\<close>, when the
  fuel of the model runs out).
\<close>

datatype 'a outcome = Ok 'a | Throw val | Timeout

subsection \<open>Selection collection\<close>

text \<open>
  \<open>skipIf === true\<close> and \<open>includeIf === false\<close> compare the coerced \<open>if\<close> entry with the
  two boolean constants; the first case expression below is the \<open>@skip\<close> block and yields
  whether the function returns false there.
\<close>

definition shouldIncludeNode ::
  "'w lib \<Rightarrow> 'w exeContext \<Rightarrow> directive list \<Rightarrow> val + bool" where
  "shouldIncludeNode lib exeContext directives =
     (case (case find (\<lambda>directive. d_name directive = GraphQLSkipDirective_name) directives of
              None \<Rightarrow> Inr False
            | Some skipNode \<Rightarrow>
                (case getDirectiveArgumentValues lib GraphQLSkipDirective_name skipNode
                        (variableValues exeContext) of
                   Inl e \<Rightarrow> Inl e
                 | Inr a \<Rightarrow> Inr (map_of a ''if'' = Some (VBool True)))) of
        Inl e \<Rightarrow> Inl e
      | Inr True \<Rightarrow> Inr False
      | Inr False \<Rightarrow>
          (case find (\<lambda>directive. d_name directive = GraphQLIncludeDirective_name) directives of
             None \<Rightarrow> Inr True
           | Some includeNode \<Rightarrow>
               (case getDirectiveArgumentValues lib GraphQLIncludeDirective_name includeNode
                       (variableValues exeContext) of
                  Inl e \<Rightarrow> Inl e
                | Inr a \<Rightarrow> Inr (map_of a ''if'' \<noteq> Some (VBool False)))))"

text \<open>
  The second argument is the \<open>typeCondition\<close> of the fragment definition or inline
  fragment, \<open>None\<close> when the node has none.
\<close>

definition doesFragmentConditionMatch ::
  "'w lib \<Rightarrow> 'w exeContext \<Rightarrow> string option \<Rightarrow> gtype \<Rightarrow> bool" where
  "doesFragmentConditionMatch lib exeContext typeConditionNode t =
     (case typeConditionNode of
        None \<Rightarrow> True
      | Some tc \<Rightarrow>
          (case typeFromAST lib (schema exeContext) tc of
             None \<Rightarrow> False
           | Some conditionalType \<Rightarrow>
               if conditionalType = t then True
               else if isAbstractType conditionalType
                 then isPossibleType (schema exeContext) conditionalType t
               else False))"

definition getFieldEntryKey :: "fieldNode \<Rightarrow> string" where
  "getFieldEntryKey node = (case f_alias node of Some a \<Rightarrow> a | None \<Rightarrow> f_name node)"

text \<open>
  The fields grouping is an object without prototype whose keys are response names, so
  the order of its keys is the order of their insertion. \<open>addField\<close> is
  \<open>if (!fields[name]) fields[name] = []; fields[name].push(selection)\<close>.
\<close>

type_synonym grouping = "(string \<times> fieldNode list) list"

definition addField :: "string \<Rightarrow> fieldNode \<Rightarrow> grouping \<Rightarrow> grouping" where
  "addField k node flds =
     (case map_of flds k of
        None \<Rightarrow> flds @ [(k, [node])]
      | Some ns \<Rightarrow> AList.update k (ns @ [node]) flds)"

text \<open>
  The loop over \<open>selectionSet.selections\<close> is the recursion on the list; \<open>continue\<close> and
  \<open>break\<close> both go on with the rest of the list. The two accumulators are mutated in
  place by the source and returned here. A throw of directive evaluation leaves the
  function.
\<close>

function collectFields ::
  "'w lib \<Rightarrow> 'w exeContext \<Rightarrow> gtype \<Rightarrow> selection list \<Rightarrow> grouping \<Rightarrow> string set
     \<Rightarrow> val + (grouping \<times> string set)" where
  "collectFields lib exeContext runtimeType [] flds visitedFragmentNames =
     Inr (flds, visitedFragmentNames)"
| "collectFields lib exeContext runtimeType (Field node # rest) flds visitedFragmentNames =
     (case shouldIncludeNode lib exeContext (f_directives node) of
        Inl e \<Rightarrow> Inl e
      | Inr False \<Rightarrow> collectFields lib exeContext runtimeType rest flds visitedFragmentNames
      | Inr True \<Rightarrow>
          collectFields lib exeContext runtimeType rest
            (addField (getFieldEntryKey node) node flds) visitedFragmentNames)"
| "collectFields lib exeContext runtimeType (InlineFragment tc ds sels # rest) flds
       visitedFragmentNames =
     (case shouldIncludeNode lib exeContext ds of
        Inl e \<Rightarrow> Inl e
      | Inr inc \<Rightarrow>
          if \<not> inc \<or> \<not> doesFragmentConditionMatch lib exeContext tc runtimeType
          then collectFields lib exeContext runtimeType rest flds visitedFragmentNames
          else (case collectFields lib exeContext runtimeType sels flds visitedFragmentNames of
                  Inl e \<Rightarrow> Inl e
                | Inr (flds', visited') \<Rightarrow>
                    collectFields lib exeContext runtimeType rest flds' visited'))"
| "collectFields lib exeContext runtimeType (FragmentSpread fragName ds # rest) flds
       visitedFragmentNames =
     (if fragName \<in> visitedFragmentNames
      then collectFields lib exeContext runtimeType rest flds visitedFragmentNames
      else (case shouldIncludeNode lib exeContext ds of
              Inl e \<Rightarrow> Inl e
            | Inr False \<Rightarrow> collectFields lib exeContext runtimeType rest flds visitedFragmentNames
            | Inr True \<Rightarrow>
                (case map_of (fragments exeContext) fragName of
                   None \<Rightarrow>
                     collectFields lib exeContext runtimeType rest flds
                       (insert fragName visitedFragmentNames)
                 | Some fragment \<Rightarrow>
                     if \<not> doesFragmentConditionMatch lib exeContext (fr_typeCondition fragment)
                            runtimeType
                     then collectFields lib exeContext runtimeType rest flds
                            (insert fragName visitedFragmentNames)
                     else (case collectFields lib exeContext runtimeType
                                  (fr_selectionSet fragment) flds
                                  (insert fragName visitedFragmentNames) of
                             Inl e \<Rightarrow> Inl e
                           | Inr (flds', visited') \<Rightarrow>
                               collectFields lib exeContext runtimeType rest flds' visited'))))"
  by pat_completeness auto


text \<open>
  Termination: a recursive call into a fragment marks a name that was not marked before
  and that the document defines, and the marks only grow; otherwise the selections shrink.
\<close>

lemma collectFields_visited_mono:
  "collectFields_dom (lib, exeContext, runtimeType, sels, flds, visited) \<Longrightarrow>
   collectFields lib exeContext runtimeType sels flds visited = Inr (flds', visited') \<Longrightarrow>
   visited \<subseteq> visited'"
proof (induction lib exeContext runtimeType sels flds visited arbitrary: flds' visited'
    rule: collectFields.pinduct)
  case (1 lib exeContext runtimeType flds visitedFragmentNames)
  then show ?case by (simp add: collectFields.psimps)
next
  case (2 lib exeContext runtimeType node rest flds visitedFragmentNames)
  then show ?case
    by (auto simp: collectFields.psimps split: sum.splits bool.splits)
next
  case (3 lib exeContext runtimeType tc ds sels rest flds visitedFragmentNames)
  from "3.prems" "3.hyps" show ?case
    apply (simp add: collectFields.psimps split: sum.splits if_splits prod.splits)
    using "3.IH" apply blast
    using "3.IH" apply blast
    using "3.IH" apply blast
    done
next
  case (4 lib exeContext runtimeType fragName ds rest flds visitedFragmentNames)
  note eq = "4.prems" [unfolded collectFields.psimps(4) [OF "4.hyps"]]
  show ?case
  proof (cases "fragName \<in> visitedFragmentNames")
    case True
    with eq have "collectFields lib exeContext runtimeType rest flds visitedFragmentNames
        = Inr (flds', visited')"
      by simp
    with True "4.IH"(1) show ?thesis by blast
  next
    case notVisited: False
    show ?thesis
    proof (cases "shouldIncludeNode lib exeContext ds")
      case (Inl e)
      with eq notVisited show ?thesis by simp
    next
      case (Inr inc)
      show ?thesis
      proof (cases inc)
        case False
        with eq notVisited Inr
        have "collectFields lib exeContext runtimeType rest flds visitedFragmentNames
            = Inr (flds', visited')"
          by simp
        with notVisited Inr False "4.IH"(6) show ?thesis by blast
      next
        case True
        show ?thesis
        proof (cases "map_of (fragments exeContext) fragName")
          case None
          with eq notVisited Inr True
          have "collectFields lib exeContext runtimeType rest flds
              (insert fragName visitedFragmentNames) = Inr (flds', visited')"
            by simp
          with notVisited Inr True None "4.IH"(2)
          have "insert fragName visitedFragmentNames \<subseteq> visited'" by blast
          then show ?thesis by simp
        next
          case (Some fragment)
          show ?thesis
          proof (cases "doesFragmentConditionMatch lib exeContext (fr_typeCondition fragment)
              runtimeType")
            case False
            with eq notVisited Inr True Some
            have "collectFields lib exeContext runtimeType rest flds
                (insert fragName visitedFragmentNames) = Inr (flds', visited')"
              by simp
            with notVisited Inr True Some False "4.IH"(3)
            have "insert fragName visitedFragmentNames \<subseteq> visited'" by blast
            then show ?thesis by simp
          next
            case matches: True
            show ?thesis
            proof (cases "collectFields lib exeContext runtimeType (fr_selectionSet fragment)
                flds (insert fragName visitedFragmentNames)")
              case (Inl e)
              with eq notVisited Inr True Some matches show ?thesis by simp
            next
              case inner: (Inr r)
              obtain flds1 visited1 where r: "r = (flds1, visited1)" by (cases r)
              from notVisited Inr True Some matches inner r "4.IH"(4)
              have sub1: "insert fragName visitedFragmentNames \<subseteq> visited1" by blast
              from eq notVisited Inr True Some matches inner r
              have "collectFields lib exeContext runtimeType rest flds1 visited1
                  = Inr (flds', visited')"
                by simp
              with notVisited Inr True Some matches inner r "4.IH"(5)
              have "visited1 \<subseteq> visited'" by blast
              with sub1 show ?thesis by blast
            qed
          qed
        qed
      qed
    qed
  qed
qed

lemma card_unvisited_mono:
  "finite F \<Longrightarrow> visited \<subseteq> visited' \<Longrightarrow> card (F - visited') \<le> card (F - visited)"
  by (rule card_mono) auto

lemma card_unvisited_less:
  "finite F \<Longrightarrow> x \<in> F \<Longrightarrow> x \<notin> visited \<Longrightarrow> insert x visited \<subseteq> visited' \<Longrightarrow>
   card (F - visited') < card (F - visited)"
  by (rule psubset_card_mono) auto

lemma map_of_Some_in_keys: "map_of xs k = Some v \<Longrightarrow> k \<in> fst ` set xs"
  by (metis domI dom_map_of_conv_image_fst)

termination collectFields
proof (relation "inv_image (less_than <*lex*> less_than)
    (\<lambda>(lib, exeContext, runtimeType, sels, flds, visited).
       (card (fst ` set (fragments exeContext) - visited), size_list size sels))", goal_cases)
  case 1
  show ?case by (rule wf_inv_image, rule wf_lex_prod, rule wf_less_than, rule wf_less_than)
next
  case 2 then show ?case by simp
next
  case 3 then show ?case by simp
next
  case 4 then show ?case by simp
next
  case 5 then show ?case by simp
next
  case (6 lib exeContext runtimeType tc ds sels rest flds visitedFragmentNames b ba x y)
  from 6 have "collectFields lib exeContext runtimeType sels flds visitedFragmentNames = Inr (x, y)"
    by simp
  with 6 have "visitedFragmentNames \<subseteq> y"
    by (intro collectFields_visited_mono)
  then have "card (fst ` set (fragments exeContext) - y)
      \<le> card (fst ` set (fragments exeContext) - visitedFragmentNames)"
    by (intro card_unvisited_mono) auto
  moreover from 6 have "ba = (x, y)" by simp
  ultimately show ?case by (simp add: le_less)
next
  case 7 then show ?case by simp
next
  case (8 lib exeContext runtimeType fragName ds rest flds visitedFragmentNames b)
  have "card (fst ` set (fragments exeContext) - insert fragName visitedFragmentNames)
      \<le> card (fst ` set (fragments exeContext) - visitedFragmentNames)"
    by (intro card_unvisited_mono) auto
  then show ?case by (simp add: le_less)
next
  case (9 lib exeContext runtimeType fragName ds rest flds visitedFragmentNames b x2)
  have "card (fst ` set (fragments exeContext) - insert fragName visitedFragmentNames)
      \<le> card (fst ` set (fragments exeContext) - visitedFragmentNames)"
    by (intro card_unvisited_mono) auto
  then show ?case by (simp add: le_less)
next
  case (10 lib exeContext runtimeType fragName ds rest flds visitedFragmentNames b x2)
  then have "fragName \<in> fst ` set (fragments exeContext)"
    by (intro map_of_Some_in_keys)
  with 10 have "card (fst ` set (fragments exeContext) - insert fragName visitedFragmentNames)
      < card (fst ` set (fragments exeContext) - visitedFragmentNames)"
    by (intro card_unvisited_less [where x = fragName]) simp_all
  then show ?case by simp
next
  case (11 lib exeContext runtimeType fragName ds rest flds visitedFragmentNames b x2 ba x y)
  from 11 have "collectFields lib exeContext runtimeType (fr_selectionSet x2) flds
      (insert fragName visitedFragmentNames) = Inr (x, y)"
    by simp
  with 11 have sub: "insert fragName visitedFragmentNames \<subseteq> y"
    by (intro collectFields_visited_mono)
  from 11 have "fragName \<in> fst ` set (fragments exeContext)"
    by (intro map_of_Some_in_keys)
  with sub 11 have "card (fst ` set (fragments exeContext) - y)
      < card (fst ` set (fragments exeContext) - visitedFragmentNames)"
    by (intro card_unvisited_less [where x = fragName]) simp_all
  moreover from 11 have "ba = (x, y)" by simp
  ultimately show ?case by simp
next
  case 12 then show ?case by simp
qed

subsection \<open>Objects under assignment\<close>

text \<open>
  \<open>obj[k] = v\<close> on an object creates or overwrites an own property, except for the key
  \<open>__proto__\<close> on an object that inherits from \<open>Object.prototype\<close>: there the assignment
  runs the inherited accessor, which replaces the prototype when \<open>v\<close> is an object or null
  and does nothing otherwise, and no own property appears. Arrays and errors inherit from
  \<open>Object.prototype\<close>.
\<close>

fun inheritsObjectPrototype :: "val \<Rightarrow> bool"
and chainHasObjectPrototype :: "objproto \<Rightarrow> bool" where
  "inheritsObjectPrototype (VObject p ps) = chainHasObjectPrototype p"
| "inheritsObjectPrototype (VArray xs) = True"
| "inheritsObjectPrototype (VError e) = True"
| "inheritsObjectPrototype VUndefined = False"
| "inheritsObjectPrototype VNull = False"
| "inheritsObjectPrototype VNaN = False"
| "inheritsObjectPrototype (VBool b) = False"
| "inheritsObjectPrototype (VNum n) = False"
| "inheritsObjectPrototype (VStr s) = False"
| "chainHasObjectPrototype ObjectPrototype = True"
| "chainHasObjectPrototype NullPrototype = False"
| "chainHasObjectPrototype (Prototype v) = inheritsObjectPrototype v"

fun isObject :: "val \<Rightarrow> bool" where
  "isObject (VObject p ps) = True"
| "isObject (VArray xs) = True"
| "isObject (VError e) = True"
| "isObject v = False"

fun assignProp :: "val \<Rightarrow> string \<Rightarrow> val \<Rightarrow> val" where
  "assignProp (VObject p ps) k v =
     (if k = ''__proto__'' \<and> chainHasObjectPrototype p
      then (if isObject v then VObject (Prototype v) ps
            else if v = VNull then VObject NullPrototype ps
            else VObject p ps)
      else VObject p (AList.update k v ps))"
| "assignProp obj k v = obj"


subsection \<open>Field resolution\<close>

definition getFieldDef :: "'w lib \<Rightarrow> 'w schema \<Rightarrow> gtype \<Rightarrow> string \<Rightarrow> 'w fieldDef option" where
  "getFieldDef lib sch parentType fieldName =
     (if fieldName = fd_name (SchemaMetaFieldDef lib) \<and> getQueryType sch = parentType
        then Some (SchemaMetaFieldDef lib)
      else if fieldName = fd_name (TypeMetaFieldDef lib) \<and> getQueryType sch = parentType
        then Some (TypeMetaFieldDef lib)
      else if fieldName = fd_name (TypeNameMetaFieldDef lib)
        then Some (TypeNameMetaFieldDef lib)
      else getFields sch parentType fieldName)"

text \<open>\<open>fieldNodes[0].name.value\<close> on an empty array is a \<open>TypeError\<close>.\<close>

fun buildResolveInfo ::
  "'w exeContext \<Rightarrow> 'w fieldDef \<Rightarrow> fieldNode list \<Rightarrow> gtype \<Rightarrow> responsePath \<Rightarrow> val + info" where
  "buildResolveInfo exeContext fieldDef [] parentType path =
     Inl (newError (CannotReadPropertyOfUndefined ''name''))"
| "buildResolveInfo exeContext fieldDef (node # ns) parentType path =
     Inr \<lparr> i_fieldName = f_name node,
           i_fieldNodes = node # ns,
           i_returnType = fd_type fieldDef,
           i_parentType = parentType,
           i_path = path,
           i_fragments = fragments exeContext,
           i_rootValue = rootValue exeContext,
           i_operation = operation exeContext,
           i_variableValues = variableValues exeContext \<rparr>"

definition firstNode :: "fieldNode list \<Rightarrow> fieldNode option" where
  "firstNode fieldNodes = (case fieldNodes of [] \<Rightarrow> None | node # ns \<Rightarrow> Some node)"

text \<open>The \<open>catch\<close> clause of \<open>resolveFieldValueOrError\<close>.\<close>

definition asError :: "val \<Rightarrow> val" where
  "asError error = (if isError error then error else newError (StringOf error))"

text \<open>
  The whole body is inside \<open>try\<close>, so the function always returns. The invocation of the
  resolver is appended to the log, and the world is what the resolver leaves, also when it
  throws.
\<close>

definition resolveFieldValueOrError ::
  "'w lib \<Rightarrow> 'w exeContext \<Rightarrow> 'w fieldDef \<Rightarrow> fieldNode list \<Rightarrow> 'w resolver \<Rightarrow> val \<Rightarrow> info
     \<Rightarrow> 'w state \<Rightarrow> val \<times> 'w state" where
  "resolveFieldValueOrError lib exeContext fieldDef fieldNodes resolveFn source info st =
     (case getArgumentValues lib fieldDef (firstNode fieldNodes) (variableValues exeContext) of
        Inl error \<Rightarrow> (asError error, st)
      | Inr as \<Rightarrow>
          (case resolveFn source as (contextValue exeContext) info (world st) of
             (Inr v, w) \<Rightarrow> (v, st\<lparr>world := w, calls := calls st @ [(source, as, info)]\<rparr>)
           | (Inl error, w) \<Rightarrow>
               (asError error, st\<lparr>world := w, calls := calls st @ [(source, as, info)]\<rparr>)))"

subsection \<open>Value completion\<close>

text \<open>\<open>returnType.serialize\<close> is read from the schema's table of type members.\<close>

definition completeLeafValue :: "'w schema \<Rightarrow> gtype \<Rightarrow> val \<Rightarrow> val + val" where
  "completeLeafValue sch returnType result =
     (case serialize sch returnType of
        None \<Rightarrow> Inl (newError MissingSerializeMethod)
      | Some f \<Rightarrow>
          (case f result of
             Inl e \<Rightarrow> Inl e
           | Inr serializedResult \<Rightarrow>
               if isNullish serializedResult
               then Inl (newError (ExpectedAValueOfType returnType result))
               else Inr serializedResult))"

text \<open>
  The loop of \<open>defaultResolveTypeFn\<close> over the possible types; falling off the loop returns
  undefined, which is \<open>NoType\<close>.
\<close>

fun firstTypeOf ::
  "'w schema \<Rightarrow> gtype list \<Rightarrow> val \<Rightarrow> val \<Rightarrow> info \<Rightarrow> val + typeOrName" where
  "firstTypeOf sch [] v context info = Inr NoType"
| "firstTypeOf sch (t # ts) v context info =
     (case isTypeOf sch t of
        None \<Rightarrow> firstTypeOf sch ts v context info
      | Some p \<Rightarrow>
          (case p v context info of
             Inl e \<Rightarrow> Inl e
           | Inr True \<Rightarrow> Inr (TypeRef t)
           | Inr False \<Rightarrow> firstTypeOf sch ts v context info))"

text \<open>\<open>info.schema\<close> is the first argument.\<close>

definition defaultResolveTypeFn ::
  "'w schema \<Rightarrow> val \<Rightarrow> val \<Rightarrow> info \<Rightarrow> gtype \<Rightarrow> val + typeOrName" where
  "defaultResolveTypeFn sch v context info abstractType =
     firstTypeOf sch (getPossibleTypes sch abstractType) v context info"

definition ensureValidRuntimeType ::
  "typeOrName \<Rightarrow> 'w exeContext \<Rightarrow> gtype \<Rightarrow> fieldNode list \<Rightarrow> info \<Rightarrow> val \<Rightarrow> val + gtype" where
  "ensureValidRuntimeType runtimeTypeOrName exeContext returnType fieldNodes info result =
     (let runtimeType =
            (case runtimeTypeOrName of
               TypeName s \<Rightarrow> getType (schema exeContext) s
             | TypeRef t \<Rightarrow> Some t
             | NoType \<Rightarrow> None)
      in case runtimeType of
           Some (ObjectT n) \<Rightarrow>
             if \<not> isPossibleType (schema exeContext) returnType (ObjectT n)
             then Inl (newGraphQLError (RuntimeObjectTypeNotPossible (ObjectT n) returnType)
                         (map FieldN fieldNodes))
             else Inr (ObjectT n)
         | _ \<Rightarrow>
             Inl (newGraphQLError
                    (AbstractTypeMustResolveToObjectType returnType (i_parentType info)
                       (i_fieldName info) result runtimeType)
                    (map FieldN fieldNodes)))"

definition invalidReturnTypeError :: "gtype \<Rightarrow> val \<Rightarrow> fieldNode list \<Rightarrow> val" where
  "invalidReturnTypeError returnType result fieldNodes =
     newGraphQLError (ExpectedValueOfTypeButGot returnType result) (map FieldN fieldNodes)"

text \<open>The loop of \<open>collectAndExecuteSubfields\<close> over the field nodes.\<close>

fun collectSubFieldNodes ::
  "'w lib \<Rightarrow> 'w exeContext \<Rightarrow> gtype \<Rightarrow> fieldNode list \<Rightarrow> grouping \<Rightarrow> string set
     \<Rightarrow> val + (grouping \<times> string set)" where
  "collectSubFieldNodes lib exeContext returnType [] subFieldNodes visitedFragmentNames =
     Inr (subFieldNodes, visitedFragmentNames)"
| "collectSubFieldNodes lib exeContext returnType (node # ns) subFieldNodes visitedFragmentNames =
     (case f_selectionSet node of
        None \<Rightarrow>
          collectSubFieldNodes lib exeContext returnType ns subFieldNodes visitedFragmentNames
      | Some selectionSet \<Rightarrow>
          (case collectFields lib exeContext returnType selectionSet subFieldNodes
                  visitedFragmentNames of
             Inl e \<Rightarrow> Inl e
           | Inr (subFieldNodes', visited') \<Rightarrow>
               collectSubFieldNodes lib exeContext returnType ns subFieldNodes' visited'))"

text \<open>
  \<open>Array.prototype.reduce\<close> and \<open>forEach\<close> with a callback that may throw: the first
  throw leaves the loop.
\<close>

fun reduceM ::
  "('b \<Rightarrow> 'a \<Rightarrow> 's \<Rightarrow> 'b outcome \<times> 's) \<Rightarrow> 'a list \<Rightarrow> 'b \<Rightarrow> 's \<Rightarrow> 'b outcome \<times> 's" where
  "reduceM f [] acc st = (Ok acc, st)"
| "reduceM f (x # xs) acc st =
     (case f acc x st of
        (Ok acc', st') \<Rightarrow> reduceM f xs acc' st'
      | (Throw e, st') \<Rightarrow> (Throw e, st')
      | (Timeout, st') \<Rightarrow> (Timeout, st'))"

text \<open>
  The executor proper. Its functions call one another, so they are one function \<open>run\<close> over
  the call to make, defined by recursion on the fuel: every call consumes one unit, and the
  fuel bounds the depth of the call stack. The functions of the source are \<open>run\<close> at
  their call, and the equations after the definitions give each of them in terms of the
  others, as the source has them. \<open>Object.keys(fields)\<close> with \<open>fields[responseName]\<close>
  enumerates the entries of the grouping.
\<close>

datatype call =
    ExecuteFields gtype val "responsePath option" grouping
  | ResolveField gtype val "fieldNode list" responsePath
  | CompleteValueCatchingError gtype "fieldNode list" info responsePath val
  | CompleteValueWithLocatedError gtype "fieldNode list" info responsePath val
  | CompleteValue gtype "fieldNode list" info responsePath val
  | CompleteListValue gtype "fieldNode list" info responsePath val
  | CompleteAbstractValue gtype "fieldNode list" info responsePath val
  | CompleteObjectValue gtype "fieldNode list" info responsePath val
  | CollectAndExecuteSubfields gtype "fieldNode list" info responsePath val

primrec run ::
  "nat \<Rightarrow> 'w lib \<Rightarrow> 'w exeContext \<Rightarrow> call \<Rightarrow> 'w state \<Rightarrow> val outcome \<times> 'w state" where
  "run 0 lib exeContext c st = (Timeout, st)"
| "run (Suc n) lib exeContext c st =
     (case c of
        ExecuteFields parentType sourceValue path flds \<Rightarrow>
          (reduceM
            (\<lambda>results (responseName, fieldNodes) st1.
               case run n lib exeContext
                      (ResolveField parentType sourceValue fieldNodes
                         (addPath path (Key responseName))) st1 of
                 (Ok result, st2) \<Rightarrow>
                   if result = VUndefined then (Ok results, st2)
                   else (Ok (assignProp results responseName result), st2)
               | (Throw e, st2) \<Rightarrow> (Throw e, st2)
               | (Timeout, st2) \<Rightarrow> (Timeout, st2))
            flds (VObject NullPrototype []) st)
      | ResolveField parentType source fieldNodes path \<Rightarrow>
          (case fieldNodes of
             [] \<Rightarrow> (Throw (newError (CannotReadPropertyOfUndefined ''name'')), st)
           | fieldNode # ns \<Rightarrow>
               (case getFieldDef lib (schema exeContext) parentType (f_name fieldNode) of
                  None \<Rightarrow> (Ok VUndefined, st)
                | Some fieldDef \<Rightarrow>
                    (case buildResolveInfo exeContext fieldDef fieldNodes parentType path of
                       Inl e \<Rightarrow> (Throw e, st)
                     | Inr info \<Rightarrow>
                         (case resolveFieldValueOrError lib exeContext fieldDef fieldNodes
                                 (case fd_resolve fieldDef of
                                    Some r \<Rightarrow> r
                                  | None \<Rightarrow> fieldResolver exeContext)
                                 source info st of
                            (result, st1) \<Rightarrow>
                              run n lib exeContext
                                (CompleteValueCatchingError (fd_type fieldDef) fieldNodes info
                                   path result) st1))))
      | CompleteValueCatchingError returnType fieldNodes info path result \<Rightarrow>
          (if isNonNull returnType
           then run n lib exeContext
                  (CompleteValueWithLocatedError returnType fieldNodes info path result) st
           else (case run n lib exeContext
                        (CompleteValueWithLocatedError returnType fieldNodes info path result)
                        st of
                   (Ok completed, st1) \<Rightarrow> (Ok completed, st1)
                 | (Throw error, st1) \<Rightarrow> (Ok VNull, st1\<lparr>errors := errors st1 @ [error]\<rparr>)
                 | (Timeout, st1) \<Rightarrow> (Timeout, st1)))
      | CompleteValueWithLocatedError returnType fieldNodes info path result \<Rightarrow>
          (case run n lib exeContext
                  (CompleteValue returnType fieldNodes info path result) st of
             (Ok completed, st1) \<Rightarrow> (Ok completed, st1)
           | (Throw error, st1) \<Rightarrow>
               (Throw (VError (locatedError lib error fieldNodes (responsePathAsArray (Some path)))),
                st1)
           | (Timeout, st1) \<Rightarrow> (Timeout, st1))
      | CompleteValue returnType fieldNodes info path result \<Rightarrow>
          (if isError result then (Throw result, st)
           else (case returnType of
                   NonNullT ofType \<Rightarrow>
                     (case run n lib exeContext
                             (CompleteValue ofType fieldNodes info path result) st of
                        (Ok completed, st1) \<Rightarrow>
                          if completed = VNull
                          then (Throw (newError (CannotReturnNullForNonNullable (i_parentType info)
                                                   (i_fieldName info))), st1)
                          else (Ok completed, st1)
                      | (Throw e, st1) \<Rightarrow> (Throw e, st1)
                      | (Timeout, st1) \<Rightarrow> (Timeout, st1))
                 | _ \<Rightarrow>
                     if isNullish result then (Ok VNull, st)
                     else (case returnType of
                             ListT ofType \<Rightarrow>
                               run n lib exeContext
                                 (CompleteListValue returnType fieldNodes info path result) st
                           | _ \<Rightarrow>
                               if isLeafType returnType
                               then (case completeLeafValue (schema exeContext) returnType result of
                                       Inl e \<Rightarrow> (Throw e, st)
                                     | Inr serializedResult \<Rightarrow> (Ok serializedResult, st))
                               else if isAbstractType returnType
                               then run n lib exeContext
                                      (CompleteAbstractValue returnType fieldNodes info path
                                         result) st
                               else (case returnType of
                                       ObjectT name \<Rightarrow>
                                         run n lib exeContext
                                           (CompleteObjectValue returnType fieldNodes info path
                                              result) st
                                     | _ \<Rightarrow>
                                         (Throw (newError
                                            (CannotCompleteValueOfUnexpectedType returnType)), st)))))
      | CompleteListValue returnType fieldNodes info path result \<Rightarrow>
          (if \<not> isCollection lib result
           then (Throw (newError (ExpectedIterable (i_parentType info) (i_fieldName info))), st)
           else (case returnType of
                   ListT itemType \<Rightarrow>
                     (case reduceM
                             (\<lambda>completedResults (index, item) st1.
                                case run n lib exeContext
                                       (CompleteValueCatchingError itemType fieldNodes info
                                          (addPath (Some path) (Index index)) item) st1 of
                                  (Ok completedItem, st2) \<Rightarrow>
                                    (Ok (completedResults @ [completedItem]), st2)
                                | (Throw e, st2) \<Rightarrow> (Throw e, st2)
                                | (Timeout, st2) \<Rightarrow> (Timeout, st2))
                             (enumerate 0 (collectionItems lib result)) [] st of
                        (Ok completedResults, st1) \<Rightarrow> (Ok (VArray completedResults), st1)
                      | (Throw e, st1) \<Rightarrow> (Throw e, st1)
                      | (Timeout, st1) \<Rightarrow> (Timeout, st1))
                 | _ \<Rightarrow> (Throw (newError (CannotCompleteValueOfUnexpectedType returnType)), st)))
      | CompleteAbstractValue returnType fieldNodes info path result \<Rightarrow>
          (case (case resolveType (schema exeContext) returnType of
                   Some f \<Rightarrow> f result (contextValue exeContext) info
                 | None \<Rightarrow>
                     defaultResolveTypeFn (schema exeContext) result (contextValue exeContext) info
                       returnType) of
             Inl e \<Rightarrow> (Throw e, st)
           | Inr runtimeType \<Rightarrow>
               (case ensureValidRuntimeType runtimeType exeContext returnType fieldNodes info result of
                  Inl e \<Rightarrow> (Throw e, st)
                | Inr objectType \<Rightarrow>
                    run n lib exeContext
                      (CompleteObjectValue objectType fieldNodes info path result) st))
      | CompleteObjectValue returnType fieldNodes info path result \<Rightarrow>
          (case isTypeOf (schema exeContext) returnType of
             None \<Rightarrow>
               run n lib exeContext
                 (CollectAndExecuteSubfields returnType fieldNodes info path result) st
           | Some p \<Rightarrow>
               (case p result (contextValue exeContext) info of
                  Inl e \<Rightarrow> (Throw e, st)
                | Inr False \<Rightarrow> (Throw (invalidReturnTypeError returnType result fieldNodes), st)
                | Inr True \<Rightarrow>
                    run n lib exeContext
                      (CollectAndExecuteSubfields returnType fieldNodes info path result) st))
      | CollectAndExecuteSubfields returnType fieldNodes info path result \<Rightarrow>
          (case collectSubFieldNodes lib exeContext returnType fieldNodes [] {} of
             Inl e \<Rightarrow> (Throw e, st)
           | Inr (subFieldNodes, visitedFragmentNames) \<Rightarrow>
               run n lib exeContext
                 (ExecuteFields returnType result (Some path) subFieldNodes) st))"

definition executeFields ::
  "nat \<Rightarrow> 'w lib \<Rightarrow> 'w exeContext \<Rightarrow> gtype \<Rightarrow> val \<Rightarrow> responsePath option \<Rightarrow> grouping
     \<Rightarrow> 'w state \<Rightarrow> val outcome \<times> 'w state" where
  "executeFields n lib exeContext parentType sourceValue path flds =
     run n lib exeContext (ExecuteFields parentType sourceValue path flds)"

definition resolveField ::
  "nat \<Rightarrow> 'w lib \<Rightarrow> 'w exeContext \<Rightarrow> gtype \<Rightarrow> val \<Rightarrow> fieldNode list \<Rightarrow> responsePath
     \<Rightarrow> 'w state \<Rightarrow> val outcome \<times> 'w state" where
  "resolveField n lib exeContext parentType source fieldNodes path =
     run n lib exeContext (ResolveField parentType source fieldNodes path)"

definition completeValueCatchingError ::
  "nat \<Rightarrow> 'w lib \<Rightarrow> 'w exeContext \<Rightarrow> gtype \<Rightarrow> fieldNode list \<Rightarrow> info \<Rightarrow> responsePath \<Rightarrow> val
     \<Rightarrow> 'w state \<Rightarrow> val outcome \<times> 'w state" where
  "completeValueCatchingError n lib exeContext returnType fieldNodes info path result =
     run n lib exeContext (CompleteValueCatchingError returnType fieldNodes info path result)"

definition completeValueWithLocatedError ::
  "nat \<Rightarrow> 'w lib \<Rightarrow> 'w exeContext \<Rightarrow> gtype \<Rightarrow> fieldNode list \<Rightarrow> info \<Rightarrow> responsePath \<Rightarrow> val
     \<Rightarrow> 'w state \<Rightarrow> val outcome \<times> 'w state" where
  "completeValueWithLocatedError n lib exeContext returnType fieldNodes info path result =
     run n lib exeContext (CompleteValueWithLocatedError returnType fieldNodes info path result)"

definition completeValue ::
  "nat \<Rightarrow> 'w lib \<Rightarrow> 'w exeContext \<Rightarrow> gtype \<Rightarrow> fieldNode list \<Rightarrow> info \<Rightarrow> responsePath \<Rightarrow> val
     \<Rightarrow> 'w state \<Rightarrow> val outcome \<times> 'w state" where
  "completeValue n lib exeContext returnType fieldNodes info path result =
     run n lib exeContext (CompleteValue returnType fieldNodes info path result)"

definition completeListValue ::
  "nat \<Rightarrow> 'w lib \<Rightarrow> 'w exeContext \<Rightarrow> gtype \<Rightarrow> fieldNode list \<Rightarrow> info \<Rightarrow> responsePath \<Rightarrow> val
     \<Rightarrow> 'w state \<Rightarrow> val outcome \<times> 'w state" where
  "completeListValue n lib exeContext returnType fieldNodes info path result =
     run n lib exeContext (CompleteListValue returnType fieldNodes info path result)"

definition completeAbstractValue ::
  "nat \<Rightarrow> 'w lib \<Rightarrow> 'w exeContext \<Rightarrow> gtype \<Rightarrow> fieldNode list \<Rightarrow> info \<Rightarrow> responsePath \<Rightarrow> val
     \<Rightarrow> 'w state \<Rightarrow> val outcome \<times> 'w state" where
  "completeAbstractValue n lib exeContext returnType fieldNodes info path result =
     run n lib exeContext (CompleteAbstractValue returnType fieldNodes info path result)"

definition completeObjectValue ::
  "nat \<Rightarrow> 'w lib \<Rightarrow> 'w exeContext \<Rightarrow> gtype \<Rightarrow> fieldNode list \<Rightarrow> info \<Rightarrow> responsePath \<Rightarrow> val
     \<Rightarrow> 'w state \<Rightarrow> val outcome \<times> 'w state" where
  "completeObjectValue n lib exeContext returnType fieldNodes info path result =
     run n lib exeContext (CompleteObjectValue returnType fieldNodes info path result)"

definition collectAndExecuteSubfields ::
  "nat \<Rightarrow> 'w lib \<Rightarrow> 'w exeContext \<Rightarrow> gtype \<Rightarrow> fieldNode list \<Rightarrow> info \<Rightarrow> responsePath \<Rightarrow> val
     \<Rightarrow> 'w state \<Rightarrow> val outcome \<times> 'w state" where
  "collectAndExecuteSubfields n lib exeContext returnType fieldNodes info path result =
     run n lib exeContext (CollectAndExecuteSubfields returnType fieldNodes info path result)"

lemmas executor_defs =
  executeFields_def
  resolveField_def
  completeValueCatchingError_def
  completeValueWithLocatedError_def
  completeValue_def
  completeListValue_def
  completeAbstractValue_def
  completeObjectValue_def
  collectAndExecuteSubfields_def

lemma executeFields_0:
  "executeFields 0 lib exeContext parentType sourceValue path flds st = (Timeout, st)"
  unfolding executor_defs by simp

lemma executeFields_Suc:
  "executeFields (Suc n) lib exeContext parentType sourceValue path flds st =
       reduceM
         (\<lambda>results (responseName, fieldNodes) st1.
            case resolveField n lib exeContext parentType sourceValue fieldNodes
                   (addPath path (Key responseName)) st1 of
              (Ok result, st2) \<Rightarrow>
                if result = VUndefined then (Ok results, st2)
                else (Ok (assignProp results responseName result), st2)
            | (Throw e, st2) \<Rightarrow> (Throw e, st2)
            | (Timeout, st2) \<Rightarrow> (Timeout, st2))
         flds (VObject NullPrototype []) st"
  unfolding executor_defs by simp


lemma resolveField_Suc:
  "resolveField (Suc n) lib exeContext parentType source fieldNodes path st =
       (case fieldNodes of
          [] \<Rightarrow> (Throw (newError (CannotReadPropertyOfUndefined ''name'')), st)
        | fieldNode # ns \<Rightarrow>
            (case getFieldDef lib (schema exeContext) parentType (f_name fieldNode) of
               None \<Rightarrow> (Ok VUndefined, st)
             | Some fieldDef \<Rightarrow>
                 (case buildResolveInfo exeContext fieldDef fieldNodes parentType path of
                    Inl e \<Rightarrow> (Throw e, st)
                  | Inr info \<Rightarrow>
                      (case resolveFieldValueOrError lib exeContext fieldDef fieldNodes
                              (case fd_resolve fieldDef of
                                 Some r \<Rightarrow> r
                               | None \<Rightarrow> fieldResolver exeContext)
                              source info st of
                         (result, st1) \<Rightarrow>
                           completeValueCatchingError n lib exeContext (fd_type fieldDef)
                             fieldNodes info path result st1))))"
  unfolding executor_defs by simp


lemma completeValueCatchingError_Suc:
  "completeValueCatchingError (Suc n) lib exeContext returnType fieldNodes info path result st =
       (if isNonNull returnType
        then completeValueWithLocatedError n lib exeContext returnType fieldNodes info path result st
        else (case completeValueWithLocatedError n lib exeContext returnType fieldNodes info path
                     result st of
                (Ok completed, st1) \<Rightarrow> (Ok completed, st1)
              | (Throw error, st1) \<Rightarrow> (Ok VNull, st1\<lparr>errors := errors st1 @ [error]\<rparr>)
              | (Timeout, st1) \<Rightarrow> (Timeout, st1)))"
  unfolding executor_defs by simp


lemma completeValueWithLocatedError_Suc:
  "completeValueWithLocatedError (Suc n) lib exeContext returnType fieldNodes info path result st =
       (case completeValue n lib exeContext returnType fieldNodes info path result st of
          (Ok completed, st1) \<Rightarrow> (Ok completed, st1)
        | (Throw error, st1) \<Rightarrow>
            (Throw (VError (locatedError lib error fieldNodes (responsePathAsArray (Some path)))),
             st1)
        | (Timeout, st1) \<Rightarrow> (Timeout, st1))"
  unfolding executor_defs by simp

lemma completeValue_0:
  "completeValue 0 lib exeContext returnType fieldNodes info path result st = (Timeout, st)"
  unfolding executor_defs by simp

lemma completeValue_Suc:
  "completeValue (Suc n) lib exeContext returnType fieldNodes info path result st =
       (if isError result then (Throw result, st)
        else (case returnType of
                NonNullT ofType \<Rightarrow>
                  (case completeValue n lib exeContext ofType fieldNodes info path result st of
                     (Ok completed, st1) \<Rightarrow>
                       if completed = VNull
                       then (Throw (newError (CannotReturnNullForNonNullable (i_parentType info)
                                                (i_fieldName info))), st1)
                       else (Ok completed, st1)
                   | (Throw e, st1) \<Rightarrow> (Throw e, st1)
                   | (Timeout, st1) \<Rightarrow> (Timeout, st1))
              | _ \<Rightarrow>
                  if isNullish result then (Ok VNull, st)
                  else (case returnType of
                          ListT ofType \<Rightarrow>
                            completeListValue n lib exeContext returnType fieldNodes info path
                              result st
                        | _ \<Rightarrow>
                            if isLeafType returnType
                            then (case completeLeafValue (schema exeContext) returnType result of
                                    Inl e \<Rightarrow> (Throw e, st)
                                  | Inr serializedResult \<Rightarrow> (Ok serializedResult, st))
                            else if isAbstractType returnType
                            then completeAbstractValue n lib exeContext returnType fieldNodes info
                                   path result st
                            else (case returnType of
                                    ObjectT name \<Rightarrow>
                                      completeObjectValue n lib exeContext returnType fieldNodes
                                        info path result st
                                  | _ \<Rightarrow>
                                      (Throw (newError
                                         (CannotCompleteValueOfUnexpectedType returnType)), st)))))"
  unfolding executor_defs by simp

lemma completeListValue_0:
  "completeListValue 0 lib exeContext returnType fieldNodes info path result st = (Timeout, st)"
  unfolding executor_defs by simp

lemma completeListValue_Suc:
  "completeListValue (Suc n) lib exeContext returnType fieldNodes info path result st =
       (if \<not> isCollection lib result
        then (Throw (newError (ExpectedIterable (i_parentType info) (i_fieldName info))), st)
        else (case returnType of
                ListT itemType \<Rightarrow>
                  (case reduceM
                          (\<lambda>completedResults (index, item) st1.
                             case completeValueCatchingError n lib exeContext itemType fieldNodes
                                    info (addPath (Some path) (Index index)) item st1 of
                               (Ok completedItem, st2) \<Rightarrow>
                                 (Ok (completedResults @ [completedItem]), st2)
                             | (Throw e, st2) \<Rightarrow> (Throw e, st2)
                             | (Timeout, st2) \<Rightarrow> (Timeout, st2))
                          (enumerate 0 (collectionItems lib result)) [] st of
                     (Ok completedResults, st1) \<Rightarrow> (Ok (VArray completedResults), st1)
                   | (Throw e, st1) \<Rightarrow> (Throw e, st1)
                   | (Timeout, st1) \<Rightarrow> (Timeout, st1))
              | _ \<Rightarrow> (Throw (newError (CannotCompleteValueOfUnexpectedType returnType)), st)))"
  unfolding executor_defs by simp

lemma completeAbstractValue_0:
  "completeAbstractValue 0 lib exeContext returnType fieldNodes info path result st =
       (Timeout, st)"
  unfolding executor_defs by simp

lemma completeAbstractValue_Suc:
  "completeAbstractValue (Suc n) lib exeContext returnType fieldNodes info path result st =
       (case (case resolveType (schema exeContext) returnType of
                Some f \<Rightarrow> f result (contextValue exeContext) info
              | None \<Rightarrow>
                  defaultResolveTypeFn (schema exeContext) result (contextValue exeContext) info
                    returnType) of
          Inl e \<Rightarrow> (Throw e, st)
        | Inr runtimeType \<Rightarrow>
            (case ensureValidRuntimeType runtimeType exeContext returnType fieldNodes info result of
               Inl e \<Rightarrow> (Throw e, st)
             | Inr objectType \<Rightarrow>
                 completeObjectValue n lib exeContext objectType fieldNodes info path result st))"
  unfolding executor_defs by simp

lemma completeObjectValue_0:
  "completeObjectValue 0 lib exeContext returnType fieldNodes info path result st = (Timeout, st)"
  unfolding executor_defs by simp

lemma completeObjectValue_Suc:
  "completeObjectValue (Suc n) lib exeContext returnType fieldNodes info path result st =
       (case isTypeOf (schema exeContext) returnType of
          None \<Rightarrow>
            collectAndExecuteSubfields n lib exeContext returnType fieldNodes info path result st
        | Some p \<Rightarrow>
            (case p result (contextValue exeContext) info of
               Inl e \<Rightarrow> (Throw e, st)
             | Inr False \<Rightarrow> (Throw (invalidReturnTypeError returnType result fieldNodes), st)
             | Inr True \<Rightarrow>
                 collectAndExecuteSubfields n lib exeContext returnType fieldNodes info path
                   result st))"
  unfolding executor_defs by simp

lemma collectAndExecuteSubfields_0:
  "collectAndExecuteSubfields 0 lib exeContext returnType fieldNodes info path result st =
       (Timeout, st)"
  unfolding executor_defs by simp

lemma collectAndExecuteSubfields_Suc:
  "collectAndExecuteSubfields (Suc n) lib exeContext returnType fieldNodes info path result st =
       (case collectSubFieldNodes lib exeContext returnType fieldNodes [] {} of
          Inl e \<Rightarrow> (Throw e, st)
        | Inr (subFieldNodes, visitedFragmentNames) \<Rightarrow>
            executeFields n lib exeContext returnType result (Some path) subFieldNodes st)"
  unfolding executor_defs by simp

subsection \<open>Operations\<close>

text \<open>
  The serial driver of the mutation root. It is the reduction of \<open>executeFields\<close> with
  \<open>{}\<close> as the initial accumulator, where \<open>executeFields\<close> has \<open>Object.create(null)\<close>.
\<close>

fun executeFieldsSerially ::
  "nat \<Rightarrow> 'w lib \<Rightarrow> 'w exeContext \<Rightarrow> gtype \<Rightarrow> val \<Rightarrow> responsePath option \<Rightarrow> grouping
     \<Rightarrow> 'w state \<Rightarrow> val outcome \<times> 'w state" where
  "executeFieldsSerially 0 lib exeContext parentType sourceValue path flds st = (Timeout, st)"
| "executeFieldsSerially (Suc n) lib exeContext parentType sourceValue path flds st =
     reduceM
       (\<lambda>results (responseName, fieldNodes) st1.
          case resolveField n lib exeContext parentType sourceValue fieldNodes
                 (addPath path (Key responseName)) st1 of
            (Ok result, st2) \<Rightarrow>
              if result = VUndefined then (Ok results, st2)
              else (Ok (assignProp results responseName result), st2)
          | (Throw e, st2) \<Rightarrow> (Throw e, st2)
          | (Timeout, st2) \<Rightarrow> (Timeout, st2))
       flds (VObject ObjectPrototype []) st"

definition getOperationRootType :: "'w schema \<Rightarrow> operationDefinition \<Rightarrow> val + gtype" where
  "getOperationRootType sch op =
     (if op_operation op = ''query'' then Inr (getQueryType sch)
      else if op_operation op = ''mutation'' then
        (case getMutationType sch of
           None \<Rightarrow> Inl (newGraphQLError SchemaNotConfiguredForMutations
                         [DefinitionN (OperationDefinition op)])
         | Some mutationType \<Rightarrow> Inr mutationType)
      else if op_operation op = ''subscription'' then
        (case getSubscriptionType sch of
           None \<Rightarrow> Inl (newGraphQLError SchemaNotConfiguredForSubscriptions
                         [DefinitionN (OperationDefinition op)])
         | Some subscriptionType \<Rightarrow> Inr subscriptionType)
      else Inl (newGraphQLError CanOnlyExecuteQueriesMutationsSubscriptions
                  [DefinitionN (OperationDefinition op)]))"

text \<open>
  Root type resolution and the collection of the root selection set are outside the \<open>try\<close>
  block; only a throw of the field execution is caught, logged, and turned into null data.
\<close>

definition executeOperation ::
  "nat \<Rightarrow> 'w lib \<Rightarrow> 'w exeContext \<Rightarrow> operationDefinition \<Rightarrow> val
     \<Rightarrow> 'w state \<Rightarrow> val outcome \<times> 'w state" where
  "executeOperation n lib exeContext op rootVal st =
     (case getOperationRootType (schema exeContext) op of
        Inl e \<Rightarrow> (Throw e, st)
      | Inr t \<Rightarrow>
          (case collectFields lib exeContext t (op_selectionSet op) [] {} of
             Inl e \<Rightarrow> (Throw e, st)
           | Inr (flds, visitedFragmentNames) \<Rightarrow>
               (case (if op_operation op = ''mutation''
                      then executeFieldsSerially n lib exeContext t rootVal None flds st
                      else executeFields n lib exeContext t rootVal None flds st) of
                  (Ok result, st1) \<Rightarrow> (Ok result, st1)
                | (Throw error, st1) \<Rightarrow> (Ok VNull, st1\<lparr>errors := errors st1 @ [error]\<rparr>)
                | (Timeout, st1) \<Rightarrow> (Timeout, st1))))"

subsection \<open>The execution context\<close>

text \<open>\<open>!operationName\<close>: the name is undefined, null or the empty string.\<close>

definition noOperationName :: "string option \<Rightarrow> bool" where
  "noOperationName operationName = (operationName = None \<or> operationName = Some [])"

text \<open>
  The \<open>forEach\<close> over \<open>document.definitions\<close>, with the two variables it assigns
  (\<open>operation\<close> and \<open>fragments\<close>) as accumulators; a throw leaves the loop.
\<close>

fun definitionsLoop ::
  "string option \<Rightarrow> docDefinition list \<Rightarrow> operationDefinition option
     \<Rightarrow> (string \<times> fragmentDefinition) list
     \<Rightarrow> val + (operationDefinition option \<times> (string \<times> fragmentDefinition) list)" where
  "definitionsLoop operationName [] op frags = Inr (op, frags)"
| "definitionsLoop operationName (OperationDefinition d # rest) op frags =
     (if noOperationName operationName \<and> op \<noteq> None
      then Inl (newGraphQLError MustProvideOperationName [])
      else if noOperationName operationName
              \<or> (op_name d \<noteq> None \<and> op_name d = operationName)
        then definitionsLoop operationName rest (Some d) frags
      else definitionsLoop operationName rest op frags)"
| "definitionsLoop operationName (FragmentDefinition f # rest) op frags =
     definitionsLoop operationName rest op (AList.update (fr_name f) f frags)"
| "definitionsLoop operationName (OtherDefinition kind # rest) op frags =
     Inl (newGraphQLError (CannotExecuteRequestContaining kind)
            [DefinitionN (OtherDefinition kind)])"

definition buildExecutionContext ::
  "'w lib \<Rightarrow> 'w schema \<Rightarrow> docDefinition list \<Rightarrow> val \<Rightarrow> val \<Rightarrow> val \<Rightarrow> string option
     \<Rightarrow> 'w resolver option \<Rightarrow> val + 'w exeContext" where
  "buildExecutionContext lib sch document rootVal contextVal rawVariableValues operationName
       fieldResolverArg =
     (case definitionsLoop operationName document None [] of
        Inl e \<Rightarrow> Inl e
      | Inr (None, frags) \<Rightarrow>
          (case operationName of
             Some name \<Rightarrow>
               if name \<noteq> [] then Inl (newGraphQLError (UnknownOperationNamed name) [])
               else Inl (newGraphQLError MustProvideAnOperation [])
           | None \<Rightarrow> Inl (newGraphQLError MustProvideAnOperation []))
      | Inr (Some op, frags) \<Rightarrow>
          (case getVariableValues lib sch
                  (case op_variableDefinitions op of None \<Rightarrow> [] | Some vds \<Rightarrow> vds)
                  (if falsy rawVariableValues then VObject ObjectPrototype []
                   else rawVariableValues) of
             Inl e \<Rightarrow> Inl e
           | Inr coerced \<Rightarrow>
               Inr \<lparr> schema = sch,
                     fragments = frags,
                     rootValue = rootVal,
                     contextValue = contextVal,
                     operation = op,
                     variableValues = coerced,
                     fieldResolver =
                       (case fieldResolverArg of
                          Some r \<Rightarrow> r
                        | None \<Rightarrow> defaultFieldResolver lib) \<rparr>))"

text \<open>
  The schema and the document are present by their types, which leaves the check of the
  variables of \<open>assertValidExecutionArguments\<close>.
\<close>

definition assertValidExecutionArguments :: "val \<Rightarrow> val + unit" where
  "assertValidExecutionArguments rawVariableValues =
     (if falsy rawVariableValues \<or> typeofObject rawVariableValues then Inr ()
      else Inl (newError VariablesMustBeObject))"

record executionResult =
  r_errors :: "val list option"
  r_data :: "val option"

text \<open>
  \<open>executeImpl\<close>; the error array of the new context is empty, so the run starts with
  an empty error list.
\<close>

definition executeImpl ::
  "nat \<Rightarrow> 'w lib \<Rightarrow> 'w schema \<Rightarrow> docDefinition list \<Rightarrow> val \<Rightarrow> val \<Rightarrow> val \<Rightarrow> string option
     \<Rightarrow> 'w resolver option \<Rightarrow> 'w state \<Rightarrow> executionResult outcome \<times> 'w state" where
  "executeImpl n lib sch document rootVal contextVal rawVariableValues operationName
       fieldResolverArg st =
     (case assertValidExecutionArguments rawVariableValues of
        Inl e \<Rightarrow> (Throw e, st)
      | Inr u \<Rightarrow>
          (case buildExecutionContext lib sch document rootVal contextVal rawVariableValues
                  operationName fieldResolverArg of
             Inl error \<Rightarrow> (Ok \<lparr> r_errors = Some [error], r_data = None \<rparr>, st)
           | Inr context \<Rightarrow>
               (case executeOperation n lib context (operation context) rootVal
                       (st\<lparr>errors := []\<rparr>) of
                  (Ok d, st1) \<Rightarrow>
                    if errors st1 = [] then (Ok \<lparr> r_errors = None, r_data = Some d \<rparr>, st1)
                    else (Ok \<lparr> r_errors = Some (errors st1), r_data = Some d \<rparr>, st1)
                | (Throw e, st1) \<Rightarrow> (Throw e, st1)
                | (Timeout, st1) \<Rightarrow> (Timeout, st1))))"

section \<open>Notions used to state the properties\<close>

text \<open>
  \<open>coercedIf lib exeContext name directives v\<close>: the first directive called \<open>name\<close>, when
  there is one, coerces without a throw and \<open>v\<close> is its \<open>if\<close> entry, undefined when the
  coerced arguments have no such entry; \<open>v\<close> is \<open>None\<close> exactly when no directive has that
  name.
\<close>

definition coercedIf ::
  "'w lib \<Rightarrow> 'w exeContext \<Rightarrow> string \<Rightarrow> directive list \<Rightarrow> val option \<Rightarrow> bool" where
  "coercedIf lib exeContext name directives v =
     (case find (\<lambda>directive. d_name directive = name) directives of
        None \<Rightarrow> v = None
      | Some node \<Rightarrow>
          (case getDirectiveArgumentValues lib name node (variableValues exeContext) of
             Inl e \<Rightarrow> False
           | Inr a \<Rightarrow> v = Some (case map_of a ''if'' of Some x \<Rightarrow> x | None \<Rightarrow> VUndefined)))"

text \<open>
  The handling of a fragment spread as the specification words it, to be compared with the
  fourth equation of \<open>collectFields\<close>: a name that is already visited is skipped; otherwise
  the name is marked as visited; then the spread is skipped if directive evaluation
  excludes it, if the fragment is undefined, or if its type condition does not match;
  otherwise the collection goes into the selection set of the fragment. What follows the
  spread in the selection set is collected by \<open>collectFields\<close>.
\<close>

definition fragmentSpread_spec ::
  "'w lib \<Rightarrow> 'w exeContext \<Rightarrow> gtype \<Rightarrow> string \<Rightarrow> directive list \<Rightarrow> selection list
     \<Rightarrow> grouping \<Rightarrow> string set \<Rightarrow> val + (grouping \<times> string set)" where
  "fragmentSpread_spec lib exeContext runtimeType fragName ds rest flds visitedFragmentNames =
     (if fragName \<in> visitedFragmentNames
      then collectFields lib exeContext runtimeType rest flds visitedFragmentNames
      else (let marked = insert fragName visitedFragmentNames
            in case shouldIncludeNode lib exeContext ds of
                 Inl e \<Rightarrow> Inl e
               | Inr included \<Rightarrow>
                   (case map_of (fragments exeContext) fragName of
                      None \<Rightarrow> collectFields lib exeContext runtimeType rest flds marked
                    | Some fragment \<Rightarrow>
                        if \<not> included
                           \<or> \<not> doesFragmentConditionMatch lib exeContext
                                  (fr_typeCondition fragment) runtimeType
                        then collectFields lib exeContext runtimeType rest flds marked
                        else (case collectFields lib exeContext runtimeType
                                     (fr_selectionSet fragment) flds marked of
                                Inl e \<Rightarrow> Inl e
                              | Inr (flds', visited') \<Rightarrow>
                                  collectFields lib exeContext runtimeType rest flds'
                                    visited'))))"

text \<open>
  The callback of the \<open>reduce\<close> in \<open>executeFields\<close> and in \<open>executeFieldsSerially\<close>, and
  the callback of the \<open>forEach\<close> in \<open>completeListValue\<close>, as functions of their own.
\<close>

definition executeFieldsStep ::
  "nat \<Rightarrow> 'w lib \<Rightarrow> 'w exeContext \<Rightarrow> gtype \<Rightarrow> val \<Rightarrow> responsePath option \<Rightarrow> val
     \<Rightarrow> string \<times> fieldNode list \<Rightarrow> 'w state \<Rightarrow> val outcome \<times> 'w state" where
  "executeFieldsStep n lib exeContext parentType sourceValue path results entry st =
     (case resolveField n lib exeContext parentType sourceValue (snd entry)
             (addPath path (Key (fst entry))) st of
        (Ok result, st1) \<Rightarrow>
          if result = VUndefined then (Ok results, st1)
          else (Ok (assignProp results (fst entry) result), st1)
      | (Throw e, st1) \<Rightarrow> (Throw e, st1)
      | (Timeout, st1) \<Rightarrow> (Timeout, st1))"

definition completeListItem ::
  "nat \<Rightarrow> 'w lib \<Rightarrow> 'w exeContext \<Rightarrow> gtype \<Rightarrow> fieldNode list \<Rightarrow> info \<Rightarrow> responsePath
     \<Rightarrow> val list \<Rightarrow> nat \<times> val \<Rightarrow> 'w state \<Rightarrow> val list outcome \<times> 'w state" where
  "completeListItem n lib exeContext itemType fieldNodes info path completedResults entry st =
     (case completeValueCatchingError n lib exeContext itemType fieldNodes info
             (addPath (Some path) (Index (fst entry))) (snd entry) st of
        (Ok completedItem, st1) \<Rightarrow> (Ok (completedResults @ [completedItem]), st1)
      | (Throw e, st1) \<Rightarrow> (Throw e, st1)
      | (Timeout, st1) \<Rightarrow> (Timeout, st1))"

text \<open>The same object with another prototype; values that are no objects are left alone.\<close>

fun setPrototype :: "objproto \<Rightarrow> val \<Rightarrow> val" where
  "setPrototype p (VObject q ps) = VObject p ps"
| "setPrototype p v = v"

text \<open>
  \<open>beforeSecondOperation document seen\<close> are the definitions that the loop of
  \<open>buildExecutionContext\<close> visits before it reaches the second operation definition of the
  document (the first one, when \<open>seen\<close> says that an operation was met already).
\<close>

fun isOperationDefinition :: "docDefinition \<Rightarrow> bool" where
  "isOperationDefinition (OperationDefinition d) = True"
| "isOperationDefinition d = False"

fun isOtherDefinition :: "docDefinition \<Rightarrow> bool" where
  "isOtherDefinition (OtherDefinition kind) = True"
| "isOtherDefinition d = False"

fun beforeSecondOperation :: "docDefinition list \<Rightarrow> bool \<Rightarrow> docDefinition list" where
  "beforeSecondOperation [] seen = []"
| "beforeSecondOperation (OperationDefinition d # rest) seen =
     (if seen then [] else OperationDefinition d # beforeSecondOperation rest True)"
| "beforeSecondOperation (d # rest) seen = d # beforeSecondOperation rest seen"


text \<open>
  \<open>recordsOnlyErrors st st'\<close>: the error list of \<open>st'\<close> is the one of \<open>st\<close> with entries
  appended at its end, and every appended entry is an instance of \<open>Error\<close>.
\<close>

definition recordsOnlyErrors :: "'w state \<Rightarrow> 'w state \<Rightarrow> bool" where
  "recordsOnlyErrors st st' =
     (take (length (errors st)) (errors st') = errors st
      \<and> list_all isError (drop (length (errors st)) (errors st')))"



text \<open>
  \<open>firstThrow f xs acc st\<close>: the element of \<open>xs\<close> at which the loop \<open>reduceM f xs acc st\<close>
  stops with a throw, with the accumulator and the state in which the callback is called
  for it; \<open>None\<close> when no callback throws.
\<close>

fun firstThrow ::
  "('b \<Rightarrow> 'a \<Rightarrow> 's \<Rightarrow> 'b outcome \<times> 's) \<Rightarrow> 'a list \<Rightarrow> 'b \<Rightarrow> 's \<Rightarrow> ('b \<times> 'a \<times> 's) option" where
  "firstThrow f [] acc st = None"
| "firstThrow f (x # xs) acc st =
     (case f acc x st of
        (Ok acc', st') \<Rightarrow> firstThrow f xs acc' st'
      | (Throw e, st') \<Rightarrow> Some (acc, x, st)
      | (Timeout, st') \<Rightarrow> None)"

text \<open>
  \<open>throwing n lib exeContext c st\<close> is the call \<open>c\<close> with the state \<open>st\<close> it is made in, when
  the call throws, and \<open>None\<close> when it returns.
\<close>

definition throwing ::
  "nat \<Rightarrow> 'w lib \<Rightarrow> 'w exeContext \<Rightarrow> call \<Rightarrow> 'w state \<Rightarrow> (call \<times> 'w state) option" where
  "throwing n lib exeContext c st =
     (case run n lib exeContext c st of
        (Throw e, st') \<Rightarrow> Some (c, st)
      | (out, st') \<Rightarrow> None)"

text \<open>
  \<open>failingCall n lib exeContext c st\<close>: the call made by the body of \<open>c\<close>, entered in the
  state \<open>st\<close>, that throws, with the state it is made in; \<open>None\<close> when no call that the body
  makes throws, so that a failure that leaves \<open>c\<close> is raised by the body of \<open>c\<close> itself (a
  \<open>throw\<close> statement, an \<open>invariant\<close>, or a function of the schema). The cases follow the
  call sites of the nine functions: \<open>executeFields\<close> calls \<open>resolveField\<close> for each entry
  of the grouping, \<open>resolveField\<close> calls \<open>completeValueCatchingError\<close> on what the resolver
  gave, \<open>completeValueCatchingError\<close> calls \<open>completeValueWithLocatedError\<close>, which calls
  \<open>completeValue\<close>, which calls itself under a non-null type and otherwise
  \<open>completeListValue\<close>, \<open>completeAbstractValue\<close> or \<open>completeObjectValue\<close>;
  \<open>completeListValue\<close> calls \<open>completeValueCatchingError\<close> for each element,
  \<open>completeAbstractValue\<close> calls \<open>completeObjectValue\<close>, which calls
  \<open>collectAndExecuteSubfields\<close>, which calls \<open>executeFields\<close>.
\<close>

definition failingCall ::
  "nat \<Rightarrow> 'w lib \<Rightarrow> 'w exeContext \<Rightarrow> call \<Rightarrow> 'w state \<Rightarrow> (call \<times> 'w state) option" where
  "failingCall n lib exeContext c st =
     (case c of
        ExecuteFields parentType sourceValue path flds \<Rightarrow>
          (case firstThrow (executeFieldsStep n lib exeContext parentType sourceValue path)
                  flds (VObject NullPrototype []) st of
             None \<Rightarrow> None
           | Some (results, entry, st0) \<Rightarrow>
               Some (ResolveField parentType sourceValue (snd entry)
                       (addPath path (Key (fst entry))), st0))
      | ResolveField parentType source fieldNodes path \<Rightarrow>
          (case fieldNodes of
             [] \<Rightarrow> None
           | fieldNode # ns \<Rightarrow>
               (case getFieldDef lib (schema exeContext) parentType (f_name fieldNode) of
                  None \<Rightarrow> None
                | Some fieldDef \<Rightarrow>
                    (case buildResolveInfo exeContext fieldDef fieldNodes parentType path of
                       Inl e \<Rightarrow> None
                     | Inr info \<Rightarrow>
                         (case resolveFieldValueOrError lib exeContext fieldDef fieldNodes
                                 (case fd_resolve fieldDef of
                                    Some r \<Rightarrow> r
                                  | None \<Rightarrow> fieldResolver exeContext)
                                 source info st of
                            (result, st1) \<Rightarrow>
                              throwing n lib exeContext
                                (CompleteValueCatchingError (fd_type fieldDef) fieldNodes info
                                   path result) st1))))
      | CompleteValueCatchingError returnType fieldNodes info path result \<Rightarrow>
          throwing n lib exeContext
            (CompleteValueWithLocatedError returnType fieldNodes info path result) st
      | CompleteValueWithLocatedError returnType fieldNodes info path result \<Rightarrow>
          throwing n lib exeContext (CompleteValue returnType fieldNodes info path result) st
      | CompleteValue returnType fieldNodes info path result \<Rightarrow>
          (if isError result then None
           else (case returnType of
                   NonNullT ofType \<Rightarrow>
                     throwing n lib exeContext
                       (CompleteValue ofType fieldNodes info path result) st
                 | _ \<Rightarrow>
                     if isNullish result then None
                     else (case returnType of
                             ListT ofType \<Rightarrow>
                               throwing n lib exeContext
                                 (CompleteListValue returnType fieldNodes info path result) st
                           | _ \<Rightarrow>
                               if isLeafType returnType then None
                               else if isAbstractType returnType
                               then throwing n lib exeContext
                                      (CompleteAbstractValue returnType fieldNodes info path
                                         result) st
                               else (case returnType of
                                       ObjectT name \<Rightarrow>
                                         throwing n lib exeContext
                                           (CompleteObjectValue returnType fieldNodes info path
                                              result) st
                                     | _ \<Rightarrow> None))))
      | CompleteListValue returnType fieldNodes info path result \<Rightarrow>
          (if \<not> isCollection lib result then None
           else (case returnType of
                   ListT itemType \<Rightarrow>
                     (case firstThrow
                             (completeListItem n lib exeContext itemType fieldNodes info path)
                             (enumerate 0 (collectionItems lib result)) [] st of
                        None \<Rightarrow> None
                      | Some (completedResults, entry, st0) \<Rightarrow>
                          Some (CompleteValueCatchingError itemType fieldNodes info
                                  (addPath (Some path) (Index (fst entry))) (snd entry), st0))
                 | _ \<Rightarrow> None))
      | CompleteAbstractValue returnType fieldNodes info path result \<Rightarrow>
          (case (case resolveType (schema exeContext) returnType of
                   Some f \<Rightarrow> f result (contextValue exeContext) info
                 | None \<Rightarrow>
                     defaultResolveTypeFn (schema exeContext) result (contextValue exeContext) info
                       returnType) of
             Inl e \<Rightarrow> None
           | Inr runtimeType \<Rightarrow>
               (case ensureValidRuntimeType runtimeType exeContext returnType fieldNodes info
                       result of
                  Inl e \<Rightarrow> None
                | Inr objectType \<Rightarrow>
                    throwing n lib exeContext
                      (CompleteObjectValue objectType fieldNodes info path result) st))
      | CompleteObjectValue returnType fieldNodes info path result \<Rightarrow>
          (case isTypeOf (schema exeContext) returnType of
             None \<Rightarrow>
               throwing n lib exeContext
                 (CollectAndExecuteSubfields returnType fieldNodes info path result) st
           | Some p \<Rightarrow>
               (case p result (contextValue exeContext) info of
                  Inl e \<Rightarrow> None
                | Inr False \<Rightarrow> None
                | Inr True \<Rightarrow>
                    throwing n lib exeContext
                      (CollectAndExecuteSubfields returnType fieldNodes info path result) st))
      | CollectAndExecuteSubfields returnType fieldNodes info path result \<Rightarrow>
          (case collectSubFieldNodes lib exeContext returnType fieldNodes [] {} of
             Inl e \<Rightarrow> None
           | Inr (subFieldNodes, visitedFragmentNames) \<Rightarrow>
               throwing n lib exeContext
                 (ExecuteFields returnType result (Some path) subFieldNodes) st))"

text \<open>
  The calls that swallow a failure of their body: \<open>completeValueCatchingError\<close> has the
  only \<open>catch\<close> that does not rethrow, and it is passed by when the type is non-null.
\<close>

fun isolates :: "call \<Rightarrow> bool" where
  "isolates (CompleteValueCatchingError returnType fieldNodes info path result) =
     (\<not> isNonNull returnType)"
| "isolates c = False"

text \<open>
  What a function throws when a call of its body threw \<open>e\<close>: \<open>completeValueWithLocatedError\<close>
  throws the located error, and the other functions, which have no \<open>catch\<close>, let \<open>e\<close>
  pass.
\<close>

definition rethrown :: "'w lib \<Rightarrow> call \<Rightarrow> val \<Rightarrow> val" where
  "rethrown lib c e =
     (case c of
        CompleteValueWithLocatedError returnType fieldNodes info path result \<Rightarrow>
          VError (locatedError lib e fieldNodes (responsePathAsArray (Some path)))
      | _ \<Rightarrow> e)"

text \<open>
  Following the failing calls from \<open>c\<close> downwards ends at the call whose body raised the
  failure: \<open>origin\<close> is that call, with the fuel it runs with and the state it is made in,
  and \<open>relocate n lib exeContext c st e\<close> is what the failure \<open>e\<close> raised there has become
  when it leaves \<open>c\<close>.
\<close>

primrec origin ::
  "nat \<Rightarrow> 'w lib \<Rightarrow> 'w exeContext \<Rightarrow> call \<Rightarrow> 'w state \<Rightarrow> nat \<times> call \<times> 'w state" where
  "origin 0 lib exeContext c st = (0, c, st)"
| "origin (Suc n) lib exeContext c st =
     (case failingCall n lib exeContext c st of
        None \<Rightarrow> (Suc n, c, st)
      | Some (c', st0) \<Rightarrow> origin n lib exeContext c' st0)"

primrec relocate :: "nat \<Rightarrow> 'w lib \<Rightarrow> 'w exeContext \<Rightarrow> call \<Rightarrow> 'w state \<Rightarrow> val \<Rightarrow> val" where
  "relocate 0 lib exeContext c st e = e"
| "relocate (Suc n) lib exeContext c st e =
     (case failingCall n lib exeContext c st of
        None \<Rightarrow> e
      | Some (c', st0) \<Rightarrow> rethrown lib c (relocate n lib exeContext c' st0 e))"

text \<open>
  \<open>raisedIn n lib exeContext c st e st1\<close>: the failure \<open>e\<close> that leaves the call \<open>c\<close>, made
  in \<open>st\<close>, with the state \<open>st1\<close> was raised by the body of a call below \<open>c\<close> (or by \<open>c\<close>)
  that was made in the very state \<open>st1\<close> and left it as it was; \<open>e\<close> is the raised failure
  as the functions on the way up have rethrown it.
\<close>

definition raisedIn ::
  "nat \<Rightarrow> 'w lib \<Rightarrow> 'w exeContext \<Rightarrow> call \<Rightarrow> 'w state \<Rightarrow> val \<Rightarrow> 'w state \<Rightarrow> bool" where
  "raisedIn n lib exeContext c st e st1 =
     (case origin n lib exeContext c st of
        (k, c0, st0) \<Rightarrow>
          st0 = st1 \<and> 0 < k \<and> failingCall (k - 1) lib exeContext c0 st0 = None
          \<and> (case run k lib exeContext c0 st0 of
                (Throw e0, s) \<Rightarrow> s = st0 \<and> e = relocate n lib exeContext c st e0
              | (out, s) \<Rightarrow> False))"

section \<open>Example schema\<close>

subsection \<open>A small schema to run the executor on\<close>

text \<open>
  The collaborators of the example: a directive argument is a literal boolean or a variable,
  whose value is passed on as it is; arrays are the only collections; an error is located
  by recording the nodes, the path and the original error in a new \<open>GraphQLError\<close>, unless
  it is an error that has a path already. A resolver of the example counts its invocations
  in the world, a natural number. The default field resolver of the example reads an own
  property of a plain object and fails on the source null, where the property access of the
  code throws.
\<close>

definition demoLocatedError :: "val \<Rightarrow> fieldNode list \<Rightarrow> pathKey list \<Rightarrow> err" where
  "demoLocatedError error fieldNodes path =
     (case error of
        VError e \<Rightarrow>
          if errPath e \<noteq> None then e
          else JSError True (message e) (map FieldN fieldNodes) (Some path) (Some error)
      | v \<Rightarrow> JSError True (StringOf v) (map FieldN fieldNodes) (Some path) (Some error))"

definition demoDirectiveArgument :: "args \<Rightarrow> argument \<Rightarrow> string \<times> val" where
  "demoDirectiveArgument vars a =
     (arg_name a,
      case arg_value a of
        BooleanValue b \<Rightarrow> VBool b
      | Variable x \<Rightarrow> (case map_of vars x of Some v \<Rightarrow> v | None \<Rightarrow> VUndefined)
      | v \<Rightarrow> VNull)"

definition constResolver :: "val \<Rightarrow> nat resolver" where
  "constResolver v = (\<lambda>source as context info w. (Inr v, Suc w))"

definition throwingResolver :: "val \<Rightarrow> nat resolver" where
  "throwingResolver v = (\<lambda>source as context info w. (Inl v, Suc w))"

definition propertyResolver :: "nat resolver" where
  "propertyResolver =
     (\<lambda>source as context info w.
        (case source of
           VObject p ps \<Rightarrow>
             Inr (case map_of ps (i_fieldName info) of Some v \<Rightarrow> v | None \<Rightarrow> VUndefined)
         | VNull \<Rightarrow> Inl (newError (CannotReadPropertyOfNull (i_fieldName info)))
         | v \<Rightarrow> Inr VUndefined, w))"

definition nickResolver :: "nat resolver" where
  "nickResolver =
     (\<lambda>source as context info w.
        (case source of
           VObject p ps \<Rightarrow>
             Inr (case map_of ps ''nick'' of Some v \<Rightarrow> v | None \<Rightarrow> VUndefined)
         | v \<Rightarrow> Inl (VStr ''no person''), Suc w))"

definition demoLib :: "nat lib" where
  "demoLib =
     \<lparr> getArgumentValues = (\<lambda>fieldDef node vars. Inr []),
       getDirectiveArgumentValues =
         (\<lambda>name node vars. Inr (map (demoDirectiveArgument vars) (d_arguments node))),
       getVariableValues = (\<lambda>sch defs raw. Inr []),
       typeFromAST = (\<lambda>sch name. getType sch name),
       locatedError = demoLocatedError,
       isCollection = (\<lambda>v. case v of VArray xs \<Rightarrow> True | v \<Rightarrow> False),
       collectionItems = (\<lambda>v. case v of VArray xs \<Rightarrow> xs | v \<Rightarrow> []),
       SchemaMetaFieldDef =
         \<lparr> fd_name = ''__schema'', fd_type = NonNullT (ObjectT ''__Schema''),
           fd_resolve = Some (constResolver (VObject ObjectPrototype [])) \<rparr>,
       TypeMetaFieldDef =
         \<lparr> fd_name = ''__type'', fd_type = ObjectT ''__Type'',
           fd_resolve = Some (constResolver VNull) \<rparr>,
       TypeNameMetaFieldDef =
         \<lparr> fd_name = ''__typename'', fd_type = NonNullT (ScalarT ''String''),
           fd_resolve = Some (constResolver (VStr ''Query'')) \<rparr>,
       defaultFieldResolver = propertyResolver \<rparr>"

definition demoSerialize :: "val \<Rightarrow> val + val" where
  "demoSerialize v =
     (case v of
        VStr s \<Rightarrow> Inr (VStr s)
      | VError e \<Rightarrow> Inr (VStr ''Error'')
      | v \<Rightarrow> Inr VNull)"

definition demoFields :: "gtype \<Rightarrow> (string \<times> nat fieldDef) list" where
  "demoFields t =
     (if t = ObjectT ''Query'' then
        [(''hello'', \<lparr> fd_name = ''hello'', fd_type = ScalarT ''String'',
                       fd_resolve = Some (constResolver (VStr ''world'')) \<rparr>),
         (''items'', \<lparr> fd_name = ''items'', fd_type = ListT (ScalarT ''String''),
                       fd_resolve = Some (constResolver
                         (VArray [VStr ''a'', VNum 7, VStr ''c''])) \<rparr>),
         (''fails'', \<lparr> fd_name = ''fails'', fd_type = ScalarT ''String'',
                       fd_resolve = Some (throwingResolver (VStr ''boom'')) \<rparr>),
         (''strict'', \<lparr> fd_name = ''strict'', fd_type = NonNullT (ScalarT ''String''),
                        fd_resolve = Some (constResolver VNull) \<rparr>),
         (''parent'', \<lparr> fd_name = ''parent'', fd_type = ObjectT ''Parent'',
                        fd_resolve = Some (constResolver (VObject ObjectPrototype [])) \<rparr>),
         (''pet'', \<lparr> fd_name = ''pet'', fd_type = InterfaceT ''Pet'',
                     fd_resolve = Some (constResolver
                       (VObject ObjectPrototype [(''name'', VStr ''Rex'')])) \<rparr>),
         (''people'', \<lparr> fd_name = ''people'', fd_type = ListT (ObjectT ''Person''),
                        fd_resolve = Some (constResolver
                          (VArray [VObject ObjectPrototype [(''nick'', VStr ''ann'')],
                                   VObject ObjectPrototype [],
                                   VObject ObjectPrototype [(''nick'', VStr ''cy'')]])) \<rparr>)]
      else if t = ObjectT ''Person'' then
        [(''nick'', \<lparr> fd_name = ''nick'', fd_type = NonNullT (ScalarT ''String''),
                      fd_resolve = Some nickResolver \<rparr>)]
      else if t = ObjectT ''Parent'' then
        [(''child'', \<lparr> fd_name = ''child'', fd_type = NonNullT (ScalarT ''String''),
                       fd_resolve = Some (constResolver VNull) \<rparr>)]
      else if t = ObjectT ''Dog'' then
        [(''name'', \<lparr> fd_name = ''name'', fd_type = ScalarT ''String'',
                      fd_resolve = None \<rparr>)]
      else [])"

definition demoTypes :: "(string \<times> gtype) list" where
  "demoTypes =
     [(''Query'', ObjectT ''Query''), (''Parent'', ObjectT ''Parent''),
      (''Person'', ObjectT ''Person''),
      (''Dog'', ObjectT ''Dog''), (''Cat'', ObjectT ''Cat''), (''Pet'', InterfaceT ''Pet''),
      (''String'', ScalarT ''String'')]"

definition demoSchema :: "nat schema" where
  "demoSchema =
     \<lparr> getQueryType = ObjectT ''Query'',
       getMutationType = Some (ObjectT ''Query''),
       getSubscriptionType = None,
       getType = map_of demoTypes,
       getPossibleTypes =
         (\<lambda>t. if t = InterfaceT ''Pet'' then [ObjectT ''Cat'', ObjectT ''Dog''] else []),
       isPossibleType =
         (\<lambda>abstractType t. abstractType = InterfaceT ''Pet''
            \<and> (t = ObjectT ''Cat'' \<or> t = ObjectT ''Dog'')),
       getFields = (\<lambda>t. map_of (demoFields t)),
       serialize = (\<lambda>t. if isLeafType t then Some demoSerialize else None),
       isTypeOf =
         (\<lambda>t. if t = ObjectT ''Dog''
                  then Some (\<lambda>v context info. Inr (v \<noteq> VObject ObjectPrototype []))
                else if t = ObjectT ''Cat'' then Some (\<lambda>v context info. Inr False)
                else None),
       resolveType = (\<lambda>t. None) \<rparr>"

definition helloNode :: fieldNode where
  "helloNode = FieldNode None ''hello'' [] [] None"

definition demoFragment :: fragmentDefinition where
  "demoFragment =
     \<lparr> fr_name = ''F'', fr_typeCondition = Some ''Query'', fr_directives = [],
       fr_selectionSet = [Field helloNode] \<rparr>"

definition demoOperation :: "string \<Rightarrow> selection list \<Rightarrow> operationDefinition" where
  "demoOperation kind sels =
     \<lparr> op_operation = kind, op_name = None, op_variableDefinitions = None,
       op_selectionSet = sels \<rparr>"

definition demoContext :: "nat exeContext" where
  "demoContext =
     \<lparr> schema = demoSchema,
       fragments = [(''F'', demoFragment)],
       rootValue = VNull,
       contextValue = VNull,
       operation = demoOperation ''query'' [Field helloNode],
       variableValues = [],
       fieldResolver = propertyResolver \<rparr>"

definition demoState :: "nat state" where
  "demoState = \<lparr> errors = [], world = 0, calls = [] \<rparr>"

definition ifDirective :: "string \<Rightarrow> bool \<Rightarrow> directive" where
  "ifDirective name b = Directive name [Argument ''if'' (BooleanValue b)]"


definition protoNode :: fieldNode where
  "protoNode = FieldNode (Some ''__proto__'') ''hello'' [] [] None"

definition helloInfo :: "fieldNode \<Rightarrow> responsePath \<Rightarrow> info" where
  "helloInfo node path =
     \<lparr> i_fieldName = ''hello'', i_fieldNodes = [node],
       i_returnType = ScalarT ''String'', i_parentType = ObjectT ''Query'',
       i_path = path, i_fragments = [(''F'', demoFragment)],
       i_rootValue = VNull, i_operation = demoOperation ''query'' [Field helloNode],
       i_variableValues = [] \<rparr>"

definition boomError :: val where
  "boomError = VError (JSError False (Text ''boom'') [] None None)"

definition petNode :: fieldNode where
  "petNode = FieldNode None ''pet'' [] [] None"

definition petInfo :: info where
  "petInfo =
     \<lparr> i_fieldName = ''pet'', i_fieldNodes = [petNode],
       i_returnType = InterfaceT ''Pet'', i_parentType = ObjectT ''Query'',
       i_path = ResponsePath None (Key ''pet''), i_fragments = [(''F'', demoFragment)],
       i_rootValue = VNull, i_operation = demoOperation ''query'' [Field helloNode],
       i_variableValues = [] \<rparr>"

definition rex :: val where
  "rex = VObject ObjectPrototype [(''name'', VStr ''Rex'')]"

definition itemsNode :: fieldNode where
  "itemsNode = FieldNode None ''items'' [] [] None"

definition itemsPath :: responsePath where
  "itemsPath = ResponsePath None (Key ''items'')"

definition itemsInfo :: info where
  "itemsInfo =
     \<lparr> i_fieldName = ''items'', i_fieldNodes = [itemsNode],
       i_returnType = ListT (ScalarT ''String''), i_parentType = ObjectT ''Query'',
       i_path = itemsPath, i_fragments = [(''F'', demoFragment)],
       i_rootValue = VNull, i_operation = demoOperation ''query'' [Field helloNode],
       i_variableValues = [] \<rparr>"


definition ambiguousDocument :: "docDefinition list" where
  "ambiguousDocument =
     [OperationDefinition (demoOperation ''query'' [Field helloNode]),
      OtherDefinition ''SchemaDefinition'',
      OperationDefinition (demoOperation ''query'' [Field helloNode])]"

definition twoQueries :: "docDefinition list" where
  "twoQueries =
     [OperationDefinition (demoOperation ''query'' [Field helloNode]),
      FragmentDefinition demoFragment,
      OperationDefinition (demoOperation ''query'' [Field helloNode])]"




definition childNode :: fieldNode where
  "childNode = FieldNode None ''child'' [] [] None"

definition parentNode :: fieldNode where
  "parentNode = FieldNode None ''parent'' [] [] (Some [Field childNode])"

definition demoParentPath :: responsePath where
  "demoParentPath = ResponsePath None (Key ''parent'')"

definition parentInfo :: info where
  "parentInfo =
     \<lparr> i_fieldName = ''parent'', i_fieldNodes = [parentNode],
       i_returnType = ObjectT ''Parent'', i_parentType = ObjectT ''Query'',
       i_path = demoParentPath, i_fragments = [(''F'', demoFragment)],
       i_rootValue = VNull, i_operation = demoOperation ''query'' [Field helloNode],
       i_variableValues = [] \<rparr>"

definition childInfo :: info where
  "childInfo =
     \<lparr> i_fieldName = ''child'', i_fieldNodes = [childNode],
       i_returnType = NonNullT (ScalarT ''String''), i_parentType = ObjectT ''Parent'',
       i_path = ResponsePath (Some demoParentPath) (Key ''child''),
       i_fragments = [(''F'', demoFragment)],
       i_rootValue = VNull, i_operation = demoOperation ''query'' [Field helloNode],
       i_variableValues = [] \<rparr>"

definition childError :: val where
  "childError =
     VError (JSError True (CannotReturnNullForNonNullable (ObjectT ''Parent'') ''child'')
       [FieldN childNode] (Some [Key ''parent'', Key ''child''])
       (Some (newError (CannotReturnNullForNonNullable (ObjectT ''Parent'') ''child''))))"

definition afterParent :: "nat state" where
  "afterParent = \<lparr> errors = [], world = 1, calls = [(VNull, [], parentInfo)] \<rparr>"

definition afterChild :: "nat state" where
  "afterChild =
     \<lparr> errors = [], world = 2,
       calls = [(VNull, [], parentInfo), (VObject ObjectPrototype [], [], childInfo)] \<rparr>"

definition strictNode :: fieldNode where
  "strictNode = FieldNode None ''strict'' [] [] None"

definition strictInfo :: info where
  "strictInfo =
     \<lparr> i_fieldName = ''strict'', i_fieldNodes = [strictNode],
       i_returnType = NonNullT (ScalarT ''String''), i_parentType = ObjectT ''Query'',
       i_path = ResponsePath None (Key ''strict''), i_fragments = [(''F'', demoFragment)],
       i_rootValue = VNull, i_operation = demoOperation ''query'' [Field helloNode],
       i_variableValues = [] \<rparr>"

definition strictError :: val where
  "strictError =
     VError (JSError True (CannotReturnNullForNonNullable (ObjectT ''Query'') ''strict'')
       [FieldN strictNode] (Some [Key ''strict''])
       (Some (newError (CannotReturnNullForNonNullable (ObjectT ''Query'') ''strict''))))"

definition afterStrict :: "nat state" where
  "afterStrict = \<lparr> errors = [], world = 1, calls = [(VNull, [], strictInfo)] \<rparr>"

definition afterHello :: "nat state" where
  "afterHello =
     \<lparr> errors = [], world = 1,
       calls = [(VNull, [], helloInfo helloNode (ResponsePath None (Key ''hello'')))] \<rparr>"

definition afterHelloStrict :: "nat state" where
  "afterHelloStrict =
     \<lparr> errors = [], world = 2,
       calls = [(VNull, [], helloInfo helloNode (ResponsePath None (Key ''hello''))),
                (VNull, [], strictInfo)] \<rparr>"

definition nullItemError :: val where
  "nullItemError =
     VError (demoLocatedError
       (newError (CannotReturnNullForNonNullable (ObjectT ''Query'') ''items''))
       [itemsNode] [Key ''items'', Index 1])"

definition flagContext :: "nat exeContext" where
  "flagContext = demoContext\<lparr>variableValues := [(''flag'', VNull)]\<rparr>"

definition includeFlag :: directive where
  "includeFlag = Directive ''include'' [Argument ''if'' (Variable ''flag'')]"



definition peoplePath :: responsePath where
  "peoplePath = ResponsePath None (Key ''people'')"

definition people :: "val list" where
  "people =
     [VObject ObjectPrototype [(''nick'', VStr ''ann'')],
      VObject ObjectPrototype [],
      VObject ObjectPrototype [(''nick'', VStr ''cy'')]]"


section \<open>Auxiliary lemmas\<close>

subsection \<open>The loops\<close>

lemma executeFields_reduce:
  "executeFields (Suc n) lib exeContext parentType sourceValue path flds st =
     reduceM (executeFieldsStep n lib exeContext parentType sourceValue path) flds
       (VObject NullPrototype []) st"
proof -
  have "(\<lambda>results (responseName, fieldNodes) st1.
          case resolveField n lib exeContext parentType sourceValue fieldNodes
                 (addPath path (Key responseName)) st1 of
            (Ok result, st2) \<Rightarrow>
              if result = VUndefined then (Ok results, st2)
              else (Ok (assignProp results responseName result), st2)
          | (Throw e, st2) \<Rightarrow> (Throw e, st2)
          | (Timeout, st2) \<Rightarrow> (Timeout, st2))
      = executeFieldsStep n lib exeContext parentType sourceValue path"
    by (intro ext) (simp add: executeFieldsStep_def case_prod_beta)
  then show ?thesis
    by (simp add: executeFields_Suc)
qed

lemma executeFieldsSerially_reduce:
  "executeFieldsSerially (Suc n) lib exeContext parentType sourceValue path flds st =
     reduceM (executeFieldsStep n lib exeContext parentType sourceValue path) flds
       (VObject ObjectPrototype []) st"
proof -
  have "(\<lambda>results (responseName, fieldNodes) st1.
          case resolveField n lib exeContext parentType sourceValue fieldNodes
                 (addPath path (Key responseName)) st1 of
            (Ok result, st2) \<Rightarrow>
              if result = VUndefined then (Ok results, st2)
              else (Ok (assignProp results responseName result), st2)
          | (Throw e, st2) \<Rightarrow> (Throw e, st2)
          | (Timeout, st2) \<Rightarrow> (Timeout, st2))
      = executeFieldsStep n lib exeContext parentType sourceValue path"
    by (intro ext) (simp add: executeFieldsStep_def case_prod_beta)
  then show ?thesis
    by simp
qed

lemma executeFieldsSerially_0:
  "executeFieldsSerially 0 lib exeContext parentType sourceValue path flds st = (Timeout, st)"
  by simp

declare executeFieldsSerially.simps [simp del]

lemma completeListValue_reduce:
  "completeListValue (Suc n) lib exeContext (ListT itemType) fieldNodes info path result st =
     (if \<not> isCollection lib result
      then (Throw (newError (ExpectedIterable (i_parentType info) (i_fieldName info))), st)
      else (case reduceM (completeListItem n lib exeContext itemType fieldNodes info path)
                   (enumerate 0 (collectionItems lib result)) [] st of
              (Ok completedResults, st1) \<Rightarrow> (Ok (VArray completedResults), st1)
            | (Throw e, st1) \<Rightarrow> (Throw e, st1)
            | (Timeout, st1) \<Rightarrow> (Timeout, st1)))"
proof -
  have "(\<lambda>completedResults (index, item) st1.
           case completeValueCatchingError n lib exeContext itemType fieldNodes
                  info (addPath (Some path) (Index index)) item st1 of
             (Ok completedItem, st2) \<Rightarrow> (Ok (completedResults @ [completedItem]), st2)
           | (Throw e, st2) \<Rightarrow> (Throw e, st2)
           | (Timeout, st2) \<Rightarrow> (Timeout, st2))
      = completeListItem n lib exeContext itemType fieldNodes info path"
    by (intro ext) (simp add: completeListItem_def case_prod_beta)
  then show ?thesis
    by (simp add: completeListValue_Suc)
qed

lemma reduceM_invariant:
  assumes "reduceM f xs acc st = (Ok r, st')"
    and "P acc"
    and "\<And>a x s a' s'. x \<in> set xs \<Longrightarrow> P a \<Longrightarrow> f a x s = (Ok a', s') \<Longrightarrow> P a'"
  shows "P r"
  using assms
proof (induction xs arbitrary: acc st)
  case Nil
  then show ?case by simp
next
  case (Cons x xs)
  show ?case
  proof (cases "f acc x st")
    case (Pair out st1)
    show ?thesis
    proof (cases out)
      case (Ok acc1)
      with Pair Cons.prems(1) have run: "reduceM f xs acc1 st1 = (Ok r, st')"
        by simp
      from Pair Ok have "f acc x st = (Ok acc1, st1)"
        by simp
      with Cons.prems(2) have acc1: "P acc1"
        by (intro Cons.prems(3) [of x acc st acc1 st1]) simp_all
      show ?thesis
      proof (rule Cons.IH [OF run acc1])
        fix a y s a' s'
        assume "y \<in> set xs" "P a" "f a y s = (Ok a', s')"
        then show "P a'"
          using Cons.prems(3) [of y a s a' s'] by simp
      qed
    next
      case (Throw e)
      with Pair Cons.prems(1) show ?thesis by simp
    next
      case Timeout
      with Pair Cons.prems(1) show ?thesis by simp
    qed
  qed
qed







subsection \<open>Running the example\<close>

lemmas executor_Suc =
  executeFields_reduce executeFieldsSerially_reduce resolveField_Suc
  completeValueCatchingError_Suc completeValueWithLocatedError_Suc completeValue_Suc
  completeListValue_Suc completeAbstractValue_Suc completeObjectValue_Suc
  collectAndExecuteSubfields_Suc

lemmas demo_defs =
  demoLib_def demoSchema_def demoContext_def demoFields_def demoTypes_def demoSerialize_def
  demoLocatedError_def constResolver_def throwingResolver_def propertyResolver_def
  nickResolver_def
  helloNode_def demoState_def

lemma demo_getFieldDef_hello:
  "getFieldDef demoLib (schema demoContext) (ObjectT ''Query'') ''hello'' =
     Some \<lparr> fd_name = ''hello'', fd_type = ScalarT ''String'',
            fd_resolve = Some (constResolver (VStr ''world'')) \<rparr>"
  by (simp add: getFieldDef_def demoLib_def demoSchema_def demoContext_def demoFields_def)


lemma demo_resolveField_hello:
  "resolveField (Suc (Suc (Suc (Suc n)))) demoLib demoContext (ObjectT ''Query'') source
     [helloNode] path st =
   (Ok (VStr ''world''),
    st\<lparr>world := Suc (world st),
       calls := calls st @
         [(source, [], \<lparr> i_fieldName = ''hello'', i_fieldNodes = [helloNode],
             i_returnType = ScalarT ''String'', i_parentType = ObjectT ''Query'',
             i_path = path, i_fragments = fragments demoContext,
             i_rootValue = VNull, i_operation = operation demoContext,
             i_variableValues = [] \<rparr>)]\<rparr>)"
  by (simp add: executor_Suc demo_defs getFieldDef_def resolveFieldValueOrError_def
      firstNode_def completeLeafValue_def)

lemmas demo_eval =
  executor_Suc executeFieldsStep_def completeListItem_def demo_defs getFieldDef_def
  resolveFieldValueOrError_def firstNode_def asError_def completeLeafValue_def
  defaultResolveTypeFn_def ensureValidRuntimeType_def invalidReturnTypeError_def
  newError_def newGraphQLError_def addPath_def responsePathAsArray_def

section \<open>Properties of the executor\<close>

subsection \<open>C1: a failure under a non-null type\<close>

text \<open>
  Loops: where a loop throws, the callback threw at the element that \<open>firstThrow\<close> finds,
  and conversely. A throw of the callback of \<open>executeFields\<close> is a throw of \<open>resolveField\<close>,
  a throw of the callback of \<open>completeListValue\<close> is a throw of
  \<open>completeValueCatchingError\<close>, and the accumulator has no part in whether and where a
  loop over the fields throws.
\<close>

lemma firstThrow_reduceM:
  assumes "reduceM f xs acc st = (Throw e, st1)"
  shows "\<exists>a x s. firstThrow f xs acc st = Some (a, x, s) \<and> f a x s = (Throw e, st1)"
  using assms
proof (induction xs arbitrary: acc st)
  case Nil
  then show ?case by simp
next
  case (Cons x xs)
  obtain out s where step: "f acc x st = (out, s)"
    by (cases "f acc x st")
  show ?case
  proof (cases out)
    case (Ok a)
    with step Cons.prems have "reduceM f xs a s = (Throw e, st1)"
      by simp
    from Cons.IH [OF this] step Ok show ?thesis
      by simp
  next
    case (Throw e')
    with step Cons.prems show ?thesis
      by simp
  next
    case Timeout
    with step Cons.prems show ?thesis
      by simp
  qed
qed

lemma executeFieldsStep_throw:
  "executeFieldsStep n lib exeContext parentType source path a entry s = (Throw e, s1)
   \<longleftrightarrow> resolveField n lib exeContext parentType source (snd entry)
         (addPath path (Key (fst entry))) s = (Throw e, s1)"
proof -
  obtain out s' where res: "resolveField n lib exeContext parentType source (snd entry)
      (addPath path (Key (fst entry))) s = (out, s')"
    by (cases "resolveField n lib exeContext parentType source (snd entry)
      (addPath path (Key (fst entry))) s")
  then show ?thesis
    by (cases out) (simp_all add: executeFieldsStep_def)
qed

lemma completeListItem_throw:
  "completeListItem n lib exeContext itemType fieldNodes info path a entry s = (Throw e, s1)
   \<longleftrightarrow> completeValueCatchingError n lib exeContext itemType fieldNodes info
         (addPath (Some path) (Index (fst entry))) (snd entry) s = (Throw e, s1)"
proof -
  obtain out s' where res: "completeValueCatchingError n lib exeContext itemType fieldNodes
      info (addPath (Some path) (Index (fst entry))) (snd entry) s = (out, s')"
    by (cases "completeValueCatchingError n lib exeContext itemType fieldNodes
      info (addPath (Some path) (Index (fst entry))) (snd entry) s")
  then show ?thesis
    by (cases out) (simp_all add: completeListItem_def)
qed

lemma executeFieldsStep_outcome:
  "executeFieldsStep n lib exeContext parentType source path a entry s = (out, s1)
   \<Longrightarrow> \<exists>out'. executeFieldsStep n lib exeContext parentType source path a' entry s = (out', s1)
         \<and> (case out of Ok r \<Rightarrow> (\<exists>r'. out' = Ok r') | Throw e \<Rightarrow> out' = Throw e
             | Timeout \<Rightarrow> out' = Timeout)"
proof -
  assume step: "executeFieldsStep n lib exeContext parentType source path a entry s = (out, s1)"
  obtain o' s' where res: "resolveField n lib exeContext parentType source (snd entry)
      (addPath path (Key (fst entry))) s = (o', s')"
    by (cases "resolveField n lib exeContext parentType source (snd entry)
      (addPath path (Key (fst entry))) s")
  show ?thesis
  proof (cases o')
    case (Ok r)
    with res step show ?thesis
      by (cases "r = VUndefined") (auto simp: executeFieldsStep_def)
  next
    case (Throw e)
    with res step show ?thesis
      by (auto simp: executeFieldsStep_def)
  next
    case Timeout
    with res step show ?thesis
      by (auto simp: executeFieldsStep_def)
  qed
qed

lemma reduce_fields_throw:
  assumes "reduceM (executeFieldsStep n lib exeContext parentType source path) flds acc st
           = (Throw e, st1)"
  shows "reduceM (executeFieldsStep n lib exeContext parentType source path) flds acc' st
         = (Throw e, st1)"
  using assms
proof (induction flds arbitrary: acc acc' st)
  case Nil
  then show ?case by simp
next
  case (Cons x flds)
  let ?f = "executeFieldsStep n lib exeContext parentType source path"
  obtain out s where step: "?f acc x st = (out, s)"
    by (cases "?f acc x st")
  from executeFieldsStep_outcome [OF step, of acc']
  obtain out' where step': "?f acc' x st = (out', s)"
    and shape: "case out of Ok r \<Rightarrow> (\<exists>r'. out' = Ok r') | Throw e \<Rightarrow> out' = Throw e
             | Timeout \<Rightarrow> out' = Timeout"
    by blast
  show ?case
  proof (cases out)
    case (Ok r)
    with shape obtain r' where out': "out' = Ok r'"
      by auto
    from Cons.prems step Ok have "reduceM ?f flds r s = (Throw e, st1)"
      by simp
    from Cons.IH [OF this, of r'] step' out' show ?thesis
      by simp
  next
    case (Throw e')
    with shape step step' Cons.prems show ?thesis
      by simp
  next
    case Timeout
    with step Cons.prems show ?thesis
      by simp
  qed
qed

lemma executeFieldsSerially_throw:
  "(executeFieldsSerially n lib exeContext parentType source path flds st = (Throw e, st1))
   = (executeFields n lib exeContext parentType source path flds st = (Throw e, st1))"
proof (cases n)
  case 0
  then show ?thesis
    by (simp add: executeFieldsSerially_0 executeFields_0)
next
  case (Suc m)
  have "(reduceM (executeFieldsStep m lib exeContext parentType source path) flds
           (VObject ObjectPrototype []) st = (Throw e, st1))
      = (reduceM (executeFieldsStep m lib exeContext parentType source path) flds
           (VObject NullPrototype []) st = (Throw e, st1))"
    using reduce_fields_throw [of m lib exeContext parentType source path flds _ st e st1]
    by blast
  with Suc show ?thesis
    by (simp add: executeFields_reduce executeFieldsSerially_reduce)
qed

text \<open>
  The completion of a list, of an object or of an abstract type never gives null, so a
  completion that gives null has recorded nothing and has changed nothing.
\<close>

lemma executeFields_object:
  assumes "executeFields n lib exeContext parentType source path flds st = (Ok v, st')"
  shows "v \<noteq> VNull"
proof (cases n)
  case 0
  with assms show ?thesis
    by (simp add: executeFields_0)
next
  case (Suc m)
  with assms
  have run: "reduceM (executeFieldsStep m lib exeContext parentType source path) flds
      (VObject NullPrototype []) st = (Ok v, st')"
    by (simp add: executeFields_reduce)
  have "isObject v \<and> v \<noteq> VNull"
  proof (rule reduceM_invariant [OF run])
    show "isObject (VObject NullPrototype []) \<and> VObject NullPrototype [] \<noteq> VNull"
      by simp
  next
    fix a x s a' s'
    assume a: "isObject a \<and> a \<noteq> VNull"
      and step: "executeFieldsStep m lib exeContext parentType source path a x s = (Ok a', s')"
    obtain out s1 where res: "resolveField m lib exeContext parentType source (snd x)
        (addPath path (Key (fst x))) s = (out, s1)"
      by (cases "resolveField m lib exeContext parentType source (snd x)
        (addPath path (Key (fst x))) s")
    have "isObject (assignProp a k r) \<and> assignProp a k r \<noteq> VNull" for k r
      using a by (cases a) auto
    with a res step show "isObject a' \<and> a' \<noteq> VNull"
      by (cases out) (auto simp: executeFieldsStep_def split: if_splits)
  qed
  then show ?thesis
    by simp
qed

lemma collectAndExecuteSubfields_object:
  assumes "collectAndExecuteSubfields n lib exeContext returnType fieldNodes info path result st
           = (Ok v, st')"
  shows "v \<noteq> VNull"
proof (cases n)
  case 0
  with assms show ?thesis
    by (simp add: collectAndExecuteSubfields_0)
next
  case (Suc m)
  with assms show ?thesis
    by (auto simp: collectAndExecuteSubfields_Suc dest: executeFields_object
        split: sum.splits prod.splits)
qed

lemma completeObjectValue_object:
  assumes "completeObjectValue n lib exeContext returnType fieldNodes info path result st
           = (Ok v, st')"
  shows "v \<noteq> VNull"
proof (cases n)
  case 0
  with assms show ?thesis
    by (simp add: completeObjectValue_0)
next
  case (Suc m)
  with assms show ?thesis
    by (auto simp: completeObjectValue_Suc dest: collectAndExecuteSubfields_object
        split: option.splits sum.splits bool.splits)
qed

lemma completeAbstractValue_object:
  assumes "completeAbstractValue n lib exeContext returnType fieldNodes info path result st
           = (Ok v, st')"
  shows "v \<noteq> VNull"
proof (cases n)
  case 0
  with assms show ?thesis
    by (simp add: completeAbstractValue_0)
next
  case (Suc m)
  with assms show ?thesis
    by (auto simp: completeAbstractValue_Suc dest: completeObjectValue_object
        split: sum.splits)
qed

lemma completeListValue_array:
  assumes "completeListValue n lib exeContext returnType fieldNodes info path result st
           = (Ok v, st')"
  shows "v \<noteq> VNull"
proof (cases n)
  case 0
  with assms show ?thesis
    by (simp add: completeListValue_0)
next
  case (Suc m)
  with assms show ?thesis
    by (auto simp: completeListValue_Suc split: if_splits gtype.splits prod.splits
        outcome.splits)
qed

lemma completeValue_null:
  assumes "completeValue n lib exeContext returnType fieldNodes info path result st
           = (Ok VNull, st')"
  shows "st' = st"
proof (cases n)
  case 0
  with assms show ?thesis
    by (simp add: completeValue_0)
next
  case (Suc m)
  note run = assms [unfolded Suc completeValue_Suc]
  show ?thesis
  proof (cases "isError result")
    case True
    with run show ?thesis by simp
  next
    case notError: False
    show ?thesis
    proof (cases "isNonNull returnType")
      case True
      then obtain ofType where t: "returnType = NonNullT ofType"
        by (cases returnType) simp_all
      obtain out s where inner: "completeValue m lib exeContext ofType fieldNodes info path
          result st = (out, s)"
        by (cases "completeValue m lib exeContext ofType fieldNodes info path result st")
      with run notError t show ?thesis
        by (cases out) (auto split: if_splits)
    next
      case notNonNull: False
      show ?thesis
      proof (cases "isNullish result")
        case True
        with run notError notNonNull show ?thesis
          by (cases returnType) simp_all
      next
        case False
        with run notError notNonNull show ?thesis
          by (cases returnType)
             (auto simp: completeLeafValue_def
                dest: completeListValue_array completeAbstractValue_object
                  completeObjectValue_object
                split: option.splits sum.splits if_splits)
      qed
    qed
  qed
qed

text \<open>
  Downwards, function by function: a failure that leaves a call was raised by its body in
  the state the call was made in, or it left the call that \<open>failingCall\<close> names, with the
  same state.
\<close>

lemma frame_CompleteValueCatchingError:
  assumes "run (Suc n) lib exeContext
             (CompleteValueCatchingError returnType fieldNodes info path result) st
           = (Throw e, st1)"
  shows "run n lib exeContext (CompleteValueWithLocatedError returnType fieldNodes info path
           result) st = (Throw e, st1)"
proof -
  obtain out s where sub: "run n lib exeContext
      (CompleteValueWithLocatedError returnType fieldNodes info path result) st = (out, s)"
    by (cases "run n lib exeContext
      (CompleteValueWithLocatedError returnType fieldNodes info path result) st")
  with assms show ?thesis
    by (cases out) (auto split: if_splits)
qed

lemma frame_CompleteValueWithLocatedError:
  assumes "run (Suc n) lib exeContext
             (CompleteValueWithLocatedError returnType fieldNodes info path result) st
           = (Throw e, st1)"
  shows "\<exists>e0. run n lib exeContext (CompleteValue returnType fieldNodes info path result) st
           = (Throw e0, st1)
         \<and> e = VError (locatedError lib e0 fieldNodes (responsePathAsArray (Some path)))"
proof -
  obtain out s where sub: "run n lib exeContext
      (CompleteValue returnType fieldNodes info path result) st = (out, s)"
    by (cases "run n lib exeContext (CompleteValue returnType fieldNodes info path result) st")
  with assms show ?thesis
    by (cases out) auto
qed

lemma passes_throw:
  assumes "run n lib exeContext c' st0 = (Throw e0, st1)"
    and "e = rethrown lib c e0"
  shows "case throwing n lib exeContext c' st0 of
           None \<Rightarrow> st1 = st
         | Some (c'', s0) \<Rightarrow>
             (case run n lib exeContext c'' s0 of
                (Throw e0, s) \<Rightarrow> s = st1 \<and> e = rethrown lib c e0
              | (out, s) \<Rightarrow> False)"
  using assms by (simp add: throwing_def)

lemma frame_catching:
  assumes "run (Suc n) lib exeContext
             (CompleteValueCatchingError returnType fieldNodes info path result) st
           = (Throw e, st1)"
  shows "case failingCall n lib exeContext
                (CompleteValueCatchingError returnType fieldNodes info path result) st of
           None \<Rightarrow> st1 = st
         | Some (c', st0) \<Rightarrow>
             (case run n lib exeContext c' st0 of
                (Throw e0, s) \<Rightarrow>
                  s = st1 \<and> e = rethrown lib (CompleteValueCatchingError returnType fieldNodes info path result) e0
              | (out, s) \<Rightarrow> False)"
proof -
  from frame_CompleteValueCatchingError [OF assms]
  have "run n lib exeContext (CompleteValueWithLocatedError returnType fieldNodes info path
           result) st = (Throw e, st1)" .
  from passes_throw [OF this, of e
      "CompleteValueCatchingError returnType fieldNodes info path result"]
  show ?thesis
    by (simp add: failingCall_def rethrown_def)
qed

lemma frame_located:
  assumes "run (Suc n) lib exeContext
             (CompleteValueWithLocatedError returnType fieldNodes info path result) st
           = (Throw e, st1)"
  shows "case failingCall n lib exeContext
                (CompleteValueWithLocatedError returnType fieldNodes info path result) st of
           None \<Rightarrow> st1 = st
         | Some (c', st0) \<Rightarrow>
             (case run n lib exeContext c' st0 of
                (Throw e0, s) \<Rightarrow>
                  s = st1 \<and> e = rethrown lib (CompleteValueWithLocatedError returnType fieldNodes info path result) e0
              | (out, s) \<Rightarrow> False)"
proof -
  from frame_CompleteValueWithLocatedError [OF assms]
  obtain e0 where sub: "run n lib exeContext
      (CompleteValue returnType fieldNodes info path result) st = (Throw e0, st1)"
    and e: "e = VError (locatedError lib e0 fieldNodes (responsePathAsArray (Some path)))"
    by blast
  from passes_throw [OF sub, of e
      "CompleteValueWithLocatedError returnType fieldNodes info path result"] e
  show ?thesis
    by (simp add: failingCall_def rethrown_def)
qed

lemma frame_abstract:
  assumes "run (Suc n) lib exeContext
             (CompleteAbstractValue returnType fieldNodes info path result) st
           = (Throw e, st1)"
  shows "case failingCall n lib exeContext
                (CompleteAbstractValue returnType fieldNodes info path result) st of
           None \<Rightarrow> st1 = st
         | Some (c', st0) \<Rightarrow>
             (case run n lib exeContext c' st0 of
                (Throw e0, s) \<Rightarrow>
                  s = st1 \<and> e = rethrown lib (CompleteAbstractValue returnType fieldNodes info path result) e0
              | (out, s) \<Rightarrow> False)"
proof -
  let ?resolved = "case resolveType (schema exeContext) returnType of
                     Some f \<Rightarrow> f result (contextValue exeContext) info
                   | None \<Rightarrow>
                       defaultResolveTypeFn (schema exeContext) result
                         (contextValue exeContext) info returnType"
  show ?thesis
  proof (cases ?resolved)
    case (Inl x)
    with assms show ?thesis
      by (simp add: failingCall_def)
  next
    case (Inr runtimeType)
    show ?thesis
    proof (cases "ensureValidRuntimeType runtimeType exeContext returnType fieldNodes info
        result")
      case (Inl x)
      with Inr assms show ?thesis
        by (simp add: failingCall_def)
    next
      case valid: (Inr objectType)
      with Inr assms have "run n lib exeContext
          (CompleteObjectValue objectType fieldNodes info path result) st = (Throw e, st1)"
        by simp
      from passes_throw [OF this, of e
          "CompleteAbstractValue returnType fieldNodes info path result"] Inr valid
      show ?thesis
        by (simp add: failingCall_def rethrown_def)
    qed
  qed
qed

lemma frame_object:
  assumes "run (Suc n) lib exeContext
             (CompleteObjectValue returnType fieldNodes info path result) st
           = (Throw e, st1)"
  shows "case failingCall n lib exeContext
                (CompleteObjectValue returnType fieldNodes info path result) st of
           None \<Rightarrow> st1 = st
         | Some (c', st0) \<Rightarrow>
             (case run n lib exeContext c' st0 of
                (Throw e0, s) \<Rightarrow>
                  s = st1 \<and> e = rethrown lib (CompleteObjectValue returnType fieldNodes info path result) e0
              | (out, s) \<Rightarrow> False)"
proof -
  have sub: ?thesis
    if "run n lib exeContext
          (CollectAndExecuteSubfields returnType fieldNodes info path result) st
        = (Throw e, st1)"
      and "failingCall n lib exeContext
             (CompleteObjectValue returnType fieldNodes info path result) st
           = throwing n lib exeContext
               (CollectAndExecuteSubfields returnType fieldNodes info path result) st"
    using passes_throw [OF that(1), of e
        "CompleteObjectValue returnType fieldNodes info path result"] that(2)
    by (simp add: rethrown_def)
  show ?thesis
  proof (cases "isTypeOf (schema exeContext) returnType")
    case None
    with assms show ?thesis
      by (intro sub) (simp_all add: failingCall_def)
  next
    case (Some p)
    show ?thesis
    proof (cases "p result (contextValue exeContext) info")
      case (Inl x)
      with Some assms show ?thesis
        by (simp add: failingCall_def)
    next
      case (Inr b)
      show ?thesis
      proof (cases b)
        case True
        with Some Inr assms show ?thesis
          by (intro sub) (simp_all add: failingCall_def)
      next
        case False
        with Some Inr assms show ?thesis
          by (simp add: failingCall_def)
      qed
    qed
  qed
qed

lemma frame_subfields:
  assumes "run (Suc n) lib exeContext
             (CollectAndExecuteSubfields returnType fieldNodes info path result) st
           = (Throw e, st1)"
  shows "case failingCall n lib exeContext
                (CollectAndExecuteSubfields returnType fieldNodes info path result) st of
           None \<Rightarrow> st1 = st
         | Some (c', st0) \<Rightarrow>
             (case run n lib exeContext c' st0 of
                (Throw e0, s) \<Rightarrow>
                  s = st1 \<and> e = rethrown lib (CollectAndExecuteSubfields returnType fieldNodes info path result) e0
              | (out, s) \<Rightarrow> False)"
proof (cases "collectSubFieldNodes lib exeContext returnType fieldNodes [] {}")
  case (Inl x)
  with assms show ?thesis
    by (simp add: failingCall_def)
next
  case (Inr collected)
  obtain subFieldNodes visited where c: "collected = (subFieldNodes, visited)"
    by (cases collected)
  with Inr assms have "run n lib exeContext
      (ExecuteFields returnType result (Some path) subFieldNodes) st = (Throw e, st1)"
    by simp
  from passes_throw [OF this, of e
      "CollectAndExecuteSubfields returnType fieldNodes info path result"] Inr c
  show ?thesis
    by (simp add: failingCall_def rethrown_def)
qed

lemma frame_completeValue:
  assumes "run (Suc n) lib exeContext
             (CompleteValue returnType fieldNodes info path result) st
           = (Throw e, st1)"
  shows "case failingCall n lib exeContext
                (CompleteValue returnType fieldNodes info path result) st of
           None \<Rightarrow> st1 = st
         | Some (c', st0) \<Rightarrow>
             (case run n lib exeContext c' st0 of
                (Throw e0, s) \<Rightarrow>
                  s = st1 \<and> e = rethrown lib (CompleteValue returnType fieldNodes info path result) e0
              | (out, s) \<Rightarrow> False)"
proof -
  let ?c = "CompleteValue returnType fieldNodes info path result"
  have sub: ?thesis
    if "run n lib exeContext c' st = (Throw e, st1)"
      and "failingCall n lib exeContext ?c st = throwing n lib exeContext c' st" for c'
    using passes_throw [OF that(1), of e ?c] that(2)
    by (simp add: rethrown_def)
  show ?thesis
  proof (cases "isError result")
    case True
    with assms show ?thesis
      by (simp add: failingCall_def)
  next
    case notError: False
    show ?thesis
    proof (cases "isNonNull returnType")
      case True
      then obtain ofType where t: "returnType = NonNullT ofType"
        by (cases returnType) simp_all
      obtain out s where inner: "run n lib exeContext
          (CompleteValue ofType fieldNodes info path result) st = (out, s)"
        by (cases "run n lib exeContext (CompleteValue ofType fieldNodes info path result) st")
      show ?thesis
      proof (cases out)
        case (Ok completed)
        with assms notError t inner have "completed = VNull" and "st1 = s"
          by (auto split: if_splits)
        with inner Ok have "completeValue n lib exeContext ofType fieldNodes info path result
            st = (Ok VNull, st1)"
          by (simp add: completeValue_def)
        then have "st1 = st"
          by (rule completeValue_null)
        with notError t inner Ok show ?thesis
          by (simp add: failingCall_def throwing_def)
      next
        case (Throw e')
        with assms notError t inner
        have "run n lib exeContext (CompleteValue ofType fieldNodes info path result) st
            = (Throw e, st1)"
          by simp
        with notError t show ?thesis
          by (intro sub) (simp_all add: failingCall_def)
      next
        case Timeout
        with assms notError t inner show ?thesis
          by simp
      qed
    next
      case notNonNull: False
      show ?thesis
      proof (cases "isNullish result")
        case True
        with assms notError notNonNull show ?thesis
          by (cases returnType) simp_all
      next
        case notNullish: False
        show ?thesis
        proof (cases returnType)
          case (ScalarT x)
          with assms notError notNullish show ?thesis
            by (auto simp: failingCall_def split: sum.splits)
        next
          case (EnumT x)
          with assms notError notNullish show ?thesis
            by (auto simp: failingCall_def split: sum.splits)
        next
          case (ObjectT x)
          with assms notError notNullish show ?thesis
            by (intro sub) (simp_all add: failingCall_def)
        next
          case (InterfaceT x)
          with assms notError notNullish show ?thesis
            by (intro sub) (simp_all add: failingCall_def)
        next
          case (UnionT x)
          with assms notError notNullish show ?thesis
            by (intro sub) (simp_all add: failingCall_def)
        next
          case (InputObjectT x)
          with assms notError notNullish show ?thesis
            by (simp add: failingCall_def)
        next
          case (ListT x)
          with assms notError notNullish show ?thesis
            by (intro sub) (simp_all add: failingCall_def)
        next
          case (NonNullT x)
          with notNonNull show ?thesis
            by simp
        qed
      qed
    qed
  qed
qed

lemma frame_resolveField:
  assumes "run (Suc n) lib exeContext
             (ResolveField parentType source fieldNodes path) st
           = (Throw e, st1)"
  shows "case failingCall n lib exeContext
                (ResolveField parentType source fieldNodes path) st of
           None \<Rightarrow> st1 = st
         | Some (c', st0) \<Rightarrow>
             (case run n lib exeContext c' st0 of
                (Throw e0, s) \<Rightarrow>
                  s = st1 \<and> e = rethrown lib (ResolveField parentType source fieldNodes path) e0
              | (out, s) \<Rightarrow> False)"
proof (cases fieldNodes)
  case Nil
  with assms show ?thesis
    by (simp add: failingCall_def)
next
  case (Cons fieldNode ns)
  show ?thesis
  proof (cases "getFieldDef lib (schema exeContext) parentType (f_name fieldNode)")
    case None
    with Cons assms show ?thesis
      by (simp add: failingCall_def)
  next
    case (Some fieldDef)
    obtain info where info: "buildResolveInfo exeContext fieldDef (fieldNode # ns) parentType
        path = Inr info"
      by (cases "buildResolveInfo exeContext fieldDef (fieldNode # ns) parentType path")
         simp_all
    obtain result s where resolved: "resolveFieldValueOrError lib exeContext fieldDef
        (fieldNode # ns)
        (case fd_resolve fieldDef of Some r \<Rightarrow> r | None \<Rightarrow> fieldResolver exeContext)
        source info st = (result, s)"
      by (cases "resolveFieldValueOrError lib exeContext fieldDef (fieldNode # ns)
        (case fd_resolve fieldDef of Some r \<Rightarrow> r | None \<Rightarrow> fieldResolver exeContext)
        source info st")
    from assms Cons Some info resolved
    have "run n lib exeContext
        (CompleteValueCatchingError (fd_type fieldDef) (fieldNode # ns) info path result) s
      = (Throw e, st1)"
      by (simp del: buildResolveInfo.simps)
    from passes_throw [OF this, of e "ResolveField parentType source fieldNodes path"]
      Cons Some info resolved
    show ?thesis
      by (simp add: failingCall_def rethrown_def del: buildResolveInfo.simps)
  qed
qed

lemma frame_executeFields:
  assumes "run (Suc n) lib exeContext
             (ExecuteFields parentType source path flds) st
           = (Throw e, st1)"
  shows "case failingCall n lib exeContext
                (ExecuteFields parentType source path flds) st of
           None \<Rightarrow> st1 = st
         | Some (c', st0) \<Rightarrow>
             (case run n lib exeContext c' st0 of
                (Throw e0, s) \<Rightarrow>
                  s = st1 \<and> e = rethrown lib (ExecuteFields parentType source path flds) e0
              | (out, s) \<Rightarrow> False)"
proof -
  from assms
  have "reduceM (executeFieldsStep n lib exeContext parentType source path) flds
      (VObject NullPrototype []) st = (Throw e, st1)"
    using executeFields_reduce [of n lib exeContext parentType source path flds st]
    by (simp add: executeFields_def)
  from firstThrow_reduceM [OF this]
  obtain a x s where first: "firstThrow
        (executeFieldsStep n lib exeContext parentType source path) flds
        (VObject NullPrototype []) st = Some (a, x, s)"
    and step: "executeFieldsStep n lib exeContext parentType source path a x s
        = (Throw e, st1)"
    by blast
  from step have "run n lib exeContext
      (ResolveField parentType source (snd x) (addPath path (Key (fst x)))) s
    = (Throw e, st1)"
    by (simp add: executeFieldsStep_throw resolveField_def)
  with first show ?thesis
    by (simp add: failingCall_def rethrown_def)
qed

lemma frame_completeListValue:
  assumes "run (Suc n) lib exeContext
             (CompleteListValue returnType fieldNodes info path result) st
           = (Throw e, st1)"
  shows "case failingCall n lib exeContext
                (CompleteListValue returnType fieldNodes info path result) st of
           None \<Rightarrow> st1 = st
         | Some (c', st0) \<Rightarrow>
             (case run n lib exeContext c' st0 of
                (Throw e0, s) \<Rightarrow>
                  s = st1 \<and> e = rethrown lib (CompleteListValue returnType fieldNodes info path result) e0
              | (out, s) \<Rightarrow> False)"
proof (cases "isCollection lib result")
  case False
  with assms show ?thesis
    by (simp add: failingCall_def)
next
  case True
  show ?thesis
  proof (cases "\<exists>itemType. returnType = ListT itemType")
    case False
    with True assms show ?thesis
      by (cases returnType) (simp_all add: failingCall_def)
  next
    case isList: True
    then obtain itemType where t: "returnType = ListT itemType"
      by blast
    from assms t True
    have "completeListValue (Suc n) lib exeContext (ListT itemType) fieldNodes info path
        result st = (Throw e, st1)"
      by (simp only: completeListValue_def)
    with True
    have "reduceM (completeListItem n lib exeContext itemType fieldNodes info path)
        (enumerate 0 (collectionItems lib result)) [] st = (Throw e, st1)"
      by (auto simp: completeListValue_reduce split: prod.splits outcome.splits)
    from firstThrow_reduceM [OF this]
    obtain a x s where first: "firstThrow
          (completeListItem n lib exeContext itemType fieldNodes info path)
          (enumerate 0 (collectionItems lib result)) [] st = Some (a, x, s)"
      and step: "completeListItem n lib exeContext itemType fieldNodes info path a x s
          = (Throw e, st1)"
      by blast
    from step have "run n lib exeContext
        (CompleteValueCatchingError itemType fieldNodes info
           (addPath (Some path) (Index (fst x))) (snd x)) s = (Throw e, st1)"
      by (simp add: completeListItem_throw completeValueCatchingError_def)
    with first t True show ?thesis
      by (simp add: failingCall_def rethrown_def)
  qed
qed

lemma frame_passes_throw:
  assumes "run (Suc n) lib exeContext c st = (Throw e, st1)"
  shows "case failingCall n lib exeContext c st of
           None \<Rightarrow> st1 = st
         | Some (c', st0) \<Rightarrow>
             (case run n lib exeContext c' st0 of
                (Throw e0, s) \<Rightarrow> s = st1 \<and> e = rethrown lib c e0
              | (out, s) \<Rightarrow> False)"
proof (cases c)
  case (ExecuteFields parentType source path flds)
  from assms show ?thesis
    unfolding ExecuteFields by (rule frame_executeFields)
next
  case (ResolveField parentType source fieldNodes path)
  from assms show ?thesis
    unfolding ResolveField by (rule frame_resolveField)
next
  case (CompleteValueCatchingError returnType fieldNodes info path result)
  from assms show ?thesis
    unfolding CompleteValueCatchingError by (rule frame_catching)
next
  case (CompleteValueWithLocatedError returnType fieldNodes info path result)
  from assms show ?thesis
    unfolding CompleteValueWithLocatedError by (rule frame_located)
next
  case (CompleteValue returnType fieldNodes info path result)
  from assms show ?thesis
    unfolding CompleteValue by (rule frame_completeValue)
next
  case (CompleteListValue returnType fieldNodes info path result)
  from assms show ?thesis
    unfolding CompleteListValue by (rule frame_completeListValue)
next
  case (CompleteAbstractValue returnType fieldNodes info path result)
  from assms show ?thesis
    unfolding CompleteAbstractValue by (rule frame_abstract)
next
  case (CompleteObjectValue returnType fieldNodes info path result)
  from assms show ?thesis
    unfolding CompleteObjectValue by (rule frame_object)
next
  case (CollectAndExecuteSubfields returnType fieldNodes info path result)
  from assms show ?thesis
    unfolding CollectAndExecuteSubfields by (rule frame_subfields)
qed

lemma throw_raisedIn:
  "run n lib exeContext c st = (Throw e, st1) \<Longrightarrow> raisedIn n lib exeContext c st e st1"
proof (induction n arbitrary: c st e)
  case 0
  then show ?case by simp
next
  case (Suc n)
  note frame = frame_passes_throw [OF Suc.prems]
  show ?case
  proof (cases "failingCall n lib exeContext c st")
    case None
    with frame have "st1 = st"
      by simp
    with None Suc.prems show ?thesis
      by (simp add: raisedIn_def)
  next
    case (Some sub)
    obtain c' st0 where sub: "sub = (c', st0)"
      by (cases sub)
    obtain out s where res: "run n lib exeContext c' st0 = (out, s)"
      by (cases "run n lib exeContext c' st0")
    from frame Some sub res obtain e0 where out: "out = Throw e0" and s: "s = st1"
      and e: "e = rethrown lib c e0"
      by (cases out) simp_all
    from res out s have "run n lib exeContext c' st0 = (Throw e0, st1)"
      by simp
    from Suc.IH [OF this] have "raisedIn n lib exeContext c' st0 e0 st1" .
    with Some sub e show ?thesis
      by (auto simp: raisedIn_def split: prod.splits outcome.splits)
  qed
qed

text \<open>Upwards, function by function.\<close>

lemma firstThrow_Some:
  assumes "firstThrow f xs acc st = Some (a, x, s)"
  shows "\<exists>e s1. f a x s = (Throw e, s1) \<and> reduceM f xs acc st = (Throw e, s1)"
  using assms
proof (induction xs arbitrary: acc st)
  case Nil
  then show ?case by simp
next
  case (Cons y xs)
  obtain out s' where step: "f acc y st = (out, s')"
    by (cases "f acc y st")
  show ?case
  proof (cases out)
    case (Ok acc')
    with step Cons.prems have "firstThrow f xs acc' s' = Some (a, x, s)"
      by simp
    from Cons.IH [OF this] step Ok show ?thesis
      by simp
  next
    case (Throw e)
    with step Cons.prems show ?thesis
      by auto
  next
    case Timeout
    with step Cons.prems show ?thesis
      by simp
  qed
qed

lemma throwing_Some:
  assumes "throwing n lib exeContext c st = Some (c', st0)"
  shows "c' = c \<and> st0 = st \<and> (\<exists>e s. run n lib exeContext c st = (Throw e, s))"
proof -
  obtain out s where res: "run n lib exeContext c st = (out, s)"
    by (cases "run n lib exeContext c st")
  with assms show ?thesis
    by (cases out) (simp_all add: throwing_def)
qed

lemma up_catching:
  assumes "failingCall n lib exeContext
             (CompleteValueCatchingError returnType fieldNodes info path result) st
           = Some (c', st0)"
    and "isNonNull returnType"
  shows "case run n lib exeContext c' st0 of
           (Throw e0, s) \<Rightarrow>
             run (Suc n) lib exeContext
               (CompleteValueCatchingError returnType fieldNodes info path result) st
             = (Throw (rethrown lib (CompleteValueCatchingError returnType fieldNodes info path result) e0), s)
         | (out, s) \<Rightarrow> False"
proof -
  from assms(1) have "throwing n lib exeContext
      (CompleteValueWithLocatedError returnType fieldNodes info path result) st
    = Some (c', st0)"
    by (simp add: failingCall_def)
  from throwing_Some [OF this] assms(2) show ?thesis
    by (auto simp: rethrown_def)
qed

lemma up_located:
  assumes "failingCall n lib exeContext
             (CompleteValueWithLocatedError returnType fieldNodes info path result) st
           = Some (c', st0)"
  shows "case run n lib exeContext c' st0 of
           (Throw e0, s) \<Rightarrow>
             run (Suc n) lib exeContext
               (CompleteValueWithLocatedError returnType fieldNodes info path result) st
             = (Throw (rethrown lib (CompleteValueWithLocatedError returnType fieldNodes info path result) e0), s)
         | (out, s) \<Rightarrow> False"
proof -
  from assms(1) have "throwing n lib exeContext
      (CompleteValue returnType fieldNodes info path result) st = Some (c', st0)"
    by (simp add: failingCall_def)
  from throwing_Some [OF this] show ?thesis
    by (auto simp: rethrown_def)
qed

lemma up_completeValue:
  assumes "failingCall n lib exeContext
             (CompleteValue returnType fieldNodes info path result) st
           = Some (c', st0)"
  shows "case run n lib exeContext c' st0 of
           (Throw e0, s) \<Rightarrow>
             run (Suc n) lib exeContext
               (CompleteValue returnType fieldNodes info path result) st
             = (Throw (rethrown lib (CompleteValue returnType fieldNodes info path result) e0), s)
         | (out, s) \<Rightarrow> False"
proof -
  let ?c = "CompleteValue returnType fieldNodes info path result"
  have sub: ?thesis
    if "throwing n lib exeContext c st = Some (c', st0)"
      and "\<And>e s. run n lib exeContext c st = (Throw e, s)
             \<Longrightarrow> run (Suc n) lib exeContext ?c st = (Throw e, s)" for c
    using throwing_Some [OF that(1)] that(2) by (auto simp: rethrown_def)
  from assms have notError: "\<not> isError result"
    by (auto simp: failingCall_def split: if_splits)
  show ?thesis
  proof (cases "isNonNull returnType")
    case True
    then obtain ofType where t: "returnType = NonNullT ofType"
      by (cases returnType) simp_all
    with assms notError show ?thesis
      by (intro sub [of "CompleteValue ofType fieldNodes info path result"])
         (simp_all add: failingCall_def)
  next
    case notNonNull: False
    with assms notError have notNullish: "\<not> isNullish result"
      by (cases returnType) (auto simp: failingCall_def split: if_splits)
    show ?thesis
    proof (cases returnType)
      case (ScalarT x)
      with assms notError notNullish show ?thesis
        by (simp add: failingCall_def)
    next
      case (EnumT x)
      with assms notError notNullish show ?thesis
        by (simp add: failingCall_def)
    next
      case (ObjectT x)
      with assms notError notNullish show ?thesis
        by (intro sub [of "CompleteObjectValue returnType fieldNodes info path result"])
           (simp_all add: failingCall_def)
    next
      case (InterfaceT x)
      with assms notError notNullish show ?thesis
        by (intro sub [of "CompleteAbstractValue returnType fieldNodes info path result"])
           (simp_all add: failingCall_def)
    next
      case (UnionT x)
      with assms notError notNullish show ?thesis
        by (intro sub [of "CompleteAbstractValue returnType fieldNodes info path result"])
           (simp_all add: failingCall_def)
    next
      case (InputObjectT x)
      with assms notError notNullish show ?thesis
        by (simp add: failingCall_def)
    next
      case (ListT x)
      with assms notError notNullish show ?thesis
        by (intro sub [of "CompleteListValue returnType fieldNodes info path result"])
           (simp_all add: failingCall_def)
    next
      case (NonNullT x)
      with notNonNull show ?thesis
        by simp
    qed
  qed
qed

lemma up_abstract:
  assumes "failingCall n lib exeContext
             (CompleteAbstractValue returnType fieldNodes info path result) st
           = Some (c', st0)"
  shows "case run n lib exeContext c' st0 of
           (Throw e0, s) \<Rightarrow>
             run (Suc n) lib exeContext
               (CompleteAbstractValue returnType fieldNodes info path result) st
             = (Throw (rethrown lib (CompleteAbstractValue returnType fieldNodes info path result) e0), s)
         | (out, s) \<Rightarrow> False"
proof -
  let ?resolved = "case resolveType (schema exeContext) returnType of
                     Some f \<Rightarrow> f result (contextValue exeContext) info
                   | None \<Rightarrow>
                       defaultResolveTypeFn (schema exeContext) result
                         (contextValue exeContext) info returnType"
  from assms obtain runtimeType where r: "?resolved = Inr runtimeType"
    by (cases ?resolved) (simp_all add: failingCall_def)
  with assms obtain objectType where v: "ensureValidRuntimeType runtimeType exeContext
      returnType fieldNodes info result = Inr objectType"
    by (cases "ensureValidRuntimeType runtimeType exeContext returnType fieldNodes info
      result") (simp_all add: failingCall_def)
  with assms r have "throwing n lib exeContext
      (CompleteObjectValue objectType fieldNodes info path result) st = Some (c', st0)"
    by (simp add: failingCall_def)
  from throwing_Some [OF this] r v show ?thesis
    by (auto simp: rethrown_def)
qed

lemma up_object:
  assumes "failingCall n lib exeContext
             (CompleteObjectValue returnType fieldNodes info path result) st
           = Some (c', st0)"
  shows "case run n lib exeContext c' st0 of
           (Throw e0, s) \<Rightarrow>
             run (Suc n) lib exeContext
               (CompleteObjectValue returnType fieldNodes info path result) st
             = (Throw (rethrown lib (CompleteObjectValue returnType fieldNodes info path result) e0), s)
         | (out, s) \<Rightarrow> False"
proof -
  have "throwing n lib exeContext
      (CollectAndExecuteSubfields returnType fieldNodes info path result) st = Some (c', st0)
    \<and> (case isTypeOf (schema exeContext) returnType of
          None \<Rightarrow> True
        | Some p \<Rightarrow> p result (contextValue exeContext) info = Inr True)"
    using assms
    by (auto simp: failingCall_def split: option.splits sum.splits bool.splits)
  then have t: "throwing n lib exeContext
      (CollectAndExecuteSubfields returnType fieldNodes info path result) st = Some (c', st0)"
    and p: "case isTypeOf (schema exeContext) returnType of
          None \<Rightarrow> True
        | Some p \<Rightarrow> p result (contextValue exeContext) info = Inr True"
    by simp_all
  from throwing_Some [OF t] p show ?thesis
    by (auto simp: rethrown_def split: option.splits)
qed

lemma up_subfields:
  assumes "failingCall n lib exeContext
             (CollectAndExecuteSubfields returnType fieldNodes info path result) st
           = Some (c', st0)"
  shows "case run n lib exeContext c' st0 of
           (Throw e0, s) \<Rightarrow>
             run (Suc n) lib exeContext
               (CollectAndExecuteSubfields returnType fieldNodes info path result) st
             = (Throw (rethrown lib (CollectAndExecuteSubfields returnType fieldNodes info path result) e0), s)
         | (out, s) \<Rightarrow> False"
proof -
  from assms obtain collected where c: "collectSubFieldNodes lib exeContext returnType
      fieldNodes [] {} = Inr collected"
    by (cases "collectSubFieldNodes lib exeContext returnType fieldNodes [] {}")
       (simp_all add: failingCall_def)
  obtain subFieldNodes visited where s: "collected = (subFieldNodes, visited)"
    by (cases collected)
  with assms c have "throwing n lib exeContext
      (ExecuteFields returnType result (Some path) subFieldNodes) st = Some (c', st0)"
    by (simp add: failingCall_def)
  from throwing_Some [OF this] c s show ?thesis
    by (auto simp: rethrown_def)
qed

lemma up_resolveField:
  assumes "failingCall n lib exeContext
             (ResolveField parentType source fieldNodes path) st
           = Some (c', st0)"
  shows "case run n lib exeContext c' st0 of
           (Throw e0, s) \<Rightarrow>
             run (Suc n) lib exeContext
               (ResolveField parentType source fieldNodes path) st
             = (Throw (rethrown lib (ResolveField parentType source fieldNodes path) e0), s)
         | (out, s) \<Rightarrow> False"
proof -
  from assms obtain fieldNode ns where nodes: "fieldNodes = fieldNode # ns"
    by (cases fieldNodes) (simp_all add: failingCall_def)
  with assms obtain fieldDef where fd: "getFieldDef lib (schema exeContext) parentType
      (f_name fieldNode) = Some fieldDef"
    by (cases "getFieldDef lib (schema exeContext) parentType (f_name fieldNode)")
       (simp_all add: failingCall_def)
  obtain info where info: "buildResolveInfo exeContext fieldDef (fieldNode # ns) parentType
      path = Inr info"
    by (cases "buildResolveInfo exeContext fieldDef (fieldNode # ns) parentType path")
       simp_all
  obtain result s where resolved: "resolveFieldValueOrError lib exeContext fieldDef
      (fieldNode # ns)
      (case fd_resolve fieldDef of Some r \<Rightarrow> r | None \<Rightarrow> fieldResolver exeContext)
      source info st = (result, s)"
    by (cases "resolveFieldValueOrError lib exeContext fieldDef (fieldNode # ns)
      (case fd_resolve fieldDef of Some r \<Rightarrow> r | None \<Rightarrow> fieldResolver exeContext)
      source info st")
  from assms nodes fd info resolved have "throwing n lib exeContext
      (CompleteValueCatchingError (fd_type fieldDef) (fieldNode # ns) info path result) s
    = Some (c', st0)"
    by (simp add: failingCall_def del: buildResolveInfo.simps)
  from throwing_Some [OF this] nodes fd info resolved show ?thesis
    by (auto simp: rethrown_def simp del: buildResolveInfo.simps)
qed

lemma up_executeFields:
  assumes "failingCall n lib exeContext
             (ExecuteFields parentType source path flds) st
           = Some (c', st0)"
  shows "case run n lib exeContext c' st0 of
           (Throw e0, s) \<Rightarrow>
             run (Suc n) lib exeContext
               (ExecuteFields parentType source path flds) st
             = (Throw (rethrown lib (ExecuteFields parentType source path flds) e0), s)
         | (out, s) \<Rightarrow> False"
proof -
  from assms obtain a x where first: "firstThrow
        (executeFieldsStep n lib exeContext parentType source path) flds
        (VObject NullPrototype []) st = Some (a, x, st0)"
    and c': "c' = ResolveField parentType source (snd x) (addPath path (Key (fst x)))"
    by (auto simp: failingCall_def split: option.splits)
  from firstThrow_Some [OF first]
  obtain e s1 where step: "executeFieldsStep n lib exeContext parentType source path a x st0
        = (Throw e, s1)"
    and loop: "reduceM (executeFieldsStep n lib exeContext parentType source path) flds
        (VObject NullPrototype []) st = (Throw e, s1)"
    by blast
  from step c' have "run n lib exeContext c' st0 = (Throw e, s1)"
    by (simp add: executeFieldsStep_throw resolveField_def)
  moreover from loop
  have "run (Suc n) lib exeContext (ExecuteFields parentType source path flds) st
      = (Throw e, s1)"
    using executeFields_reduce [of n lib exeContext parentType source path flds st]
    by (simp add: executeFields_def)
  ultimately show ?thesis
    by (simp add: rethrown_def)
qed

lemma up_completeListValue:
  assumes "failingCall n lib exeContext
             (CompleteListValue returnType fieldNodes info path result) st
           = Some (c', st0)"
  shows "case run n lib exeContext c' st0 of
           (Throw e0, s) \<Rightarrow>
             run (Suc n) lib exeContext
               (CompleteListValue returnType fieldNodes info path result) st
             = (Throw (rethrown lib (CompleteListValue returnType fieldNodes info path result) e0), s)
         | (out, s) \<Rightarrow> False"
proof -
  from assms have coll: "isCollection lib result"
    by (auto simp: failingCall_def split: if_splits)
  with assms obtain itemType where t: "returnType = ListT itemType"
    by (cases returnType) (simp_all add: failingCall_def)
  with assms coll obtain a x where first: "firstThrow
        (completeListItem n lib exeContext itemType fieldNodes info path)
        (enumerate 0 (collectionItems lib result)) [] st = Some (a, x, st0)"
    and c': "c' = CompleteValueCatchingError itemType fieldNodes info
        (addPath (Some path) (Index (fst x))) (snd x)"
    by (auto simp: failingCall_def split: option.splits)
  from firstThrow_Some [OF first]
  obtain e s1 where step: "completeListItem n lib exeContext itemType fieldNodes info path
        a x st0 = (Throw e, s1)"
    and loop: "reduceM (completeListItem n lib exeContext itemType fieldNodes info path)
        (enumerate 0 (collectionItems lib result)) [] st = (Throw e, s1)"
    by blast
  from step c' have "run n lib exeContext c' st0 = (Throw e, s1)"
    by (simp add: completeListItem_throw completeValueCatchingError_def)
  moreover from loop coll
  have "completeListValue (Suc n) lib exeContext (ListT itemType) fieldNodes info path
      result st = (Throw e, s1)"
    by (simp add: completeListValue_reduce)
  then have "run (Suc n) lib exeContext
      (CompleteListValue returnType fieldNodes info path result) st = (Throw e, s1)"
    unfolding t by (simp only: completeListValue_def)
  ultimately show ?thesis
    by (simp add: rethrown_def)
qed

lemma failing_call_throws:
  assumes "failingCall n lib exeContext c st = Some (c', st0)"
    and "\<not> isolates c"
  shows "case run n lib exeContext c' st0 of
           (Throw e0, s) \<Rightarrow> run (Suc n) lib exeContext c st = (Throw (rethrown lib c e0), s)
         | (out, s) \<Rightarrow> False"
proof (cases c)
  case (ExecuteFields parentType source path flds)
  from assms(1) show ?thesis
    unfolding ExecuteFields by (rule up_executeFields)
next
  case (ResolveField parentType source fieldNodes path)
  from assms(1) show ?thesis
    unfolding ResolveField by (rule up_resolveField)
next
  case (CompleteValueCatchingError returnType fieldNodes info path result)
  with assms(2) have "isNonNull returnType"
    by simp
  with assms(1) show ?thesis
    unfolding CompleteValueCatchingError by (intro up_catching)
next
  case (CompleteValueWithLocatedError returnType fieldNodes info path result)
  from assms(1) show ?thesis
    unfolding CompleteValueWithLocatedError by (rule up_located)
next
  case (CompleteValue returnType fieldNodes info path result)
  from assms(1) show ?thesis
    unfolding CompleteValue by (rule up_completeValue)
next
  case (CompleteListValue returnType fieldNodes info path result)
  from assms(1) show ?thesis
    unfolding CompleteListValue by (rule up_completeListValue)
next
  case (CompleteAbstractValue returnType fieldNodes info path result)
  from assms(1) show ?thesis
    unfolding CompleteAbstractValue by (rule up_abstract)
next
  case (CompleteObjectValue returnType fieldNodes info path result)
  from assms(1) show ?thesis
    unfolding CompleteObjectValue by (rule up_object)
next
  case (CollectAndExecuteSubfields returnType fieldNodes info path result)
  from assms(1) show ?thesis
    unfolding CollectAndExecuteSubfields by (rule up_subfields)
qed

lemma isolating_call_returns:
  assumes "isolates c"
  shows "run n lib exeContext c st \<noteq> (Throw e, st1)"
proof (cases n)
  case 0
  then show ?thesis by simp
next
  case (Suc m)
  from assms obtain returnType fieldNodes info path result
    where c: "c = CompleteValueCatchingError returnType fieldNodes info path result"
      and t: "\<not> isNonNull returnType"
    by (cases c) simp_all
  obtain out s where sub: "run m lib exeContext
      (CompleteValueWithLocatedError returnType fieldNodes info path result) st = (out, s)"
    by (cases "run m lib exeContext
      (CompleteValueWithLocatedError returnType fieldNodes info path result) st")
  with Suc c t show ?thesis
    by (cases out) simp_all
qed

lemmas run_call = executor_defs [symmetric]

lemmas demo_nodes =
  parentNode_def childNode_def parentInfo_def childInfo_def demoParentPath_def childError_def
  afterParent_def afterChild_def strictNode_def strictInfo_def strictError_def
  afterStrict_def shouldIncludeNode_def getFieldEntryKey_def addField_def
  executeOperation_def getOperationRootType_def demoOperation_def helloInfo_def
  afterHello_def afterHelloStrict_def itemsNode_def itemsInfo_def itemsPath_def
  nullItemError_def

text \<open>
  C1. A failure under a non-null type is not caught there, goes up to the first position
  whose type is not non-null, or to the operation, and is recorded there, once. The
  functions of the executor are \<open>run\<close> at their call, so a statement about every call \<open>c\<close>
  is one about each of them.

  \<^item> For a non-null type, completing with error handling is completing without it: there
    is no \<open>catch\<close>.
  \<^item> A null under a non-null type is a failure that names the parent type and the field;
    the completion that gave null has left the state as it was.
  \<^item> Upwards: when the call that the body of \<open>c\<close> makes throws, \<open>c\<close> throws as well, with
    the state that call left, unless \<open>c\<close> is \<open>completeValueCatchingError\<close> at a type that is
    not non-null; the failure is located by \<open>completeValueWithLocatedError\<close> and passed on
    as it is by the other functions. This covers the dispatch of \<open>completeValue\<close> to a
    list, an abstract or an object type and the two loops.
  \<^item> From the raising to the leaving: a failure that leaves any call \<open>c\<close> with the state
    \<open>st1\<close> was raised by the body of a call below made in the state \<open>st1\<close>, so that
    nothing was recorded, and nothing else changed, on the way; and \<open>c\<close> is no
    \<open>completeValueCatchingError\<close> at a type that is not non-null, which never throws.
  \<^item> At a type that is not non-null, \<open>completeValueCatchingError\<close> returns null and the
    error list is the one at the raising of the failure with the failure appended.
  \<^item> A failure leaves the serial driver exactly when it leaves \<open>executeFields\<close> on the same
    grouping, then with the same state.
  \<^item> A failure that leaves the driver of the operation makes the data null and is appended
    to the error list as it was at the raising.
\<close>

theorem nonNull_failure_propagates:
  "completeValueCatchingError (Suc n) lib exeContext (NonNullT ofType) fieldNodes info path
       result st
     = completeValueWithLocatedError n lib exeContext (NonNullT ofType) fieldNodes info path
         result st
   \<and> (\<not> isError result \<longrightarrow>
        completeValue n lib exeContext ofType fieldNodes info path result st = (Ok VNull, st1)
        \<longrightarrow> st1 = st
            \<and> completeValue (Suc n) lib exeContext (NonNullT ofType) fieldNodes info path
                 result st
               = (Throw (newError (CannotReturnNullForNonNullable (i_parentType info)
                                     (i_fieldName info))), st))
   \<and> (failingCall n lib exeContext c st = Some (c', st0) \<longrightarrow> \<not> isolates c
        \<longrightarrow> (case run n lib exeContext c' st0 of
               (Throw e0, s) \<Rightarrow>
                 run (Suc n) lib exeContext c st = (Throw (rethrown lib c e0), s)
             | (out, s) \<Rightarrow> False))
   \<and> (run n lib exeContext c st = (Throw e, st1) \<longrightarrow>
        \<not> isolates c \<and> raisedIn n lib exeContext c st e st1)
   \<and> (\<not> isNonNull returnType
        \<longrightarrow> completeValueWithLocatedError n lib exeContext returnType fieldNodes info path
              result st = (Throw e, st1)
        \<longrightarrow> completeValueCatchingError (Suc n) lib exeContext returnType fieldNodes info path
              result st
            = (Ok VNull, st1\<lparr>errors := errors st1 @ [e]\<rparr>)
          \<and> raisedIn n lib exeContext
                (CompleteValueWithLocatedError returnType fieldNodes info path result) st
                e st1)
   \<and> (executeFieldsSerially n lib exeContext parentType source fieldsPath flds st
          = (Throw e, st1))
       = (executeFields n lib exeContext parentType source fieldsPath flds st
          = (Throw e, st1))
   \<and> (getOperationRootType (schema exeContext) op = Inr rootType
        \<longrightarrow> collectFields lib exeContext rootType (op_selectionSet op) [] {}
            = Inr (flds, visited)
        \<longrightarrow> (if op_operation op = ''mutation''
             then executeFieldsSerially n lib exeContext rootType rootVal None flds st
             else executeFields n lib exeContext rootType rootVal None flds st)
            = (Throw e, st1)
        \<longrightarrow> executeOperation n lib exeContext op rootVal st
            = (Ok VNull, st1\<lparr>errors := errors st1 @ [e]\<rparr>)
          \<and> raisedIn n lib exeContext (ExecuteFields rootType rootVal None flds) st e st1)"
proof (intro conjI impI)
  show "completeValueCatchingError (Suc n) lib exeContext (NonNullT ofType) fieldNodes info path
       result st
     = completeValueWithLocatedError n lib exeContext (NonNullT ofType) fieldNodes info path
         result st"
    by (simp add: completeValueCatchingError_Suc)
next
  assume "completeValue n lib exeContext ofType fieldNodes info path result st
      = (Ok VNull, st1)"
  then show "st1 = st"
    by (rule completeValue_null)
next
  assume a: "\<not> isError result"
    "completeValue n lib exeContext ofType fieldNodes info path result st = (Ok VNull, st1)"
  from completeValue_null [OF a(2)] a
  show "completeValue (Suc n) lib exeContext (NonNullT ofType) fieldNodes info path result st
      = (Throw (newError (CannotReturnNullForNonNullable (i_parentType info)
                            (i_fieldName info))), st)"
    by (simp add: completeValue_Suc)
next
  assume "failingCall n lib exeContext c st = Some (c', st0)" "\<not> isolates c"
  then show "case run n lib exeContext c' st0 of
               (Throw e0, s) \<Rightarrow>
                 run (Suc n) lib exeContext c st = (Throw (rethrown lib c e0), s)
             | (out, s) \<Rightarrow> False"
    by (rule failing_call_throws)
next
  assume "run n lib exeContext c st = (Throw e, st1)"
  then show "\<not> isolates c"
    using isolating_call_returns [of c n lib exeContext st e st1] by blast
next
  assume "run n lib exeContext c st = (Throw e, st1)"
  then show "raisedIn n lib exeContext c st e st1"
    by (rule throw_raisedIn)
next
  assume "\<not> isNonNull returnType"
    "completeValueWithLocatedError n lib exeContext returnType fieldNodes info path
       result st = (Throw e, st1)"
  then show "completeValueCatchingError (Suc n) lib exeContext returnType fieldNodes info path
      result st = (Ok VNull, st1\<lparr>errors := errors st1 @ [e]\<rparr>)"
    by (simp add: completeValueCatchingError_Suc)
next
  assume "completeValueWithLocatedError n lib exeContext returnType fieldNodes info path
       result st = (Throw e, st1)"
  then show "raisedIn n lib exeContext
      (CompleteValueWithLocatedError returnType fieldNodes info path result) st e st1"
    by (intro throw_raisedIn) (simp add: completeValueWithLocatedError_def)
next
  show "(executeFieldsSerially n lib exeContext parentType source fieldsPath flds st
          = (Throw e, st1))
       = (executeFields n lib exeContext parentType source fieldsPath flds st
          = (Throw e, st1))"
    by (rule executeFieldsSerially_throw)
next
  assume "getOperationRootType (schema exeContext) op = Inr rootType"
    "collectFields lib exeContext rootType (op_selectionSet op) [] {} = Inr (flds, visited)"
    "(if op_operation op = ''mutation''
      then executeFieldsSerially n lib exeContext rootType rootVal None flds st
      else executeFields n lib exeContext rootType rootVal None flds st) = (Throw e, st1)"
  then show "executeOperation n lib exeContext op rootVal st
      = (Ok VNull, st1\<lparr>errors := errors st1 @ [e]\<rparr>)"
    by (simp add: executeOperation_def)
next
  assume "(if op_operation op = ''mutation''
      then executeFieldsSerially n lib exeContext rootType rootVal None flds st
      else executeFields n lib exeContext rootType rootVal None flds st) = (Throw e, st1)"
  then have "executeFields n lib exeContext rootType rootVal None flds st = (Throw e, st1)"
    by (simp add: executeFieldsSerially_throw split: if_splits)
  then show "raisedIn n lib exeContext (ExecuteFields rootType rootVal None flds) st e st1"
    by (intro throw_raisedIn) (simp add: executeFields_def)
qed

theorem nonNull_failure_propagates_witness:
  "\<not> isError VNull
   \<and> completeValue 1 demoLib demoContext (ScalarT ''String'') [strictNode] strictInfo
         (ResponsePath None (Key ''strict'')) VNull afterStrict = (Ok VNull, afterStrict)
   \<and> completeValue 2 demoLib demoContext (NonNullT (ScalarT ''String'')) [strictNode]
         strictInfo (ResponsePath None (Key ''strict'')) VNull afterStrict
       = (Throw (newError (CannotReturnNullForNonNullable (ObjectT ''Query'') ''strict'')),
          afterStrict)
   \<and> failingCall 5 demoLib demoContext
         (CompleteValue (ListT (NonNullT (ScalarT ''String''))) [itemsNode] itemsInfo itemsPath
            (VArray [VStr ''a'', VNull, VStr ''c''])) demoState
       = Some (CompleteListValue (ListT (NonNullT (ScalarT ''String''))) [itemsNode] itemsInfo
                 itemsPath (VArray [VStr ''a'', VNull, VStr ''c'']), demoState)
   \<and> \<not> isolates (CompleteValue (ListT (NonNullT (ScalarT ''String''))) [itemsNode] itemsInfo
           itemsPath (VArray [VStr ''a'', VNull, VStr ''c'']))
   \<and> completeListValue 5 demoLib demoContext (ListT (NonNullT (ScalarT ''String'')))
         [itemsNode] itemsInfo itemsPath (VArray [VStr ''a'', VNull, VStr ''c'']) demoState
       = (Throw nullItemError, demoState)
   \<and> completeValue 6 demoLib demoContext (ListT (NonNullT (ScalarT ''String'')))
         [itemsNode] itemsInfo itemsPath (VArray [VStr ''a'', VNull, VStr ''c'']) demoState
       = (Throw nullItemError, demoState)
   \<and> completeValueWithLocatedError 10 demoLib demoContext (ObjectT ''Parent'') [parentNode]
         parentInfo demoParentPath (VObject ObjectPrototype []) afterParent
       = (Throw childError, afterChild)
   \<and> origin 10 demoLib demoContext
         (CompleteValueWithLocatedError (ObjectT ''Parent'') [parentNode] parentInfo
            demoParentPath (VObject ObjectPrototype [])) afterParent
       = (2, CompleteValue (NonNullT (ScalarT ''String'')) [childNode] childInfo
               (ResponsePath (Some demoParentPath) (Key ''child'')) VNull, afterChild)
   \<and> raisedIn 10 demoLib demoContext
         (CompleteValueWithLocatedError (ObjectT ''Parent'') [parentNode] parentInfo
            demoParentPath (VObject ObjectPrototype [])) afterParent childError afterChild
   \<and> \<not> isNonNull (ObjectT ''Parent'')
   \<and> completeValueCatchingError 11 demoLib demoContext (ObjectT ''Parent'') [parentNode]
         parentInfo demoParentPath (VObject ObjectPrototype []) afterParent
       = (Ok VNull, afterChild\<lparr>errors := [childError]\<rparr>)
   \<and> executeFieldsSerially 6 demoLib demoContext (ObjectT ''Query'') VNull None
         [(''hello'', [helloNode]), (''strict'', [strictNode]), (''again'', [helloNode])]
         demoState
       = (Throw strictError, afterHelloStrict)
   \<and> executeFields 6 demoLib demoContext (ObjectT ''Query'') VNull None
         [(''hello'', [helloNode]), (''strict'', [strictNode]), (''again'', [helloNode])]
         demoState
       = (Throw strictError, afterHelloStrict)
   \<and> getOperationRootType (schema demoContext) (demoOperation ''mutation'' [Field strictNode])
       = Inr (ObjectT ''Query'')
   \<and> collectFields demoLib demoContext (ObjectT ''Query'')
         (op_selectionSet (demoOperation ''mutation'' [Field strictNode])) [] {}
       = Inr ([(''strict'', [strictNode])], {})
   \<and> executeFieldsSerially 6 demoLib demoContext (ObjectT ''Query'') VNull None
         [(''strict'', [strictNode])] demoState
       = (Throw strictError, afterStrict)
   \<and> executeOperation 6 demoLib demoContext (demoOperation ''mutation'' [Field strictNode])
         VNull demoState
       = (Ok VNull, afterStrict\<lparr>errors := [strictError]\<rparr>)
   \<and> executeOperation 13 demoLib demoContext (demoOperation ''query'' [Field parentNode])
         VNull demoState
       = (Ok (VObject NullPrototype [(''parent'', VNull)]),
          afterChild\<lparr>errors := [childError]\<rparr>)"
proof -
  let ?strictPath = "ResponsePath None (Key ''strict'')"
  let ?list = "VArray [VStr ''a'', VNull, VStr ''c'']"
  let ?listType = "ListT (NonNullT (ScalarT ''String''))"
  let ?parent = "CompleteValueWithLocatedError (ObjectT ''Parent'') [parentNode] parentInfo
      demoParentPath (VObject ObjectPrototype [])"
  note eval = eval_nat_numeral demo_eval demo_nodes
  have a1: "\<not> isError VNull"
    by simp
  have a2: "completeValue 1 demoLib demoContext (ScalarT ''String'') [strictNode] strictInfo
      ?strictPath VNull afterStrict = (Ok VNull, afterStrict)"
    by (simp add: eval)
  have a3: "completeValue 2 demoLib demoContext (NonNullT (ScalarT ''String'')) [strictNode]
      strictInfo ?strictPath VNull afterStrict
    = (Throw (newError (CannotReturnNullForNonNullable (ObjectT ''Query'') ''strict'')),
       afterStrict)"
    using nonNull_failure_propagates [where n = 1 and lib = demoLib
        and exeContext = demoContext and ofType = "ScalarT ''String''"
        and fieldNodes = "[strictNode]" and info = strictInfo and path = ?strictPath
        and result = VNull and st = afterStrict and ?st1.0 = afterStrict,
        THEN conjunct2, THEN conjunct1, THEN mp, THEN mp, OF a1 a2]
    by (simp add: eval)
  have f1: "failingCall 5 demoLib demoContext
      (CompleteValue ?listType [itemsNode] itemsInfo itemsPath ?list) demoState
    = Some (CompleteListValue ?listType [itemsNode] itemsInfo itemsPath ?list, demoState)"
    by (simp add: failingCall_def throwing_def run_call eval)
  have f2: "\<not> isolates (CompleteValue ?listType [itemsNode] itemsInfo itemsPath ?list)"
    by simp
  have f3: "completeListValue 5 demoLib demoContext ?listType [itemsNode] itemsInfo itemsPath
      ?list demoState = (Throw nullItemError, demoState)"
    by (simp add: eval)
  have f4: "completeValue 6 demoLib demoContext ?listType [itemsNode] itemsInfo itemsPath
      ?list demoState = (Throw nullItemError, demoState)"
    using nonNull_failure_propagates [where n = 5 and lib = demoLib
        and exeContext = demoContext
        and c = "CompleteValue ?listType [itemsNode] itemsInfo itemsPath ?list"
        and c' = "CompleteListValue ?listType [itemsNode] itemsInfo itemsPath ?list"
        and st = demoState and ?st0.0 = demoState,
        THEN conjunct2, THEN conjunct2, THEN conjunct1, THEN mp, THEN mp, OF f1 f2] f3
    by (simp add: run_call rethrown_def eval_nat_numeral)
  have b2: "completeValueWithLocatedError 10 demoLib demoContext (ObjectT ''Parent'')
      [parentNode] parentInfo demoParentPath (VObject ObjectPrototype []) afterParent
    = (Throw childError, afterChild)"
    by (simp add: eval)
  then have b2': "run 10 demoLib demoContext ?parent afterParent
    = (Throw childError, afterChild)"
    by (simp add: completeValueWithLocatedError_def)
  have o1: "origin 10 demoLib demoContext ?parent afterParent
    = (2, CompleteValue (NonNullT (ScalarT ''String'')) [childNode] childInfo
            (ResponsePath (Some demoParentPath) (Key ''child'')) VNull, afterChild)"
    by (simp add: failingCall_def throwing_def run_call eval)
  have o2: "raisedIn 10 demoLib demoContext ?parent afterParent childError afterChild"
    using nonNull_failure_propagates [where n = 10 and lib = demoLib
        and exeContext = demoContext and c = ?parent and st = afterParent
        and e = childError and ?st1.0 = afterChild,
        THEN conjunct2, THEN conjunct2, THEN conjunct2, THEN conjunct1, THEN mp, OF b2']
    by simp
  have b1: "\<not> isNonNull (ObjectT ''Parent'')"
    by simp
  have b3: "completeValueCatchingError 11 demoLib demoContext (ObjectT ''Parent'') [parentNode]
      parentInfo demoParentPath (VObject ObjectPrototype []) afterParent
    = (Ok VNull, afterChild\<lparr>errors := [childError]\<rparr>)"
    using nonNull_failure_propagates [where n = 10 and lib = demoLib
        and exeContext = demoContext and returnType = "ObjectT ''Parent''"
        and fieldNodes = "[parentNode]" and info = parentInfo and path = demoParentPath
        and result = "VObject ObjectPrototype []" and st = afterParent and e = childError
        and ?st1.0 = afterChild,
        THEN conjunct2, THEN conjunct2, THEN conjunct2, THEN conjunct2, THEN conjunct1, THEN mp, THEN mp, OF b1 b2]
    by (simp add: afterChild_def eval_nat_numeral)
  have s1: "executeFieldsSerially 6 demoLib demoContext (ObjectT ''Query'') VNull None
      [(''hello'', [helloNode]), (''strict'', [strictNode]), (''again'', [helloNode])] demoState
    = (Throw strictError, afterHelloStrict)"
    by (simp add: eval)
  have s2: "executeFields 6 demoLib demoContext (ObjectT ''Query'') VNull None
      [(''hello'', [helloNode]), (''strict'', [strictNode]), (''again'', [helloNode])] demoState
    = (Throw strictError, afterHelloStrict)"
    using nonNull_failure_propagates [where n = 6 and lib = demoLib
        and exeContext = demoContext and parentType = "ObjectT ''Query''" and source = VNull
        and fieldsPath = None and st = demoState and e = strictError
        and flds = "[(''hello'', [helloNode]), (''strict'', [strictNode]),
                     (''again'', [helloNode])]"
        and ?st1.0 = afterHelloStrict,
        THEN conjunct2, THEN conjunct2, THEN conjunct2, THEN conjunct2, THEN conjunct2, THEN conjunct1] s1
    by simp
  have r1: "getOperationRootType (schema demoContext)
      (demoOperation ''mutation'' [Field strictNode]) = Inr (ObjectT ''Query'')"
    by (simp add: getOperationRootType_def demoOperation_def demoContext_def demoSchema_def)
  have r2: "collectFields demoLib demoContext (ObjectT ''Query'')
      (op_selectionSet (demoOperation ''mutation'' [Field strictNode])) [] {}
    = Inr ([(''strict'', [strictNode])], {})"
    by (simp add: demoOperation_def strictNode_def shouldIncludeNode_def getFieldEntryKey_def
        addField_def)
  have r3: "executeFieldsSerially 6 demoLib demoContext (ObjectT ''Query'') VNull None
        [(''strict'', [strictNode])] demoState = (Throw strictError, afterStrict)"
    by (simp add: eval)
  then have r3': "(if op_operation (demoOperation ''mutation'' [Field strictNode])
        = ''mutation''
      then executeFieldsSerially 6 demoLib demoContext (ObjectT ''Query'') VNull None
        [(''strict'', [strictNode])] demoState
      else executeFields 6 demoLib demoContext (ObjectT ''Query'') VNull None
        [(''strict'', [strictNode])] demoState) = (Throw strictError, afterStrict)"
    by (simp add: demoOperation_def)
  have r4: "executeOperation 6 demoLib demoContext
      (demoOperation ''mutation'' [Field strictNode]) VNull demoState
    = (Ok VNull, afterStrict\<lparr>errors := [strictError]\<rparr>)"
    using nonNull_failure_propagates [where n = 6 and lib = demoLib
        and exeContext = demoContext and op = "demoOperation ''mutation'' [Field strictNode]"
        and rootType = "ObjectT ''Query''" and flds = "[(''strict'', [strictNode])]"
        and visited = "{}" and rootVal = VNull and st = demoState and e = strictError
        and ?st1.0 = afterStrict,
        THEN conjunct2, THEN conjunct2, THEN conjunct2, THEN conjunct2, THEN conjunct2, THEN conjunct2, THEN mp, THEN mp, THEN mp, OF r1 r2 r3']
    by (simp add: afterStrict_def)
  have b4: "executeOperation 13 demoLib demoContext
      (demoOperation ''query'' [Field parentNode]) VNull demoState
    = (Ok (VObject NullPrototype [(''parent'', VNull)]), afterChild\<lparr>errors := [childError]\<rparr>)"
    by (simp add: eval)
  from a1 a2 a3 f1 f2 f3 f4 b2 o1 o2 b1 b3 s1 s2 r1 r2 r3 r4 b4 show ?thesis
    by simp
qed

subsection \<open>C2: fragment spreads in selection collection\<close>

lemma demo_shouldInclude_skip:
  "shouldIncludeNode demoLib demoContext [ifDirective ''skip'' True] = Inr False"
  by (simp add: shouldIncludeNode_def demoLib_def demoContext_def ifDirective_def
      demoDirectiveArgument_def GraphQLSkipDirective_name_def GraphQLIncludeDirective_name_def)

lemma demo_shouldInclude_none: "shouldIncludeNode demoLib demoContext [] = Inr True"
  by (simp add: shouldIncludeNode_def)

lemma demo_fragment_matches:
  "doesFragmentConditionMatch demoLib demoContext (Some ''Query'') (ObjectT ''Query'')"
  by (simp add: doesFragmentConditionMatch_def demoLib_def demoContext_def demoSchema_def
      demoTypes_def)

lemma demo_fragments: "map_of (fragments demoContext) ''F'' = Some demoFragment"
  by (simp add: demoContext_def)

lemma demo_collect_hello:
  "collectFields demoLib demoContext (ObjectT ''Query'') [Field helloNode] flds visited =
     Inr (addField ''hello'' helloNode flds, visited)"
  by (simp add: demo_shouldInclude_none helloNode_def getFieldEntryKey_def)

text \<open>
  C2 as stated fails: in \<open>{ ...F @skip(if: true) ...F }\<close> the first spread is excluded by
  its directive. The source tests the directive of a spread in the same condition as the
  visited set, before it marks the name, so the second spread still expands the fragment
  and \<open>hello\<close> is collected; marking the name first would skip the second spread.
\<close>

theorem collectFields_spread_marks_first_counterexample:
  "collectFields demoLib demoContext (ObjectT ''Query'')
     [FragmentSpread ''F'' [ifDirective ''skip'' True], FragmentSpread ''F'' []] [] {}
   = Inr ([(''hello'', [helloNode])], {''F''})
   \<and> fragmentSpread_spec demoLib demoContext (ObjectT ''Query'') ''F''
       [ifDirective ''skip'' True] [FragmentSpread ''F'' []] [] {}
   = Inr ([], {''F''})
   \<and> collectFields demoLib demoContext (ObjectT ''Query'')
       [FragmentSpread ''F'' [ifDirective ''skip'' True], FragmentSpread ''F'' []] [] {}
     \<noteq> fragmentSpread_spec demoLib demoContext (ObjectT ''Query'') ''F''
         [ifDirective ''skip'' True] [FragmentSpread ''F'' []] [] {}"
  by (simp add: fragmentSpread_spec_def demo_shouldInclude_skip demo_shouldInclude_none
      demo_fragment_matches demo_fragments demoFragment_def addField_def helloNode_def
      getFieldEntryKey_def)

text \<open>
  C2, amended. A fragment spread whose name is already visited is skipped. Otherwise
  directive evaluation comes first, and a spread that it excludes is skipped without being
  marked. Otherwise the name is marked as visited; the spread is then skipped if the fragment
  is undefined or if its type condition does not match the runtime type, and otherwise the
  collection goes into the selection set of the fragment with the same grouping and the
  same visited set, and goes on after it with what that collection returns.
\<close>

theorem collectFields_fragment_spread:
  "collectFields lib exeContext runtimeType (FragmentSpread fragName ds # rest) flds visited =
     (if fragName \<in> visited
      then collectFields lib exeContext runtimeType rest flds visited
      else (case shouldIncludeNode lib exeContext ds of
              Inl e \<Rightarrow> Inl e
            | Inr included \<Rightarrow>
                if \<not> included
                then collectFields lib exeContext runtimeType rest flds visited
                else (case map_of (fragments exeContext) fragName of
                        None \<Rightarrow>
                          collectFields lib exeContext runtimeType rest flds
                            (insert fragName visited)
                      | Some fragment \<Rightarrow>
                          if \<not> doesFragmentConditionMatch lib exeContext
                                 (fr_typeCondition fragment) runtimeType
                          then collectFields lib exeContext runtimeType rest flds
                                 (insert fragName visited)
                          else (case collectFields lib exeContext runtimeType
                                       (fr_selectionSet fragment) flds
                                       (insert fragName visited) of
                                  Inl e \<Rightarrow> Inl e
                                | Inr (flds', visited') \<Rightarrow>
                                    collectFields lib exeContext runtimeType rest flds'
                                      visited'))))"
  by (simp split: sum.splits bool.splits)

subsection \<open>C3: skip has precedence over include\<close>

lemma skip_block:
  assumes "coercedIf lib exeContext ''skip'' directives skipIf"
  shows "(case find (\<lambda>directive. d_name directive = GraphQLSkipDirective_name) directives of
            None \<Rightarrow> Inr False
          | Some skipNode \<Rightarrow>
              (case getDirectiveArgumentValues lib GraphQLSkipDirective_name skipNode
                      (variableValues exeContext) of
                 Inl e \<Rightarrow> Inl e
               | Inr a \<Rightarrow> Inr (map_of a ''if'' = Some (VBool True))))
         = Inr (skipIf = Some (VBool True))"
  using assms
  by (auto simp: coercedIf_def GraphQLSkipDirective_name_def split: option.splits sum.splits)

lemma include_block:
  assumes "coercedIf lib exeContext ''include'' directives includeIf"
  shows "(case find (\<lambda>directive. d_name directive = GraphQLIncludeDirective_name) directives of
            None \<Rightarrow> Inr True
          | Some includeNode \<Rightarrow>
              (case getDirectiveArgumentValues lib GraphQLIncludeDirective_name includeNode
                      (variableValues exeContext) of
                 Inl e \<Rightarrow> Inl e
               | Inr a \<Rightarrow> Inr (map_of a ''if'' \<noteq> Some (VBool False))))
         = Inr (includeIf \<noteq> Some (VBool False))"
  using assms
  by (auto simp: coercedIf_def GraphQLIncludeDirective_name_def
      split: option.splits sum.splits)

text \<open>
  C3 as it is stated fails for an \<open>@include\<close> directive whose coerced \<open>if\<close> is no boolean:
  in \<open>hello @include(if: $flag)\<close> with the variable \<open>flag\<close> set to null there is no
  \<open>@skip\<close>, the coerced \<open>if\<close> of \<open>@include\<close> is null, which is not true, and the node is
  included.
\<close>

theorem shouldIncludeNode_include_not_true_counterexample:
  "coercedIf demoLib flagContext ''skip'' [includeFlag] None
   \<and> coercedIf demoLib flagContext ''include'' [includeFlag] (Some VNull)
   \<and> VNull \<noteq> VBool True
   \<and> shouldIncludeNode demoLib flagContext [includeFlag] = Inr True"
  by (simp add: coercedIf_def shouldIncludeNode_def demoLib_def flagContext_def
      includeFlag_def demoDirectiveArgument_def GraphQLSkipDirective_name_def
      GraphQLIncludeDirective_name_def)

text \<open>
  C3. Directive evaluation gives \<open>@skip\<close> precedence over \<open>@include\<close>: when a \<open>@skip\<close>
  directive is present and its coerced \<open>if\<close> is true the node is excluded, whatever an
  \<open>@include\<close> directive says or does; otherwise, when an \<open>@include\<close> directive is present,
  the node is excluded exactly if its coerced \<open>if\<close> is false, so that it is included when
  the coerced \<open>if\<close> is true and also when it is no boolean; without both directives the
  node is included.
\<close>

theorem shouldIncludeNode_skip_over_include:
  assumes "coercedIf lib exeContext ''skip'' directives skipIf"
    and "skipIf \<noteq> Some (VBool True)
         \<Longrightarrow> coercedIf lib exeContext ''include'' directives includeIf"
  shows "shouldIncludeNode lib exeContext directives =
     Inr (if skipIf = Some (VBool True) then False else includeIf \<noteq> Some (VBool False))"
proof (cases "skipIf = Some (VBool True)")
  case True
  with skip_block [OF assms(1)] show ?thesis
    by (simp add: shouldIncludeNode_def)
next
  case False
  with assms(2) have "coercedIf lib exeContext ''include'' directives includeIf"
    by simp
  from include_block [OF this] skip_block [OF assms(1)] False show ?thesis
    by (simp add: shouldIncludeNode_def)
qed

theorem shouldIncludeNode_skip_over_include_witness:
  "coercedIf demoLib demoContext ''skip''
     [ifDirective ''skip'' True, ifDirective ''include'' True] (Some (VBool True))
   \<and> shouldIncludeNode demoLib demoContext
     [ifDirective ''skip'' True, ifDirective ''include'' True] = Inr False
   \<and> coercedIf demoLib demoContext ''skip''
     [ifDirective ''include'' False, ifDirective ''skip'' False] (Some (VBool False))
   \<and> coercedIf demoLib demoContext ''include''
     [ifDirective ''include'' False, ifDirective ''skip'' False] (Some (VBool False))
   \<and> shouldIncludeNode demoLib demoContext
     [ifDirective ''include'' False, ifDirective ''skip'' False] = Inr False
   \<and> coercedIf demoLib demoContext ''skip'' [ifDirective ''include'' True] None
   \<and> coercedIf demoLib demoContext ''include'' [ifDirective ''include'' True]
     (Some (VBool True))
   \<and> shouldIncludeNode demoLib demoContext [ifDirective ''include'' True] = Inr True
   \<and> coercedIf demoLib flagContext ''skip'' [includeFlag] None
   \<and> coercedIf demoLib flagContext ''include'' [includeFlag] (Some VNull)
   \<and> shouldIncludeNode demoLib flagContext [includeFlag] = Inr True
   \<and> coercedIf demoLib demoContext ''skip'' [] None
   \<and> coercedIf demoLib demoContext ''include'' [] None
   \<and> shouldIncludeNode demoLib demoContext [] = Inr True"
proof -
  note defs = coercedIf_def demoLib_def demoContext_def flagContext_def ifDirective_def
    includeFlag_def demoDirectiveArgument_def
  have s1: "coercedIf demoLib demoContext ''skip''
      [ifDirective ''skip'' True, ifDirective ''include'' True] (Some (VBool True))"
    by (simp add: defs)
  have s2: "coercedIf demoLib demoContext ''skip''
      [ifDirective ''include'' False, ifDirective ''skip'' False] (Some (VBool False))"
    by (simp add: defs)
  have i2: "coercedIf demoLib demoContext ''include''
      [ifDirective ''include'' False, ifDirective ''skip'' False] (Some (VBool False))"
    by (simp add: defs)
  have s3: "coercedIf demoLib demoContext ''skip'' [ifDirective ''include'' True] None"
    by (simp add: defs)
  have i3: "coercedIf demoLib demoContext ''include'' [ifDirective ''include'' True]
      (Some (VBool True))"
    by (simp add: defs)
  have s4: "coercedIf demoLib flagContext ''skip'' [includeFlag] None"
    by (simp add: defs)
  have i4: "coercedIf demoLib flagContext ''include'' [includeFlag] (Some VNull)"
    by (simp add: defs)
  have s5: "coercedIf demoLib demoContext ''skip'' [] None"
    by (simp add: defs)
  have i5: "coercedIf demoLib demoContext ''include'' [] None"
    by (simp add: defs)
  from shouldIncludeNode_skip_over_include [OF s1, where includeIf = None]
       shouldIncludeNode_skip_over_include [OF s2 i2]
       shouldIncludeNode_skip_over_include [OF s3 i3]
       shouldIncludeNode_skip_over_include [OF s4 i4]
       shouldIncludeNode_skip_over_include [OF s5 i5]
       s1 s2 i2 s3 i3 s4 i4 s5 i5
  show ?thesis by simp
qed

subsection \<open>C4: completion of leaf values\<close>




subsection \<open>C5: completion of abstract values\<close>

lemma firstTypeOf_find:
  assumes "\<forall>t \<in> set ts. \<forall>p. isTypeOf sch t = Some p \<longrightarrow> (\<exists>b. p v context info = Inr b)"
  shows "firstTypeOf sch ts v context info =
     (case find (\<lambda>t. case isTypeOf sch t of
                        Some p \<Rightarrow> p v context info = Inr True
                      | None \<Rightarrow> False) ts of
        Some t \<Rightarrow> Inr (TypeRef t)
      | None \<Rightarrow> Inr NoType)"
  using assms
proof (induction ts)
  case Nil
  show ?case by simp
next
  case (Cons t ts)
  show ?case
  proof (cases "isTypeOf sch t")
    case None
    with Cons show ?thesis by simp
  next
    case (Some p)
    with Cons.prems obtain b where "p v context info = Inr b"
      by auto
    with Some Cons show ?thesis
      by (cases b) simp_all
  qed
qed

text \<open>
  C5 as stated fails for a result that is an \<open>Error\<close>: the default strategy finds \<open>Dog\<close> for
  it and the completion against the abstract type would go through, but \<open>completeValue\<close>
  rethrows the result before it looks at the type, and no runtime type is determined.
\<close>

theorem abstract_completion_error_result_counterexample:
  "isAbstractType (InterfaceT ''Pet'') \<and> \<not> isNullish boomError
   \<and> completeAbstractValue (Suc (Suc (Suc (Suc 0)))) demoLib demoContext (InterfaceT ''Pet'')
         [petNode] petInfo (ResponsePath None (Key ''pet'')) boomError demoState
       = (Ok (VObject NullPrototype []), demoState)
   \<and> completeValue (Suc (Suc (Suc (Suc (Suc 0))))) demoLib demoContext (InterfaceT ''Pet'')
         [petNode] petInfo (ResponsePath None (Key ''pet'')) boomError demoState
       = (Throw boomError, demoState)"
  by (simp add: demo_eval boomError_def petNode_def petInfo_def)

text \<open>
  C5, amended. For an abstract return type and a result that is neither null-like nor an
  \<open>Error\<close>, completion asks the \<open>resolveType\<close> function of the type when it has one and
  otherwise probes the possible types of the type in the order of the schema; a string is
  looked up in the schema; completion fails when what comes out is not an object type
  (also when nothing comes out, because no predicate accepts the result) or when the schema
  denies that it is a possible type of the abstract type, and otherwise goes on as the
  completion of an object of that type. When no type predicate throws, the default
  strategy yields the first possible type whose predicate accepts the result, and nothing
  when there is none.
\<close>

theorem abstract_completion:
  assumes "isAbstractType returnType" and "\<not> isNullish result" and "\<not> isError result"
  shows "completeValue (Suc (Suc n)) lib exeContext returnType fieldNodes info path result st =
     (case (case resolveType (schema exeContext) returnType of
              Some f \<Rightarrow> f result (contextValue exeContext) info
            | None \<Rightarrow>
                firstTypeOf (schema exeContext)
                  (getPossibleTypes (schema exeContext) returnType) result
                  (contextValue exeContext) info) of
        Inl e \<Rightarrow> (Throw e, st)
      | Inr runtimeTypeOrName \<Rightarrow>
          (case (case runtimeTypeOrName of
                   TypeName s \<Rightarrow> getType (schema exeContext) s
                 | TypeRef t \<Rightarrow> Some t
                 | NoType \<Rightarrow> None) of
             Some (ObjectT name) \<Rightarrow>
               if isPossibleType (schema exeContext) returnType (ObjectT name)
               then completeObjectValue n lib exeContext (ObjectT name) fieldNodes info path
                      result st
               else (Throw (newGraphQLError
                              (RuntimeObjectTypeNotPossible (ObjectT name) returnType)
                              (map FieldN fieldNodes)), st)
           | runtimeType \<Rightarrow>
               (Throw (newGraphQLError
                         (AbstractTypeMustResolveToObjectType returnType (i_parentType info)
                            (i_fieldName info) result runtimeType)
                         (map FieldN fieldNodes)), st)))
    \<and> ((\<forall>t \<in> set (getPossibleTypes (schema exeContext) returnType).
           \<forall>p. isTypeOf (schema exeContext) t = Some p \<longrightarrow>
             (\<exists>b. p result (contextValue exeContext) info = Inr b)) \<longrightarrow>
        firstTypeOf (schema exeContext) (getPossibleTypes (schema exeContext) returnType)
            result (contextValue exeContext) info
          = (case find (\<lambda>t. case isTypeOf (schema exeContext) t of
                               Some p \<Rightarrow> p result (contextValue exeContext) info = Inr True
                             | None \<Rightarrow> False)
                    (getPossibleTypes (schema exeContext) returnType) of
               Some t \<Rightarrow> Inr (TypeRef t)
             | None \<Rightarrow> Inr NoType))"
proof (intro conjI impI)
  have dispatch: "completeValue (Suc (Suc n)) lib exeContext returnType fieldNodes info path
      result st
    = completeAbstractValue (Suc n) lib exeContext returnType fieldNodes info path result st"
    using assms by (cases returnType) (simp_all add: completeValue_Suc)
  show "completeValue (Suc (Suc n)) lib exeContext returnType fieldNodes info path result st =
     (case (case resolveType (schema exeContext) returnType of
              Some f \<Rightarrow> f result (contextValue exeContext) info
            | None \<Rightarrow>
                firstTypeOf (schema exeContext)
                  (getPossibleTypes (schema exeContext) returnType) result
                  (contextValue exeContext) info) of
        Inl e \<Rightarrow> (Throw e, st)
      | Inr runtimeTypeOrName \<Rightarrow>
          (case (case runtimeTypeOrName of
                   TypeName s \<Rightarrow> getType (schema exeContext) s
                 | TypeRef t \<Rightarrow> Some t
                 | NoType \<Rightarrow> None) of
             Some (ObjectT name) \<Rightarrow>
               if isPossibleType (schema exeContext) returnType (ObjectT name)
               then completeObjectValue n lib exeContext (ObjectT name) fieldNodes info path
                      result st
               else (Throw (newGraphQLError
                              (RuntimeObjectTypeNotPossible (ObjectT name) returnType)
                              (map FieldN fieldNodes)), st)
           | runtimeType \<Rightarrow>
               (Throw (newGraphQLError
                         (AbstractTypeMustResolveToObjectType returnType (i_parentType info)
                            (i_fieldName info) result runtimeType)
                         (map FieldN fieldNodes)), st)))"
    unfolding dispatch completeAbstractValue_Suc defaultResolveTypeFn_def
      ensureValidRuntimeType_def Let_def
    by (simp split: sum.splits option.splits gtype.splits typeOrName.splits)
next
  assume "\<forall>t \<in> set (getPossibleTypes (schema exeContext) returnType).
           \<forall>p. isTypeOf (schema exeContext) t = Some p \<longrightarrow>
             (\<exists>b. p result (contextValue exeContext) info = Inr b)"
  then show "firstTypeOf (schema exeContext) (getPossibleTypes (schema exeContext) returnType)
            result (contextValue exeContext) info
          = (case find (\<lambda>t. case isTypeOf (schema exeContext) t of
                               Some p \<Rightarrow> p result (contextValue exeContext) info = Inr True
                             | None \<Rightarrow> False)
                    (getPossibleTypes (schema exeContext) returnType) of
               Some t \<Rightarrow> Inr (TypeRef t)
             | None \<Rightarrow> Inr NoType)"
    by (rule firstTypeOf_find)
qed

theorem abstract_completion_witness:
  "isAbstractType (InterfaceT ''Pet'') \<and> \<not> isNullish rex \<and> \<not> isError rex
   \<and> getPossibleTypes (schema demoContext) (InterfaceT ''Pet'')
       = [ObjectT ''Cat'', ObjectT ''Dog'']
   \<and> map (\<lambda>t. map_option (\<lambda>p. p rex (contextValue demoContext) petInfo)
                 (isTypeOf (schema demoContext) t))
         [ObjectT ''Cat'', ObjectT ''Dog'']
       = [Some (Inr False), Some (Inr True)]
   \<and> firstTypeOf (schema demoContext) (getPossibleTypes (schema demoContext) (InterfaceT ''Pet''))
         rex (contextValue demoContext) petInfo = Inr (TypeRef (ObjectT ''Dog''))
   \<and> completeValue (Suc (Suc (Suc (Suc (Suc 0))))) demoLib demoContext (InterfaceT ''Pet'')
         [petNode] petInfo (ResponsePath None (Key ''pet'')) rex demoState
       = (Ok (VObject NullPrototype []), demoState)"
proof -
  have h: "isAbstractType (InterfaceT ''Pet'')" "\<not> isNullish rex" "\<not> isError rex"
    by (simp_all add: rex_def)
  have total: "\<forall>t \<in> set (getPossibleTypes (schema demoContext) (InterfaceT ''Pet'')).
         \<forall>p. isTypeOf (schema demoContext) t = Some p \<longrightarrow>
           (\<exists>b. p rex (contextValue demoContext) petInfo = Inr b)"
    by (auto simp: demo_defs)
  note inst = abstract_completion [OF h, where exeContext = demoContext and info = petInfo
      and lib = demoLib and fieldNodes = "[petNode]" and st = demoState
      and path = "ResponsePath None (Key ''pet'')" and n = "Suc (Suc (Suc 0))"]
  from inst [THEN conjunct2, THEN mp, OF total]
  have first: "firstTypeOf (schema demoContext)
      (getPossibleTypes (schema demoContext) (InterfaceT ''Pet''))
      rex (contextValue demoContext) petInfo = Inr (TypeRef (ObjectT ''Dog''))"
    by (simp add: demo_defs rex_def)
  from inst [THEN conjunct1] first
  have "completeValue (Suc (Suc (Suc (Suc (Suc 0))))) demoLib demoContext (InterfaceT ''Pet'')
         [petNode] petInfo (ResponsePath None (Key ''pet'')) rex demoState
       = (Ok (VObject NullPrototype []), demoState)"
    by (simp add: demo_eval rex_def petNode_def)
  moreover have "getPossibleTypes (schema demoContext) (InterfaceT ''Pet'')
      = [ObjectT ''Cat'', ObjectT ''Dog'']"
    by (simp add: demo_defs)
  moreover have "map (\<lambda>t. map_option (\<lambda>p. p rex (contextValue demoContext) petInfo)
                 (isTypeOf (schema demoContext) t))
         [ObjectT ''Cat'', ObjectT ''Dog'']
       = [Some (Inr False), Some (Inr True)]"
    by (simp add: demo_defs rex_def)
  ultimately show ?thesis
    using h first by simp
qed

subsection \<open>C6: several operations and no operation name\<close>

text \<open>
  C6 as stated fails when a definition of a kind that cannot be executed stands before the
  second operation definition: the loop over the definitions throws there, with the error
  for that kind, before it meets the second operation.
\<close>

theorem ambiguous_operation_unsupported_first_counterexample:
  "length (filter isOperationDefinition ambiguousDocument) = 2
   \<and> buildExecutionContext demoLib demoSchema ambiguousDocument VNull VNull VUndefined None None
       = Inl (newGraphQLError (CannotExecuteRequestContaining ''SchemaDefinition'')
                [DefinitionN (OtherDefinition ''SchemaDefinition'')])
   \<and> buildExecutionContext demoLib demoSchema ambiguousDocument VNull VNull VUndefined None None
       \<noteq> Inl (newGraphQLError MustProvideOperationName [])"
  by (simp add: ambiguousDocument_def buildExecutionContext_def noOperationName_def
      newGraphQLError_def)

lemma definitionsLoop_ambiguous:
  assumes "noOperationName operationName"
    and "2 \<le> (if op = None then 0 else 1) + length (filter isOperationDefinition document)"
  shows "\<exists>e. definitionsLoop operationName document op frags = Inl e
     \<and> (\<not> list_ex isOtherDefinition (beforeSecondOperation document (op \<noteq> None))
          \<longrightarrow> e = newGraphQLError MustProvideOperationName [])"
  using assms(2)
proof (induction document arbitrary: op frags)
  case Nil
  then show ?case by (simp split: if_splits)
next
  case (Cons d document)
  show ?case
  proof (cases d)
    case (OperationDefinition x)
    show ?thesis
    proof (cases op)
      case None
      with Cons.prems OperationDefinition
      have "2 \<le> (if Some x = None then 0 else 1)
                + length (filter isOperationDefinition document)"
        by simp
      from Cons.IH [OF this, of frags] None OperationDefinition assms(1)
      show ?thesis by simp
    next
      case (Some y)
      with OperationDefinition assms(1) show ?thesis by simp
    qed
  next
    case (FragmentDefinition f)
    with Cons.prems
    have "2 \<le> (if op = None then 0 else 1) + length (filter isOperationDefinition document)"
      by simp
    from Cons.IH [OF this, of "AList.update (fr_name f) f frags"] FragmentDefinition
    show ?thesis by simp
  next
    case (OtherDefinition kind)
    then show ?thesis by simp
  qed
qed

text \<open>
  C6, amended. For a document with more than one operation definition and no operation
  name, the construction of the execution context fails; the failure is the
  ambiguous-operation error when no definition of an unsupported kind stands before the
  second operation definition. \<open>executeImpl\<close> then returns this error as the only content of
  its result, without data, and leaves the state as it was: no resolver is invoked and no
  field executes.
\<close>

theorem ambiguous_operation:
  assumes "noOperationName operationName"
    and "2 \<le> length (filter isOperationDefinition document)"
  shows "(\<exists>e. buildExecutionContext lib sch document rootVal contextVal rawVariableValues
                 operationName fieldResolverArg = Inl e
             \<and> (\<not> list_ex isOtherDefinition (beforeSecondOperation document False)
                  \<longrightarrow> e = newGraphQLError MustProvideOperationName [])
             \<and> executeImpl n lib sch document rootVal contextVal rawVariableValues
                  operationName fieldResolverArg st
                 = (case assertValidExecutionArguments rawVariableValues of
                      Inl a \<Rightarrow> (Throw a, st)
                    | Inr u \<Rightarrow> (Ok \<lparr> r_errors = Some [e], r_data = None \<rparr>, st)))"
proof -
  from assms(2)
  have "2 \<le> (if (None :: operationDefinition option) = None then 0 else 1)
            + length (filter isOperationDefinition document)"
    by simp
  from definitionsLoop_ambiguous [OF assms(1) this, of "[]"]
  obtain e where loop: "definitionsLoop operationName document None [] = Inl e"
    and amb: "\<not> list_ex isOtherDefinition (beforeSecondOperation document False)
          \<longrightarrow> e = newGraphQLError MustProvideOperationName []"
    by auto
  from loop have build: "buildExecutionContext lib sch document rootVal contextVal
      rawVariableValues operationName fieldResolverArg = Inl e"
    by (simp add: buildExecutionContext_def)
  then have "executeImpl n lib sch document rootVal contextVal rawVariableValues
                  operationName fieldResolverArg st
                 = (case assertValidExecutionArguments rawVariableValues of
                      Inl a \<Rightarrow> (Throw a, st)
                    | Inr u \<Rightarrow> (Ok \<lparr> r_errors = Some [e], r_data = None \<rparr>, st))"
    by (simp add: executeImpl_def split: sum.splits)
  with build amb show ?thesis by blast
qed

theorem ambiguous_operation_witness:
  "noOperationName None \<and> 2 \<le> length (filter isOperationDefinition twoQueries)
   \<and> \<not> list_ex isOtherDefinition (beforeSecondOperation twoQueries False)
   \<and> buildExecutionContext demoLib demoSchema twoQueries VNull VNull VUndefined None None
       = Inl (newGraphQLError MustProvideOperationName [])
   \<and> executeImpl 0 demoLib demoSchema twoQueries VNull VNull VUndefined None None demoState
       = (Ok \<lparr> r_errors = Some [newGraphQLError MustProvideOperationName []],
               r_data = None \<rparr>, demoState)"
proof -
  have h: "noOperationName None" "2 \<le> length (filter isOperationDefinition twoQueries)"
    by (simp_all add: noOperationName_def twoQueries_def)
  have clean: "\<not> list_ex isOtherDefinition (beforeSecondOperation twoQueries False)"
    by (simp add: twoQueries_def)
  from ambiguous_operation [OF h, of demoLib demoSchema VNull VNull VUndefined None 0 demoState]
    clean
  have "buildExecutionContext demoLib demoSchema twoQueries VNull VNull VUndefined None None
       = Inl (newGraphQLError MustProvideOperationName [])
   \<and> executeImpl 0 demoLib demoSchema twoQueries VNull VNull VUndefined None None demoState
       = (Ok \<lparr> r_errors = Some [newGraphQLError MustProvideOperationName []],
               r_data = None \<rparr>, demoState)"
    by (auto simp: assertValidExecutionArguments_def)
  with h clean show ?thesis by simp
qed

subsection \<open>C7: list completion\<close>





subsection \<open>C8: unknown fields are omitted\<close>





subsection \<open>C9: failures of resolvers are errors\<close>



lemma recordsOnlyErrors_same: "errors st' = errors st \<Longrightarrow> recordsOnlyErrors st st'"
  by (simp add: recordsOnlyErrors_def)



lemma isError_asError: "isError (asError x)"
  by (simp add: asError_def newError_def)











subsection \<open>C10: the serial driver and the ordered driver\<close>

text \<open>
  Away from the response key \<open>__proto__\<close> the two drivers do the same: the same outcome,
  the same own properties in the same order, the same resolver invocations and the same
  error list; the returned objects differ in their prototype only.
\<close>

lemma reduce_fields_prototype:
  assumes "''__proto__'' \<notin> fst ` set flds"
  shows "reduceM (executeFieldsStep n lib exeContext parentType source path) flds
           (VObject p ps) st
         = (case reduceM (executeFieldsStep n lib exeContext parentType source path) flds
                   (VObject q ps) st of
              (Ok r, st') \<Rightarrow> (Ok (setPrototype p r), st')
            | (Throw e, st') \<Rightarrow> (Throw e, st')
            | (Timeout, st') \<Rightarrow> (Timeout, st'))"
  using assms
proof (induction flds arbitrary: ps st)
  case Nil
  show ?case by simp
next
  case (Cons x flds)
  from Cons.prems have key: "fst x \<noteq> ''__proto__''" and rest: "''__proto__'' \<notin> fst ` set flds"
    by auto
  obtain out st1 where res: "resolveField n lib exeContext parentType source (snd x)
      (addPath path (Key (fst x))) st = (out, st1)"
    by (cases "resolveField n lib exeContext parentType source (snd x)
      (addPath path (Key (fst x))) st")
  show ?case
  proof (cases out)
    case (Ok result)
    with res key Cons.IH [OF rest] show ?thesis
      by (simp add: executeFieldsStep_def)
  next
    case (Throw e)
    with res show ?thesis by (simp add: executeFieldsStep_def)
  next
    case Timeout
    with res show ?thesis by (simp add: executeFieldsStep_def)
  qed
qed

lemma executeFieldsSerially_agrees_without_proto_key:
  assumes "''__proto__'' \<notin> fst ` set flds"
  shows "executeFieldsSerially n lib exeContext parentType source path flds st
         = (case executeFields n lib exeContext parentType source path flds st of
              (Ok r, st') \<Rightarrow> (Ok (setPrototype ObjectPrototype r), st')
            | (Throw e, st') \<Rightarrow> (Throw e, st')
            | (Timeout, st') \<Rightarrow> (Timeout, st'))"
proof (cases n)
  case 0
  then show ?thesis by (simp add: executeFields_0 executeFieldsSerially_0)
next
  case (Suc m)
  then show ?thesis
    by (simp add: executeFields_reduce executeFieldsSerially_reduce
        reduce_fields_prototype [OF assms, of m lib exeContext parentType source path
          ObjectPrototype "[]" st NullPrototype])
qed

text \<open>
  C10 fails at the response key \<open>__proto__\<close>, as in \<open>mutation { __proto__: hello }\<close>:
  \<open>executeFieldsSerially\<close> accumulates into \<open>{}\<close>, where the assignment of the key runs the
  inherited accessor and leaves no own property, and \<open>executeFields\<close> accumulates into
  \<open>Object.create(null)\<close>, where the key becomes an own property. The resolver invocations
  are the same.
\<close>

theorem executeFieldsSerially_proto_key:
  "executeFieldsSerially (Suc (Suc (Suc (Suc (Suc 0))))) demoLib demoContext
       (ObjectT ''Query'') VNull None [(''__proto__'', [protoNode])] demoState
     = (Ok (VObject ObjectPrototype []),
        \<lparr> errors = [], world = Suc 0,
          calls = [(VNull, [], helloInfo protoNode (ResponsePath None (Key ''__proto__'')))] \<rparr>)
   \<and> executeFields (Suc (Suc (Suc (Suc (Suc 0))))) demoLib demoContext
       (ObjectT ''Query'') VNull None [(''__proto__'', [protoNode])] demoState
     = (Ok (VObject NullPrototype [(''__proto__'', VStr ''world'')]),
        \<lparr> errors = [], world = Suc 0,
          calls = [(VNull, [], helloInfo protoNode (ResponsePath None (Key ''__proto__'')))] \<rparr>)"
  by (simp add: executor_Suc executeFieldsStep_def demo_defs getFieldDef_def
      resolveFieldValueOrError_def firstNode_def completeLeafValue_def protoNode_def
      helloInfo_def addPath_def)

end
